theory Spec2Isabelle
  imports Main "HOL-Library.Word" "HOL-Library.Signed_Division"
begin

unbundle bit_operations_syntax

section \<open>Error codes and outcomes\<close>

text \<open>
  The \<open>esp_err_t\<close> values the component returns itself, the two NVS codes that
  \<open>node_init\<close> tests for, and \<open>ESP_ERR_OTHER\<close> for any other code handed
  back by a collaborator (NVS, the Bluetooth controller, the mesh stack, a user
  callback).
\<close>

datatype esp_err_t =
    ESP_OK
  | ESP_ERR_NO_MEM
  | ESP_ERR_INVALID_ARG
  | ESP_ERR_INVALID_STATE
  | ESP_ERR_NOT_FOUND
  | ESP_ERR_NVS_NO_FREE_PAGES
  | ESP_ERR_NVS_NEW_VERSION_FOUND
  | ESP_ERR_OTHER int

text \<open>
  A C function either returns, or the program leaves defined behaviour: it reads or
  writes through a null pointer, indexes an array out of its bounds, reads through a
  pointer an object of another type than the one stored there, or is stopped by an
  assertion (\<open>ESP_ERROR_CHECK\<close>, the buffer helpers' tail-room assertion).
\<close>

datatype fault = NULL_DEREF | OUT_OF_BOUNDS | BAD_POINTER | ABORTED

datatype 'a outcome = Returned 'a | Crashed fault

definition obind :: "'a outcome \<Rightarrow> ('a \<Rightarrow> 'b outcome) \<Rightarrow> 'b outcome" where
  "obind m f = (case m of Returned x \<Rightarrow> f x | Crashed c \<Rightarrow> Crashed c)"

section \<open>Bytes and network buffers\<close>

type_synonym byte = "8 word"
type_synonym addr = nat

definition le16 :: "16 word \<Rightarrow> byte list" where
  "le16 w = [ucast w, ucast (drop_bit 8 w)]"

definition le32 :: "32 word \<Rightarrow> byte list" where
  "le32 w = [ucast w, ucast (drop_bit 8 w), ucast (drop_bit 16 w), ucast (drop_bit 24 w)]"

text \<open>How a receiver reads a little-endian field back.\<close>

definition from_le16 :: "byte list \<Rightarrow> 16 word" where
  "from_le16 bs = ucast (bs ! 0) OR push_bit 8 (ucast (bs ! 1))"

definition from_le32 :: "byte list \<Rightarrow> 32 word" where
  "from_le32 bs = ucast (bs ! 0) OR push_bit 8 (ucast (bs ! 1))
                  OR push_bit 16 (ucast (bs ! 2)) OR push_bit 24 (ucast (bs ! 3))"

text \<open>
  \<open>struct net_buf_simple\<close>: \<open>buf_data\<close> holds the \<open>len\<close> bytes written so far,
  \<open>buf_size\<close> is the capacity.
\<close>

record net_buf_simple =
  buf_data :: "byte list"
  buf_size :: nat

text \<open>
  Modelled from the spec: the buffer helpers \<open>net_buf_simple_reset\<close>,
  \<open>net_buf_simple_add_u8\<close>, \<open>net_buf_simple_add_le16\<close>, \<open>net_buf_simple_add_le32\<close>
  and \<open>net_buf_simple_add_mem\<close> belong to the mesh stack and are not under src/.
  The spec's codec is "little-endian throughout"; a buffer is "reset, not
  reallocated" for every publish. Appending past the capacity trips the stack's
  tail-room assertion.
\<close>

definition net_buf_simple_reset :: "net_buf_simple \<Rightarrow> net_buf_simple" where
  "net_buf_simple_reset b = b\<lparr>buf_data := []\<rparr>"

definition net_buf_simple_add_mem :: "net_buf_simple \<Rightarrow> byte list \<Rightarrow> net_buf_simple outcome" where
  "net_buf_simple_add_mem b bs =
     (if length (buf_data b) + length bs \<le> buf_size b
      then Returned (b\<lparr>buf_data := buf_data b @ bs\<rparr>)
      else Crashed ABORTED)"

definition net_buf_simple_add_u8 :: "net_buf_simple \<Rightarrow> byte \<Rightarrow> net_buf_simple outcome" where
  "net_buf_simple_add_u8 b v = net_buf_simple_add_mem b [v]"

definition net_buf_simple_add_le16 :: "net_buf_simple \<Rightarrow> 16 word \<Rightarrow> net_buf_simple outcome" where
  "net_buf_simple_add_le16 b v = net_buf_simple_add_mem b (le16 v)"

definition net_buf_simple_add_le32 :: "net_buf_simple \<Rightarrow> 32 word \<Rightarrow> net_buf_simple outcome" where
  "net_buf_simple_add_le32 b v = net_buf_simple_add_mem b (le32 v)"

text \<open>\<open>NET_BUF_SIMPLE(n)\<close> and the zeroed heap buffers of the sensor model: empty, capacity n.\<close>

definition NET_BUF_SIMPLE :: "nat \<Rightarrow> net_buf_simple" where
  "NET_BUF_SIMPLE n = \<lparr>buf_data = [], buf_size = n\<rparr>"

section \<open>Model descriptors\<close>

text \<open>
  \<open>mesh_model_type_t\<close>. A C enum object can hold any \<open>int\<close>; a tag that is none of
  the six enumerators is \<open>MESH_MODEL_TYPE_OTHER\<close>.
\<close>

datatype mesh_model_type_t =
    MESH_MODEL_TYPE_ONOFF
  | MESH_MODEL_TYPE_LEVEL
  | MESH_MODEL_TYPE_SENSOR
  | MESH_MODEL_TYPE_POWER_LEVEL
  | MESH_MODEL_TYPE_BATTERY
  | MESH_MODEL_TYPE_VENDOR
  | MESH_MODEL_TYPE_OTHER int

text \<open>
  User functions. The \<open>void\<close> callbacks are known by their identity only, and a call
  is recorded in the trace of the node. The two callbacks that answer are functions
  from what they are handed to the code they return and the content of their
  out-parameter afterwards. A \<open>void *\<close> context is an opaque value, \<open>None\<close> for NULL.
\<close>

type_synonym fn_ptr = nat
type_synonym void_ptr = "nat option"
type_synonym mesh_sensor_read_callback_t = "16 word \<Rightarrow> 32 word \<Rightarrow> void_ptr \<Rightarrow> esp_err_t \<times> 32 word"
type_synonym mesh_battery_callback_t = "byte \<Rightarrow> void_ptr \<Rightarrow> esp_err_t \<times> byte"

record mesh_sensor_config_t =
  sensor_type :: "16 word"
  read :: "mesh_sensor_read_callback_t option"
  publish_period_ms :: "32 word"
  sensor_user_data :: void_ptr

text \<open>
  \<open>mesh_model_config_t\<close>. The members of the C union \<open>config\<close> are kept side by
  side (\<open>onoff_initial_state\<close> is \<open>config.onoff.initial_state\<close>, and so on): the code
  reads only the member that \<open>type\<close> selects. \<open>sensor_sensors\<close> is the array that
  \<open>config.sensor.sensors\<close> points to, \<open>sensor_sensor_count\<close> the count given
  with it.
\<close>

record mesh_model_config_t =
  type :: mesh_model_type_t
  enable_publication :: bool
  onoff_callback :: "fn_ptr option"
  onoff_initial_state :: byte
  onoff_user_data :: void_ptr
  level_callback :: "fn_ptr option"
  level_initial_level :: "16 word"
  level_user_data :: void_ptr
  sensor_sensors :: "mesh_sensor_config_t list"
  sensor_sensor_count :: byte
  battery_callback :: "mesh_battery_callback_t option"
  battery_publish_period_ms :: "32 word"
  battery_user_data :: void_ptr
  vendor_company_id :: "16 word"
  vendor_model_id :: "16 word"
  vendor_handler :: "fn_ptr option"
  vendor_user_data :: void_ptr

definition zero_config :: mesh_model_config_t where
  "zero_config = \<lparr>type = MESH_MODEL_TYPE_ONOFF, enable_publication = False,
     onoff_callback = None, onoff_initial_state = 0, onoff_user_data = None,
     level_callback = None, level_initial_level = 0, level_user_data = None,
     sensor_sensors = [], sensor_sensor_count = 0,
     battery_callback = None, battery_publish_period_ms = 0, battery_user_data = None,
     vendor_company_id = 0, vendor_model_id = 0, vendor_handler = None,
     vendor_user_data = None\<rparr>"

text \<open>The initialiser macros of \<open>ble_mesh_models.h\<close>.\<close>

definition MESH_MODEL_ONOFF :: "fn_ptr option \<Rightarrow> byte \<Rightarrow> void_ptr \<Rightarrow> mesh_model_config_t" where
  "MESH_MODEL_ONOFF cb init ctx = zero_config\<lparr>type := MESH_MODEL_TYPE_ONOFF,
     enable_publication := True, onoff_callback := cb, onoff_initial_state := init,
     onoff_user_data := ctx\<rparr>"

definition MESH_MODEL_LEVEL :: "fn_ptr option \<Rightarrow> 16 word \<Rightarrow> void_ptr \<Rightarrow> mesh_model_config_t" where
  "MESH_MODEL_LEVEL cb init ctx = zero_config\<lparr>type := MESH_MODEL_TYPE_LEVEL,
     enable_publication := True, level_callback := cb, level_initial_level := init,
     level_user_data := ctx\<rparr>"

definition MESH_MODEL_SENSOR :: "mesh_sensor_config_t list \<Rightarrow> byte \<Rightarrow> mesh_model_config_t" where
  "MESH_MODEL_SENSOR sensor_array n = zero_config\<lparr>type := MESH_MODEL_TYPE_SENSOR,
     enable_publication := True, sensor_sensors := sensor_array, sensor_sensor_count := n\<rparr>"

definition MESH_MODEL_VENDOR ::
  "16 word \<Rightarrow> 16 word \<Rightarrow> fn_ptr option \<Rightarrow> void_ptr \<Rightarrow> mesh_model_config_t" where
  "MESH_MODEL_VENDOR cid mid handler ctx = zero_config\<lparr>type := MESH_MODEL_TYPE_VENDOR,
     enable_publication := True, vendor_company_id := cid, vendor_model_id := mid,
     vendor_handler := handler, vendor_user_data := ctx\<rparr>"

definition MESH_MODEL_BATTERY ::
  "mesh_battery_callback_t option \<Rightarrow> 32 word \<Rightarrow> void_ptr \<Rightarrow> mesh_model_config_t" where
  "MESH_MODEL_BATTERY cb period ctx = zero_config\<lparr>type := MESH_MODEL_TYPE_BATTERY,
     enable_publication := True, battery_callback := cb, battery_publish_period_ms := period,
     battery_user_data := ctx\<rparr>"

section \<open>Runtime state\<close>

text \<open>
  \<open>esp_ble_mesh_model_pub_t\<close>: the publication context of a model. The stack writes
  \<open>publish_addr\<close> once an operator binds a destination. \<open>msg\<close> is the publication
  buffer, \<open>None\<close> for NULL; a buffer the component took from \<open>calloc\<close> carries its
  block in \<open>msg_block\<close>.
\<close>

record esp_ble_mesh_model_pub_t =
  publish_addr :: "16 word"
  msg :: "net_buf_simple option"
  msg_block :: "addr option"
  pub_update :: nat

definition zero_pub :: esp_ble_mesh_model_pub_t where
  "zero_pub = \<lparr>publish_addr = 0, msg = None, msg_block = None, pub_update = 0\<rparr>"

text \<open>
  Modelled from the spec: \<open>ESP_BLE_MESH_ADDR_UNASSIGNED\<close> is a constant of the mesh
  stack, not under src/: "unbound = a well-known unassigned sentinel", the address
  0x0000 that a zeroed publication context holds.
\<close>

definition ESP_BLE_MESH_ADDR_UNASSIGNED :: "16 word" where
  "ESP_BLE_MESH_ADDR_UNASSIGNED = 0"

text \<open>A pointer into one of the two model arrays of the composition.\<close>

datatype model_ref = SIG_MODEL nat | VND_MODEL nat

record model_state_base =
  pub :: esp_ble_mesh_model_pub_t
  esp_model :: "model_ref option"

text \<open>
  The members the component itself reads or writes are kept; \<open>server_onoff\<close> and
  \<open>server_target_onoff\<close> are \<open>server.state.onoff\<close> and \<open>server.state.target_onoff\<close>.
  The response-control flags and the sensor descriptor tolerances, which only the
  stack reads, are left out.
\<close>

record onoff_model_state_t = model_state_base +
  onoff :: byte
  onoff_cb :: "fn_ptr option"
  onoff_ctx :: void_ptr
  server_onoff :: byte
  server_target_onoff :: byte

record level_model_state_t = model_state_base +
  level :: "16 word"
  level_cb :: "fn_ptr option"
  level_ctx :: void_ptr
  server_level :: "16 word"
  server_target_level :: "16 word"

record esp_ble_mesh_sensor_state_t =
  sensor_property_id :: "16 word"
  raw_value :: "net_buf_simple option"

record sensor_model_state_t = model_state_base +
  sensors :: "mesh_sensor_config_t list"
  sensor_count :: byte
  sensor_states_block :: addr
  sensor_states :: "esp_ble_mesh_sensor_state_t list"
  sensor_bufs_block :: addr
  sensor_bufs :: "addr list"
  server_state_count :: byte
  setup_state_count :: byte
  setup_pub :: esp_ble_mesh_model_pub_t

record battery_model_state_t = model_state_base +
  battery_level :: byte
  battery_cb :: "mesh_battery_callback_t option"
  battery_period_ms :: "32 word"
  battery_ctx :: void_ptr

record vendor_model_state_t = model_state_base +
  company_id :: "16 word"
  model_id :: "16 word"
  handler :: "fn_ptr option"
  vendor_ctx :: void_ptr
  vendor_publish_addr :: "16 word"

text \<open>What a \<open>void *runtime_state\<close> can point to.\<close>

datatype model_state =
    ONOFF_STATE onoff_model_state_t
  | LEVEL_STATE level_model_state_t
  | SENSOR_STATE sensor_model_state_t
  | BATTERY_STATE battery_model_state_t
  | VENDOR_STATE vendor_model_state_t

section \<open>The composition, the registry and the node\<close>

text \<open>
  Modelled from the spec: the model-record initialisers of the mesh stack
  (\<open>ESP_BLE_MESH_MODEL_CFG_SRV\<close>, \<open>ESP_BLE_MESH_MODEL_GEN_ONOFF_SRV\<close>,
  \<open>ESP_BLE_MESH_MODEL_GEN_LEVEL_SRV\<close>, \<open>ESP_BLE_MESH_MODEL_SENSOR_SRV\<close>,
  \<open>ESP_BLE_MESH_MODEL_SENSOR_SETUP_SRV\<close>, \<open>ESP_BLE_MESH_MODEL_GEN_BATTERY_SRV\<close>,
  \<open>ESP_BLE_MESH_VENDOR_MODEL\<close>) are macros that are not under src/. A model record
  names what it is, points to the publication context it publishes with (\<open>None\<close>
  for NULL) and to the runtime state that holds its server structure; a vendor
  record carries its opcode list. \<open>NO_MODEL\<close> is a zeroed slot.
\<close>

datatype mesh_model_id =
    NO_MODEL
  | CFG_SRV
  | GEN_ONOFF_SRV
  | GEN_LEVEL_SRV
  | SENSOR_SRV
  | SENSOR_SETUP_SRV
  | GEN_BATTERY_SRV
  | VENDOR_MODEL "16 word" "16 word"

text \<open>\<open>&state->pub\<close> and \<open>&state->setup_pub\<close> of the runtime state at an address.\<close>

datatype pub_ref = PUB_OF addr | SETUP_PUB_OF addr

record esp_ble_mesh_model_t =
  model :: mesh_model_id
  model_pub :: "pub_ref option"
  model_srv :: "addr option"
  model_op :: "32 word list"

definition zero_model :: esp_ble_mesh_model_t where
  "zero_model = \<lparr>model = NO_MODEL, model_pub = None, model_srv = None, model_op = []\<rparr>"

definition ESP_BLE_MESH_MODEL_CFG_SRV :: esp_ble_mesh_model_t where
  "ESP_BLE_MESH_MODEL_CFG_SRV = zero_model\<lparr>model := CFG_SRV\<rparr>"

definition ESP_BLE_MESH_MODEL_GEN_ONOFF_SRV :: "pub_ref option \<Rightarrow> addr \<Rightarrow> esp_ble_mesh_model_t" where
  "ESP_BLE_MESH_MODEL_GEN_ONOFF_SRV p srv =
     \<lparr>model = GEN_ONOFF_SRV, model_pub = p, model_srv = Some srv, model_op = []\<rparr>"

definition ESP_BLE_MESH_MODEL_GEN_LEVEL_SRV :: "pub_ref option \<Rightarrow> addr \<Rightarrow> esp_ble_mesh_model_t" where
  "ESP_BLE_MESH_MODEL_GEN_LEVEL_SRV p srv =
     \<lparr>model = GEN_LEVEL_SRV, model_pub = p, model_srv = Some srv, model_op = []\<rparr>"

definition ESP_BLE_MESH_MODEL_SENSOR_SRV :: "pub_ref option \<Rightarrow> addr \<Rightarrow> esp_ble_mesh_model_t" where
  "ESP_BLE_MESH_MODEL_SENSOR_SRV p srv =
     \<lparr>model = SENSOR_SRV, model_pub = p, model_srv = Some srv, model_op = []\<rparr>"

definition ESP_BLE_MESH_MODEL_SENSOR_SETUP_SRV :: "pub_ref option \<Rightarrow> addr \<Rightarrow> esp_ble_mesh_model_t" where
  "ESP_BLE_MESH_MODEL_SENSOR_SETUP_SRV p srv =
     \<lparr>model = SENSOR_SETUP_SRV, model_pub = p, model_srv = Some srv, model_op = []\<rparr>"

definition ESP_BLE_MESH_MODEL_GEN_BATTERY_SRV :: "pub_ref option \<Rightarrow> addr \<Rightarrow> esp_ble_mesh_model_t" where
  "ESP_BLE_MESH_MODEL_GEN_BATTERY_SRV p srv =
     \<lparr>model = GEN_BATTERY_SRV, model_pub = p, model_srv = Some srv, model_op = []\<rparr>"

definition ESP_BLE_MESH_VENDOR_MODEL ::
  "16 word \<Rightarrow> 16 word \<Rightarrow> 32 word list \<Rightarrow> pub_ref option \<Rightarrow> esp_ble_mesh_model_t" where
  "ESP_BLE_MESH_VENDOR_MODEL cid mid ops p =
     \<lparr>model = VENDOR_MODEL cid mid, model_pub = p, model_srv = None, model_op = ops\<rparr>"

text \<open>The static opcode list \<open>vendor_op\<close> of \<open>build_models\<close>: 0xC00001 and 0xC00002.\<close>

definition vendor_op :: "32 word list" where
  "vendor_op = [0xC00001, 0xC00002]"

record esp_ble_mesh_elem_t =
  location :: "16 word"
  elem_sig_model_count :: byte
  elem_sig_models :: "addr option"
  elem_vnd_model_count :: byte
  elem_vnd_models :: "addr option"

definition MAX_MODELS :: nat where
  "MAX_MODELS = 8"

record model_registry_entry_t =
  reg_type :: mesh_model_type_t
  reg_esp_model :: "model_ref option"
  user_config :: mesh_model_config_t
  runtime_state :: "addr option"

definition zero_entry :: model_registry_entry_t where
  "zero_entry = \<lparr>reg_type = MESH_MODEL_TYPE_ONOFF, reg_esp_model = None,
     user_config = zero_config, runtime_state = None\<rparr>"

text \<open>
  What the node shows of its calls to collaborators: the user callbacks it invoked
  and the messages it handed to \<open>esp_ble_mesh_server_model_send_msg\<close> (model,
  context, opcode, length, data), in order.
\<close>

record esp_ble_mesh_msg_ctx_t =
  net_idx :: "16 word"
  app_idx :: "16 word"
  ctx_addr :: "16 word"
  send_ttl :: byte
  send_rel :: bool

datatype event =
    ONOFF_CALLBACK fn_ptr byte void_ptr
  | LEVEL_CALLBACK fn_ptr "16 word" void_ptr
  | SEND_MSG "model_ref option" esp_ble_mesh_msg_ctx_t "32 word" nat "byte list"

text \<open>
  The globals of \<open>ble_mesh_node.c\<close> and the world around them. A model array is its
  heap block and its content. \<open>heap_blocks\<close> are the blocks \<open>calloc\<close> has handed out
  and \<open>free\<close> has not taken back; \<open>objs\<close> are the runtime states by address.
  \<open>calloc_script\<close> says which of the coming \<open>calloc\<close> calls succeed and
  \<open>send_script\<close> what the coming send calls return (exhausted: success).
\<close>

record node_state =
  model_registry :: "model_registry_entry_t list"
  registered_model_count :: byte
  dynamic_sig_models :: "(addr \<times> esp_ble_mesh_model_t list) option"
  sig_model_count :: byte
  dynamic_vnd_models :: "(addr \<times> esp_ble_mesh_model_t list) option"
  vnd_model_count :: byte
  elements :: "(addr \<times> esp_ble_mesh_elem_t) option"
  heap_blocks :: "addr list"
  calloc_script :: "bool list"
  objs :: "addr \<rightharpoonup> model_state"
  send_script :: "esp_err_t list"
  trace :: "event list"

text \<open>The static initialisers: a zeroed registry, no arrays, nothing allocated.\<close>

definition boot_state :: "bool list \<Rightarrow> esp_err_t list \<Rightarrow> node_state" where
  "boot_state allocs sends = \<lparr>model_registry = replicate MAX_MODELS zero_entry,
     registered_model_count = 0, dynamic_sig_models = None, sig_model_count = 0,
     dynamic_vnd_models = None, vnd_model_count = 0, elements = None,
     heap_blocks = [], calloc_script = allocs, objs = Map.empty,
     send_script = sends, trace = []\<rparr>"

subsection \<open>The allocator\<close>

definition fresh_block :: "addr list \<Rightarrow> addr" where
  "fresh_block bs = Suc (fold max bs 0)"

definition calloc :: "node_state \<Rightarrow> addr option \<times> node_state" where
  "calloc s =
     (let a = fresh_block (heap_blocks s) in
      case calloc_script s of
        [] \<Rightarrow> (Some a, s\<lparr>heap_blocks := heap_blocks s @ [a]\<rparr>)
      | ok # rest \<Rightarrow>
          if ok then (Some a, s\<lparr>heap_blocks := heap_blocks s @ [a], calloc_script := rest\<rparr>)
          else (None, s\<lparr>calloc_script := rest\<rparr>))"

definition free :: "addr \<Rightarrow> node_state \<Rightarrow> node_state" where
  "free a s = s\<lparr>heap_blocks := removeAll a (heap_blocks s)\<rparr>"

subsection \<open>Registry lookup\<close>

text \<open>
  The loop shared by the five \<open>find_*_model\<close> functions: walk the registered entries
  in order, count those of the wanted type in an 8-bit counter, return the
  \<open>runtime_state\<close> of the one whose count equals \<open>index\<close>, or NULL.
\<close>

fun find_scan ::
  "mesh_model_type_t \<Rightarrow> byte \<Rightarrow> byte \<Rightarrow> model_registry_entry_t list \<Rightarrow> addr option" where
  "find_scan t index idx [] = None"
| "find_scan t index idx (e # es) =
     (if reg_type e = t
      then (if idx = index then runtime_state e else find_scan t index (idx + 1) es)
      else find_scan t index idx es)"

definition registered :: "node_state \<Rightarrow> model_registry_entry_t list" where
  "registered s = take (unat (registered_model_count s)) (model_registry s)"

definition find_onoff_model :: "byte \<Rightarrow> node_state \<Rightarrow> addr option" where
  "find_onoff_model index s = find_scan MESH_MODEL_TYPE_ONOFF index 0 (registered s)"

definition find_level_model :: "byte \<Rightarrow> node_state \<Rightarrow> addr option" where
  "find_level_model index s = find_scan MESH_MODEL_TYPE_LEVEL index 0 (registered s)"

definition find_sensor_model :: "byte \<Rightarrow> node_state \<Rightarrow> addr option" where
  "find_sensor_model index s = find_scan MESH_MODEL_TYPE_SENSOR index 0 (registered s)"

definition find_battery_model :: "byte \<Rightarrow> node_state \<Rightarrow> addr option" where
  "find_battery_model index s = find_scan MESH_MODEL_TYPE_BATTERY index 0 (registered s)"

definition find_vendor_model :: "byte \<Rightarrow> node_state \<Rightarrow> addr option" where
  "find_vendor_model index s = find_scan MESH_MODEL_TYPE_VENDOR index 0 (registered s)"

section \<open>Runtime state allocation\<close>

definition set_runtime_state :: "nat \<Rightarrow> addr \<Rightarrow> node_state \<Rightarrow> node_state" where
  "set_runtime_state ri state s =
     s\<lparr>model_registry := (model_registry s)[ri := (model_registry s ! ri)\<lparr>runtime_state := Some state\<rparr>]\<rparr>"

text \<open>
  \<open>init_onoff_model\<close>: \<open>ri\<close> is the index of the registry entry the caller passes
  by pointer.
\<close>

definition init_onoff_model :: "mesh_model_config_t \<Rightarrow> nat \<Rightarrow> node_state \<Rightarrow> esp_err_t \<times> node_state" where
  "init_onoff_model config ri s =
     (case calloc s of
        (None, s1) \<Rightarrow> (ESP_ERR_NO_MEM, s1)
      | (Some state, s1) \<Rightarrow>
          (let st = \<lparr>pub = (if enable_publication config
                             then zero_pub\<lparr>msg := Some (NET_BUF_SIMPLE (2 + 3)), pub_update := 0\<rparr>
                             else zero_pub),
                     esp_model = None,
                     onoff = onoff_initial_state config,
                     onoff_cb = onoff_callback config,
                     onoff_ctx = onoff_user_data config,
                     server_onoff = onoff_initial_state config,
                     server_target_onoff = onoff_initial_state config\<rparr>
           in (ESP_OK, set_runtime_state ri state (s1\<lparr>objs := (objs s1)(state \<mapsto> ONOFF_STATE st)\<rparr>))))"

definition init_level_model :: "mesh_model_config_t \<Rightarrow> nat \<Rightarrow> node_state \<Rightarrow> esp_err_t \<times> node_state" where
  "init_level_model config ri s =
     (case calloc s of
        (None, s1) \<Rightarrow> (ESP_ERR_NO_MEM, s1)
      | (Some state, s1) \<Rightarrow>
          (let st = \<lparr>pub = (if enable_publication config
                             then zero_pub\<lparr>msg := Some (NET_BUF_SIMPLE (2 + 5)), pub_update := 0\<rparr>
                             else zero_pub),
                     esp_model = None,
                     level = level_initial_level config,
                     level_cb = level_callback config,
                     level_ctx = level_user_data config,
                     server_level = level_initial_level config,
                     server_target_level = level_initial_level config\<rparr>
           in (ESP_OK, set_runtime_state ri state (s1\<lparr>objs := (objs s1)(state \<mapsto> LEVEL_STATE st)\<rparr>))))"

text \<open>
  What one iteration of the \<open>for\<close> loop of \<open>init_sensor_model\<close> writes into
  \<open>sensor_states[i]\<close>: the property id of the sensor, and the freshly allocated
  4-byte buffer as \<open>sensor_data.raw_value\<close>.
\<close>

definition mk_sensor_state :: "mesh_sensor_config_t \<Rightarrow> esp_ble_mesh_sensor_state_t" where
  "mk_sensor_state x = \<lparr>sensor_property_id = sensor_type x, raw_value = Some (NET_BUF_SIMPLE 4)\<rparr>"

text \<open>
  The \<open>for\<close> loop of \<open>init_sensor_model\<close> over the sensors: \<open>n\<close> iterations are
  left, \<open>i\<close> is the loop index, \<open>sts\<close> and \<open>bufs\<close> are the sensor states and the
  buffer pointers written so far. \<open>state\<close>, \<open>ss\<close> and \<open>sb\<close> are the blocks of the
  state, of \<open>sensor_states\<close> and of \<open>sensor_bufs\<close>. Reading \<open>sensors[i]\<close> past the
  caller's array leaves defined behaviour.
\<close>

fun sensor_buf_loop ::
  "mesh_sensor_config_t list \<Rightarrow> addr \<Rightarrow> addr \<Rightarrow> addr \<Rightarrow> nat \<Rightarrow> nat \<Rightarrow>
   esp_ble_mesh_sensor_state_t list \<Rightarrow> addr list \<Rightarrow> node_state \<Rightarrow>
   (esp_err_t \<times> esp_ble_mesh_sensor_state_t list \<times> addr list \<times> node_state) outcome" where
  "sensor_buf_loop snsrs state ss sb 0 i sts bufs s = Returned (ESP_OK, sts, bufs, s)"
| "sensor_buf_loop snsrs state ss sb (Suc n) i sts bufs s =
     (if length snsrs \<le> i then Crashed OUT_OF_BOUNDS
      else case calloc s of
        (None, s1) \<Rightarrow>
          Returned (ESP_ERR_NO_MEM, sts, bufs, free state (free ss (free sb (fold free bufs s1))))
      | (Some b, s1) \<Rightarrow>
          sensor_buf_loop snsrs state ss sb n (Suc i)
            (sts @ [mk_sensor_state (snsrs ! i)]) (bufs @ [b]) s1)"

text \<open>
  The last stage of \<open>init_sensor_model\<close> (from "Initialize publication context
  for Setup Server"): the setup publication buffer is allocated whatever
  \<open>enable_publication\<close> says; on failure the status publication buffer, if there
  is one, the sensor buffers, the two arrays and the state are freed. \<open>pb\<close> is
  \<open>state->pub\<close> as it is by then.
\<close>

definition sensor_setup_stage ::
  "mesh_model_config_t \<Rightarrow> nat \<Rightarrow> addr \<Rightarrow> addr \<Rightarrow> addr \<Rightarrow> esp_ble_mesh_sensor_state_t list \<Rightarrow>
   addr list \<Rightarrow> esp_ble_mesh_model_pub_t \<Rightarrow> node_state \<Rightarrow> esp_err_t \<times> node_state" where
  "sensor_setup_stage config ri state ss sb sts bufs pb s =
     (case calloc s of
        (None, s1) \<Rightarrow>
          (ESP_ERR_NO_MEM,
           free state (free ss (free sb (fold free bufs
             (case msg_block pb of None \<Rightarrow> s1 | Some m \<Rightarrow> free m s1)))))
      | (Some setup_msg, s1) \<Rightarrow>
          (let st = \<lparr>pub = pb, esp_model = None,
                     sensors = sensor_sensors config,
                     sensor_count = sensor_sensor_count config,
                     sensor_states_block = ss,
                     sensor_states = sts,
                     sensor_bufs_block = sb,
                     sensor_bufs = bufs,
                     server_state_count = sensor_sensor_count config,
                     setup_state_count = sensor_sensor_count config,
                     setup_pub = zero_pub\<lparr>msg := Some (NET_BUF_SIMPLE 34),
                                   msg_block := Some setup_msg, pub_update := 0\<rparr>\<rparr>
           in (ESP_OK, set_runtime_state ri state
                 (s1\<lparr>objs := (objs s1)(state \<mapsto> SENSOR_STATE st)\<rparr>))))"

text \<open>
  The stage before it (from "Initialize publication context for Sensor Server"):
  the status publication buffer is allocated only \<open>if (config->enable_publication)\<close>;
  on failure the sensor buffers, the two arrays and the state are freed.
\<close>

definition sensor_pub_stage ::
  "mesh_model_config_t \<Rightarrow> nat \<Rightarrow> addr \<Rightarrow> addr \<Rightarrow> addr \<Rightarrow> esp_ble_mesh_sensor_state_t list \<Rightarrow>
   addr list \<Rightarrow> node_state \<Rightarrow> esp_err_t \<times> node_state" where
  "sensor_pub_stage config ri state ss sb sts bufs s =
     (if enable_publication config
      then (case calloc s of
              (None, s1) \<Rightarrow>
                (ESP_ERR_NO_MEM, free state (free ss (free sb (fold free bufs s1))))
            | (Some pub_msg, s1) \<Rightarrow>
                sensor_setup_stage config ri state ss sb sts bufs
                  (zero_pub\<lparr>msg := Some (NET_BUF_SIMPLE 34), msg_block := Some pub_msg,
                            pub_update := 0\<rparr>) s1)
      else sensor_setup_stage config ri state ss sb sts bufs zero_pub s)"

definition init_sensor_model ::
  "mesh_model_config_t \<Rightarrow> nat \<Rightarrow> node_state \<Rightarrow> (esp_err_t \<times> node_state) outcome" where
  "init_sensor_model config ri s =
     (case calloc s of
        (None, s1) \<Rightarrow> Returned (ESP_ERR_NO_MEM, s1)
      | (Some state, s1) \<Rightarrow>
     (case calloc s1 of
        (None, s2) \<Rightarrow> Returned (ESP_ERR_NO_MEM, free state s2)
      | (Some ss, s2) \<Rightarrow>
     (case calloc s2 of
        (None, s3) \<Rightarrow> Returned (ESP_ERR_NO_MEM, free state (free ss s3))
      | (Some sb, s3) \<Rightarrow>
     obind (sensor_buf_loop (sensor_sensors config) state ss sb
              (unat (sensor_sensor_count config)) 0 [] [] s3)
       (\<lambda>(ret, sts, bufs, s4).
          if ret \<noteq> ESP_OK then Returned (ret, s4)
          else Returned (sensor_pub_stage config ri state ss sb sts bufs s4)))))"

definition init_vendor_model :: "mesh_model_config_t \<Rightarrow> nat \<Rightarrow> node_state \<Rightarrow> esp_err_t \<times> node_state" where
  "init_vendor_model config ri s =
     (case calloc s of
        (None, s1) \<Rightarrow> (ESP_ERR_NO_MEM, s1)
      | (Some state, s1) \<Rightarrow>
          (let st = \<lparr>pub = zero_pub, esp_model = None,
                     company_id = vendor_company_id config,
                     model_id = vendor_model_id config,
                     handler = vendor_handler config,
                     vendor_ctx = vendor_user_data config,
                     vendor_publish_addr = 0\<rparr>
           in (ESP_OK, set_runtime_state ri state (s1\<lparr>objs := (objs s1)(state \<mapsto> VENDOR_STATE st)\<rparr>))))"

definition init_battery_model :: "mesh_model_config_t \<Rightarrow> nat \<Rightarrow> node_state \<Rightarrow> esp_err_t \<times> node_state" where
  "init_battery_model config ri s =
     (case calloc s of
        (None, s1) \<Rightarrow> (ESP_ERR_NO_MEM, s1)
      | (Some state, s1) \<Rightarrow>
          (let st = \<lparr>pub = (if enable_publication config
                             then zero_pub\<lparr>msg := Some (NET_BUF_SIMPLE (2 + 8)), pub_update := 0\<rparr>
                             else zero_pub),
                     esp_model = None,
                     battery_level = 100,
                     battery_cb = battery_callback config,
                     battery_period_ms = battery_publish_period_ms config,
                     battery_ctx = battery_user_data config\<rparr>
           in (ESP_OK, set_runtime_state ri state (s1\<lparr>objs := (objs s1)(state \<mapsto> BATTERY_STATE st)\<rparr>))))"

section \<open>Dynamic model building\<close>

text \<open>
  The first loop of \<open>build_models\<close>: the counters \<open>total_sig\<close> and \<open>total_vnd\<close>
  are \<open>uint8_t\<close>.
\<close>

fun count_models :: "mesh_model_config_t list \<Rightarrow> byte \<times> byte \<Rightarrow> byte \<times> byte" where
  "count_models [] totals = totals"
| "count_models (m # ms) (total_sig, total_vnd) =
     (if type m = MESH_MODEL_TYPE_VENDOR then count_models ms (total_sig, total_vnd + 1)
      else if type m = MESH_MODEL_TYPE_SENSOR then count_models ms (total_sig + 2, total_vnd)
      else count_models ms (total_sig + 1, total_vnd))"

text \<open>\<open>memcpy\<close> of a model record into a slot of one of the two arrays.\<close>

definition write_sig_model :: "nat \<Rightarrow> esp_ble_mesh_model_t \<Rightarrow> node_state \<Rightarrow> node_state outcome" where
  "write_sig_model slot m s =
     (case dynamic_sig_models s of
        None \<Rightarrow> Crashed NULL_DEREF
      | Some (a, arr) \<Rightarrow>
          if slot < length arr then Returned (s\<lparr>dynamic_sig_models := Some (a, arr[slot := m])\<rparr>)
          else Crashed OUT_OF_BOUNDS)"

definition write_vnd_model :: "nat \<Rightarrow> esp_ble_mesh_model_t \<Rightarrow> node_state \<Rightarrow> node_state outcome" where
  "write_vnd_model slot m s =
     (case dynamic_vnd_models s of
        None \<Rightarrow> Crashed NULL_DEREF
      | Some (a, arr) \<Rightarrow>
          if slot < length arr then Returned (s\<lparr>dynamic_vnd_models := Some (a, arr[slot := m])\<rparr>)
          else Crashed OUT_OF_BOUNDS)"

text \<open>\<open>state->esp_model = r\<close> for the runtime state at an address, whatever its kind.\<close>

definition with_esp_model :: "model_ref \<Rightarrow> model_state \<Rightarrow> model_state" where
  "with_esp_model r obj =
     (case obj of
        ONOFF_STATE st \<Rightarrow> ONOFF_STATE (st\<lparr>esp_model := Some r\<rparr>)
      | LEVEL_STATE st \<Rightarrow> LEVEL_STATE (st\<lparr>esp_model := Some r\<rparr>)
      | SENSOR_STATE st \<Rightarrow> SENSOR_STATE (st\<lparr>esp_model := Some r\<rparr>)
      | BATTERY_STATE st \<Rightarrow> BATTERY_STATE (st\<lparr>esp_model := Some r\<rparr>)
      | VENDOR_STATE st \<Rightarrow> VENDOR_STATE (st\<lparr>esp_model := Some r\<rparr>))"

definition set_esp_model :: "addr \<Rightarrow> model_ref \<Rightarrow> node_state \<Rightarrow> node_state" where
  "set_esp_model state r s = s\<lparr>objs := (objs s)(state := map_option (with_esp_model r) (objs s state))\<rparr>"

definition set_reg_esp_model :: "nat \<Rightarrow> model_ref \<Rightarrow> node_state \<Rightarrow> node_state" where
  "set_reg_esp_model ri r s =
     s\<lparr>model_registry := (model_registry s)[ri := (model_registry s ! ri)\<lparr>reg_esp_model := Some r\<rparr>]\<rparr>"

text \<open>
  Placing a standard model: copy the record into \<open>dynamic_sig_models[sig_slot]\<close>,
  then store the slot's address in the runtime state and in the registry entry.
\<close>

definition place_sig_model ::
  "nat \<Rightarrow> addr \<Rightarrow> esp_ble_mesh_model_t \<Rightarrow> byte \<Rightarrow> node_state \<Rightarrow> node_state outcome" where
  "place_sig_model ri state m sig_slot s =
     obind (write_sig_model (unat sig_slot) m s)
       (\<lambda>s1. Returned (set_reg_esp_model ri (SIG_MODEL (unat sig_slot))
                         (set_esp_model state (SIG_MODEL (unat sig_slot)) s1)))"

definition place_vnd_model ::
  "nat \<Rightarrow> addr \<Rightarrow> esp_ble_mesh_model_t \<Rightarrow> byte \<Rightarrow> node_state \<Rightarrow> node_state outcome" where
  "place_vnd_model ri state m vnd_slot s =
     obind (write_vnd_model (unat vnd_slot) m s)
       (\<lambda>s1. Returned (set_reg_esp_model ri (VND_MODEL (unat vnd_slot))
                         (set_esp_model state (VND_MODEL (unat vnd_slot)) s1)))"

text \<open>
  The five \<open>case\<close> blocks of the \<open>switch\<close> in the second loop of
  \<open>build_models\<close>. \<open>ri\<close> is the index of the registry entry, \<open>pub_ctx\<close> the
  publication context the model record gets: the state's own if the descriptor
  enables publication, NULL otherwise. Each returns the two slot cursors with the
  state.
\<close>

definition pub_ctx_of :: "mesh_model_config_t \<Rightarrow> addr \<Rightarrow> pub_ref option" where
  "pub_ctx_of config state = (if enable_publication config then Some (PUB_OF state) else None)"

definition build_onoff_model ::
  "mesh_model_config_t \<Rightarrow> nat \<Rightarrow> byte \<Rightarrow> byte \<Rightarrow> node_state \<Rightarrow>
   (esp_err_t \<times> byte \<times> byte \<times> node_state) outcome" where
  "build_onoff_model config ri sig_slot vnd_slot s =
     (case init_onoff_model config ri s of (ret, s1) \<Rightarrow>
        if ret \<noteq> ESP_OK then Returned (ret, sig_slot, vnd_slot, s1)
        else (case runtime_state (model_registry s1 ! ri) of
          None \<Rightarrow> Crashed NULL_DEREF
        | Some onoff_state \<Rightarrow>
            obind (place_sig_model ri onoff_state
                    (ESP_BLE_MESH_MODEL_GEN_ONOFF_SRV (pub_ctx_of config onoff_state) onoff_state)
                    sig_slot s1)
              (\<lambda>s2. Returned (ESP_OK, sig_slot + 1, vnd_slot, s2))))"

definition build_level_model ::
  "mesh_model_config_t \<Rightarrow> nat \<Rightarrow> byte \<Rightarrow> byte \<Rightarrow> node_state \<Rightarrow>
   (esp_err_t \<times> byte \<times> byte \<times> node_state) outcome" where
  "build_level_model config ri sig_slot vnd_slot s =
     (case init_level_model config ri s of (ret, s1) \<Rightarrow>
        if ret \<noteq> ESP_OK then Returned (ret, sig_slot, vnd_slot, s1)
        else (case runtime_state (model_registry s1 ! ri) of
          None \<Rightarrow> Crashed NULL_DEREF
        | Some level_state \<Rightarrow>
            obind (place_sig_model ri level_state
                    (ESP_BLE_MESH_MODEL_GEN_LEVEL_SRV (pub_ctx_of config level_state) level_state)
                    sig_slot s1)
              (\<lambda>s2. Returned (ESP_OK, sig_slot + 1, vnd_slot, s2))))"

definition build_sensor_model ::
  "mesh_model_config_t \<Rightarrow> nat \<Rightarrow> byte \<Rightarrow> byte \<Rightarrow> node_state \<Rightarrow>
   (esp_err_t \<times> byte \<times> byte \<times> node_state) outcome" where
  "build_sensor_model config ri sig_slot vnd_slot s =
     obind (init_sensor_model config ri s)
       (\<lambda>(ret, s1).
          if ret \<noteq> ESP_OK then Returned (ret, sig_slot, vnd_slot, s1)
          else (case runtime_state (model_registry s1 ! ri) of
            None \<Rightarrow> Crashed NULL_DEREF
          | Some sensor_state \<Rightarrow>
              obind (place_sig_model ri sensor_state
                      (ESP_BLE_MESH_MODEL_SENSOR_SRV (pub_ctx_of config sensor_state) sensor_state)
                      sig_slot s1)
                (\<lambda>s2. obind (write_sig_model (unat (sig_slot + 1))
                               (ESP_BLE_MESH_MODEL_SENSOR_SETUP_SRV
                                  (Some (SETUP_PUB_OF sensor_state)) sensor_state) s2)
                   (\<lambda>s3. Returned (ESP_OK, sig_slot + 1 + 1, vnd_slot, s3)))))"

definition build_vendor_model ::
  "mesh_model_config_t \<Rightarrow> nat \<Rightarrow> byte \<Rightarrow> byte \<Rightarrow> node_state \<Rightarrow>
   (esp_err_t \<times> byte \<times> byte \<times> node_state) outcome" where
  "build_vendor_model config ri sig_slot vnd_slot s =
     (case init_vendor_model config ri s of (ret, s1) \<Rightarrow>
        if ret \<noteq> ESP_OK then Returned (ret, sig_slot, vnd_slot, s1)
        else (case runtime_state (model_registry s1 ! ri) of
          None \<Rightarrow> Crashed NULL_DEREF
        | Some vendor_state \<Rightarrow>
            obind (place_vnd_model ri vendor_state
                    (ESP_BLE_MESH_VENDOR_MODEL (vendor_company_id config)
                       (vendor_model_id config) vendor_op (pub_ctx_of config vendor_state))
                    vnd_slot s1)
              (\<lambda>s2. Returned (ESP_OK, sig_slot, vnd_slot + 1, s2))))"

definition build_battery_model ::
  "mesh_model_config_t \<Rightarrow> nat \<Rightarrow> byte \<Rightarrow> byte \<Rightarrow> node_state \<Rightarrow>
   (esp_err_t \<times> byte \<times> byte \<times> node_state) outcome" where
  "build_battery_model config ri sig_slot vnd_slot s =
     (case init_battery_model config ri s of (ret, s1) \<Rightarrow>
        if ret \<noteq> ESP_OK then Returned (ret, sig_slot, vnd_slot, s1)
        else (case runtime_state (model_registry s1 ! ri) of
          None \<Rightarrow> Crashed NULL_DEREF
        | Some battery_state \<Rightarrow>
            obind (place_sig_model ri battery_state
                    (ESP_BLE_MESH_MODEL_GEN_BATTERY_SRV (pub_ctx_of config battery_state) battery_state)
                    sig_slot s1)
              (\<lambda>s2. Returned (ESP_OK, sig_slot + 1, vnd_slot, s2))))"

text \<open>
  The first statements of the loop body: the descriptor is copied into the
  registry entry, with its type, and the entry's model pointer is cleared.
\<close>

definition register_config :: "mesh_model_config_t \<Rightarrow> nat \<Rightarrow> node_state \<Rightarrow> node_state" where
  "register_config config ri s =
     s\<lparr>model_registry := (model_registry s)
          [ri := (model_registry s ! ri)\<lparr>user_config := config, reg_type := type config,
                                         reg_esp_model := None\<rparr>]\<rparr>"

text \<open>
  The body of the second loop of \<open>build_models\<close> for one descriptor, up to (not
  including) \<open>registered_model_count++\<close>. The registry has \<open>MAX_MODELS\<close> entries
  and the code does not compare \<open>registered_model_count\<close> with it: the write to
  an entry past the array leaves defined behaviour. A tag the \<open>switch\<close> has no
  \<open>case\<close> for, \<open>MESH_MODEL_TYPE_POWER_LEVEL\<close> among them, takes the \<open>default\<close>.
\<close>

definition build_model ::
  "mesh_model_config_t \<Rightarrow> byte \<Rightarrow> byte \<Rightarrow> node_state \<Rightarrow>
   (esp_err_t \<times> byte \<times> byte \<times> node_state) outcome" where
  "build_model config sig_slot vnd_slot s =
     (let ri = unat (registered_model_count s) in
      if MAX_MODELS \<le> ri then Crashed OUT_OF_BOUNDS
      else
        let s0 = register_config config ri s in
        case type config of
          MESH_MODEL_TYPE_ONOFF \<Rightarrow> build_onoff_model config ri sig_slot vnd_slot s0
        | MESH_MODEL_TYPE_LEVEL \<Rightarrow> build_level_model config ri sig_slot vnd_slot s0
        | MESH_MODEL_TYPE_SENSOR \<Rightarrow> build_sensor_model config ri sig_slot vnd_slot s0
        | MESH_MODEL_TYPE_VENDOR \<Rightarrow> build_vendor_model config ri sig_slot vnd_slot s0
        | MESH_MODEL_TYPE_BATTERY \<Rightarrow> build_battery_model config ri sig_slot vnd_slot s0
        | _ \<Rightarrow> Returned (ESP_ERR_INVALID_ARG, sig_slot, vnd_slot, s0))"

fun build_user_models ::
  "mesh_model_config_t list \<Rightarrow> byte \<Rightarrow> byte \<Rightarrow> node_state \<Rightarrow> (esp_err_t \<times> node_state) outcome" where
  "build_user_models [] sig_slot vnd_slot s = Returned (ESP_OK, s)"
| "build_user_models (config # rest) sig_slot vnd_slot s =
     (case build_model config sig_slot vnd_slot s of
        Crashed c \<Rightarrow> Crashed c
      | Returned (ret, sig_slot', vnd_slot', s') \<Rightarrow>
          if ret \<noteq> ESP_OK then Returned (ret, s')
          else build_user_models rest sig_slot' vnd_slot'
                 (s'\<lparr>registered_model_count := registered_model_count s' + 1\<rparr>))"

text \<open>
  \<open>build_models\<close>: \<open>user_models\<close> is the caller's array and \<open>model_count\<close> the
  count passed with it; the first loop reads \<open>model_count\<close> descriptors.
\<close>

definition build_models ::
  "mesh_model_config_t list \<Rightarrow> byte \<Rightarrow> node_state \<Rightarrow> (esp_err_t \<times> node_state) outcome" where
  "build_models user_models model_count s =
     (if length user_models < unat model_count then Crashed OUT_OF_BOUNDS
      else
        let descs = take (unat model_count) user_models;
            totals = count_models descs (1, 0);
            s1 = s\<lparr>sig_model_count := fst totals, vnd_model_count := snd totals\<rparr>
        in
        case calloc s1 of
          (None, s2) \<Rightarrow> Returned (ESP_ERR_NO_MEM, s2\<lparr>dynamic_sig_models := None\<rparr>)
        | (Some sig, s2) \<Rightarrow>
            (let s3 = s2\<lparr>dynamic_sig_models :=
                          Some (sig, replicate (unat (sig_model_count s2)) zero_model)\<rparr>
             in
             case (if 0 < vnd_model_count s3
                   then (case calloc s3 of
                           (None, s4) \<Rightarrow> (False, free sig (s4\<lparr>dynamic_vnd_models := None\<rparr>))
                         | (Some vnd, s4) \<Rightarrow>
                             (True, s4\<lparr>dynamic_vnd_models :=
                                        Some (vnd, replicate (unat (vnd_model_count s4)) zero_model)\<rparr>))
                   else (True, s3)) of
               (False, s4) \<Rightarrow> Returned (ESP_ERR_NO_MEM, s4)
             | (True, s4) \<Rightarrow>
                 obind (write_sig_model 0 ESP_BLE_MESH_MODEL_CFG_SRV s4)
                   (\<lambda>s5. build_user_models descs 1 0 s5)))"

text \<open>
  \<open>build_element\<close>: the single element, with the counts and array pointers as they
  are at that moment.
\<close>

definition build_element :: "node_state \<Rightarrow> esp_err_t \<times> node_state" where
  "build_element s =
     (case calloc s of
        (None, s1) \<Rightarrow> (ESP_ERR_NO_MEM, s1\<lparr>elements := None\<rparr>)
      | (Some e, s1) \<Rightarrow>
          (ESP_OK, s1\<lparr>elements := Some (e,
             \<lparr>location = 0,
              elem_sig_model_count = sig_model_count s1,
              elem_sig_models = map_option fst (dynamic_sig_models s1),
              elem_vnd_model_count = vnd_model_count s1,
              elem_vnd_models = map_option fst (dynamic_vnd_models s1)\<rparr>)\<rparr>))"

section \<open>Initialisation\<close>

text \<open>
  \<open>node_config_t\<close>: \<open>models\<close> is \<open>None\<close> for a NULL pointer, otherwise the array it
  points to. The UUID prefix, the device name and the application callbacks take
  no part in any decision of \<open>node_init\<close> and are left out.
\<close>

record node_config_t =
  models :: "mesh_model_config_t list option"
  model_count :: byte

text \<open>
  What the collaborators of \<open>node_init\<close> answer: the first \<open>nvs_flash_init\<close>,
  \<open>nvs_flash_erase\<close>, the second \<open>nvs_flash_init\<close>, the five calls of
  \<open>bluetooth_init\<close> in order, and \<open>esp_ble_mesh_init\<close>.
\<close>

record platform =
  nvs_flash_init_ret :: esp_err_t
  nvs_flash_erase_ret :: esp_err_t
  nvs_flash_init_again_ret :: esp_err_t
  bt_controller_mem_release_ret :: esp_err_t
  bt_controller_init_ret :: esp_err_t
  bt_controller_enable_ret :: esp_err_t
  bluedroid_init_ret :: esp_err_t
  bluedroid_enable_ret :: esp_err_t
  ble_mesh_init_ret :: esp_err_t

definition bluetooth_init :: "platform \<Rightarrow> esp_err_t" where
  "bluetooth_init pf =
     (if bt_controller_mem_release_ret pf \<noteq> ESP_OK then bt_controller_mem_release_ret pf
      else if bt_controller_init_ret pf \<noteq> ESP_OK then bt_controller_init_ret pf
      else if bt_controller_enable_ret pf \<noteq> ESP_OK then bt_controller_enable_ret pf
      else if bluedroid_init_ret pf \<noteq> ESP_OK then bluedroid_init_ret pf
      else if bluedroid_enable_ret pf \<noteq> ESP_OK then bluedroid_enable_ret pf
      else ESP_OK)"

text \<open>The NVS stage of \<open>node_init\<close>; \<open>ESP_ERROR_CHECK\<close> aborts on a failed erase.\<close>

definition nvs_stage :: "platform \<Rightarrow> esp_err_t outcome" where
  "nvs_stage pf =
     (let ret = nvs_flash_init_ret pf in
      if ret = ESP_ERR_NVS_NO_FREE_PAGES \<or> ret = ESP_ERR_NVS_NEW_VERSION_FOUND
      then (if nvs_flash_erase_ret pf \<noteq> ESP_OK then Crashed ABORTED
            else Returned (nvs_flash_init_again_ret pf))
      else Returned ret)"

text \<open>The \<open>else\<close> branch of \<open>node_init\<close>: a composition with the configuration server only.\<close>

definition build_config_server_only :: "node_state \<Rightarrow> (esp_err_t \<times> node_state) outcome" where
  "build_config_server_only s =
     (let s1 = s\<lparr>sig_model_count := 1, vnd_model_count := 0\<rparr> in
      case calloc s1 of
        (None, s2) \<Rightarrow> Returned (ESP_ERR_NO_MEM, s2\<lparr>dynamic_sig_models := None\<rparr>)
      | (Some sig, s2) \<Rightarrow>
          obind (write_sig_model 0 ESP_BLE_MESH_MODEL_CFG_SRV
                   (s2\<lparr>dynamic_sig_models := Some (sig, replicate 1 zero_model)\<rparr>))
            (\<lambda>s3. Returned (ESP_OK, s3\<lparr>dynamic_vnd_models := None\<rparr>)))"

definition node_init ::
  "node_config_t option \<Rightarrow> platform \<Rightarrow> node_state \<Rightarrow> (esp_err_t \<times> node_state) outcome" where
  "node_init config pf s =
     (case config of
        None \<Rightarrow> Returned (ESP_ERR_INVALID_ARG, s)
      | Some cfg \<Rightarrow>
          obind (nvs_stage pf)
            (\<lambda>ret. if ret \<noteq> ESP_OK then Returned (ret, s)
               else if bluetooth_init pf \<noteq> ESP_OK then Returned (bluetooth_init pf, s)
               else
                 obind (case models cfg of
                          None \<Rightarrow> build_config_server_only s
                        | Some user_models \<Rightarrow>
                            if 0 < model_count cfg
                            then build_models user_models (model_count cfg) s
                            else build_config_server_only s)
                   (\<lambda>(ret, s1).
                      if ret \<noteq> ESP_OK then Returned (ret, s1)
                      else (case build_element s1 of (ret, s2) \<Rightarrow>
                              if ret \<noteq> ESP_OK then Returned (ret, s2)
                              else if ble_mesh_init_ret pf \<noteq> ESP_OK
                                   then Returned (ble_mesh_init_ret pf, s2)
                                   else Returned (ESP_OK, s2)))))"

section \<open>Model API\<close>

text \<open>
  Modelled from the spec: \<open>esp_ble_mesh_server_model_send_msg\<close> belongs to the mesh
  stack and is not under src/: "a synchronous send as this model, to this context,
  with this opcode and payload primitive", whose failures are "reported, not
  retried". The call is recorded and answers what the script says. The status
  opcodes are constants of the stack; the source's comments give their values.
\<close>

definition esp_ble_mesh_server_model_send_msg ::
  "model_ref option \<Rightarrow> esp_ble_mesh_msg_ctx_t \<Rightarrow> 32 word \<Rightarrow> nat \<Rightarrow> byte list \<Rightarrow> node_state \<Rightarrow>
   esp_err_t \<times> node_state" where
  "esp_ble_mesh_server_model_send_msg m ctx opcode len data s =
     (let s1 = s\<lparr>trace := trace s @ [SEND_MSG m ctx opcode len data]\<rparr> in
      case send_script s of
        [] \<Rightarrow> (ESP_OK, s1)
      | r # rest \<Rightarrow> (r, s1\<lparr>send_script := rest\<rparr>))"

definition ESP_BLE_MESH_MODEL_OP_GEN_ONOFF_STATUS :: "32 word" where
  "ESP_BLE_MESH_MODEL_OP_GEN_ONOFF_STATUS = 0x8204"

definition ESP_BLE_MESH_MODEL_OP_GEN_LEVEL_STATUS :: "32 word" where
  "ESP_BLE_MESH_MODEL_OP_GEN_LEVEL_STATUS = 0x8208"

definition ESP_BLE_MESH_MODEL_OP_SENSOR_STATUS :: "32 word" where
  "ESP_BLE_MESH_MODEL_OP_SENSOR_STATUS = 0x52"

definition ESP_BLE_MESH_MODEL_OP_GEN_BATTERY_STATUS :: "32 word" where
  "ESP_BLE_MESH_MODEL_OP_GEN_BATTERY_STATUS = 0x8224"

text \<open>The message context every publish path builds: keys 0, TTL 7, unacknowledged.\<close>

definition pub_ctx_to :: "16 word \<Rightarrow> esp_ble_mesh_msg_ctx_t" where
  "pub_ctx_to a = \<lparr>net_idx = 0, app_idx = 0, ctx_addr = a, send_ttl = 7, send_rel = False\<rparr>"

subsection \<open>OnOff\<close>

definition mesh_model_publish_onoff ::
  "byte \<Rightarrow> byte \<Rightarrow> node_state \<Rightarrow> (esp_err_t \<times> node_state) outcome" where
  "mesh_model_publish_onoff model_index onoff_val s =
     (case find_onoff_model model_index s of
        None \<Rightarrow> Returned (ESP_ERR_NOT_FOUND, s)
      | Some p \<Rightarrow>
          (case objs s p of
             Some (ONOFF_STATE st) \<Rightarrow>
               if publish_addr (pub st) = ESP_BLE_MESH_ADDR_UNASSIGNED
               then Returned (ESP_ERR_INVALID_STATE, s)
               else
                 (let st1 = st\<lparr>onoff := onoff_val, server_onoff := onoff_val,
                               server_target_onoff := onoff_val\<rparr>
                  in case msg (pub st1) of
                       None \<Rightarrow> Returned (ESP_ERR_NO_MEM, s\<lparr>objs := (objs s)(p \<mapsto> ONOFF_STATE st1)\<rparr>)
                     | Some m \<Rightarrow>
                         obind (net_buf_simple_add_u8 (net_buf_simple_reset m) onoff_val)
                           (\<lambda>m1. let st2 = st1\<lparr>pub := (pub st1)\<lparr>msg := Some m1\<rparr>\<rparr>;
                                      s1 = s\<lparr>objs := (objs s)(p \<mapsto> ONOFF_STATE st2)\<rparr>
                                  in Returned (esp_ble_mesh_server_model_send_msg (esp_model st2)
                                       (pub_ctx_to (publish_addr (pub st2)))
                                       ESP_BLE_MESH_MODEL_OP_GEN_ONOFF_STATUS
                                       (length (buf_data m1)) (buf_data m1) s1)))
           | _ \<Rightarrow> Crashed BAD_POINTER))"

definition mesh_model_set_onoff ::
  "byte \<Rightarrow> byte \<Rightarrow> bool \<Rightarrow> node_state \<Rightarrow> (esp_err_t \<times> node_state) outcome" where
  "mesh_model_set_onoff model_index onoff_val publish s =
     (case find_onoff_model model_index s of
        None \<Rightarrow> Returned (ESP_ERR_NOT_FOUND, s)
      | Some p \<Rightarrow>
          (case objs s p of
             Some (ONOFF_STATE st) \<Rightarrow>
               (let st1 = st\<lparr>onoff := onoff_val, server_onoff := onoff_val,
                             server_target_onoff := onoff_val\<rparr>;
                    s1 = s\<lparr>objs := (objs s)(p \<mapsto> ONOFF_STATE st1),
                           trace := trace s @ (case onoff_cb st1 of
                                                 None \<Rightarrow> []
                                               | Some f \<Rightarrow> [ONOFF_CALLBACK f onoff_val (onoff_ctx st1)])\<rparr>
                in if publish then mesh_model_publish_onoff model_index onoff_val s1
                   else Returned (ESP_OK, s1))
           | _ \<Rightarrow> Crashed BAD_POINTER))"

subsection \<open>Level\<close>

definition mesh_model_publish_level ::
  "byte \<Rightarrow> 16 word \<Rightarrow> node_state \<Rightarrow> (esp_err_t \<times> node_state) outcome" where
  "mesh_model_publish_level model_index level_val s =
     (case find_level_model model_index s of
        None \<Rightarrow> Returned (ESP_ERR_NOT_FOUND, s)
      | Some p \<Rightarrow>
          (case objs s p of
             Some (LEVEL_STATE st) \<Rightarrow>
               if publish_addr (pub st) = ESP_BLE_MESH_ADDR_UNASSIGNED
               then Returned (ESP_ERR_INVALID_STATE, s)
               else
                 (let st1 = st\<lparr>level := level_val, server_level := level_val,
                               server_target_level := level_val\<rparr>
                  in case msg (pub st1) of
                       None \<Rightarrow> Returned (ESP_ERR_NO_MEM, s\<lparr>objs := (objs s)(p \<mapsto> LEVEL_STATE st1)\<rparr>)
                     | Some m \<Rightarrow>
                         obind (net_buf_simple_add_le16 (net_buf_simple_reset m) level_val)
                           (\<lambda>m1. let st2 = st1\<lparr>pub := (pub st1)\<lparr>msg := Some m1\<rparr>\<rparr>;
                                      s1 = s\<lparr>objs := (objs s)(p \<mapsto> LEVEL_STATE st2)\<rparr>
                                  in Returned (esp_ble_mesh_server_model_send_msg (esp_model st2)
                                       (pub_ctx_to (publish_addr (pub st2)))
                                       ESP_BLE_MESH_MODEL_OP_GEN_LEVEL_STATUS
                                       (length (buf_data m1)) (buf_data m1) s1)))
           | _ \<Rightarrow> Crashed BAD_POINTER))"

definition mesh_model_set_level ::
  "byte \<Rightarrow> 16 word \<Rightarrow> bool \<Rightarrow> node_state \<Rightarrow> (esp_err_t \<times> node_state) outcome" where
  "mesh_model_set_level model_index level_val publish s =
     (case find_level_model model_index s of
        None \<Rightarrow> Returned (ESP_ERR_NOT_FOUND, s)
      | Some p \<Rightarrow>
          (case objs s p of
             Some (LEVEL_STATE st) \<Rightarrow>
               (let st1 = st\<lparr>level := level_val, server_level := level_val,
                             server_target_level := level_val\<rparr>;
                    s1 = s\<lparr>objs := (objs s)(p \<mapsto> LEVEL_STATE st1),
                           trace := trace s @ (case level_cb st1 of
                                                 None \<Rightarrow> []
                                               | Some f \<Rightarrow> [LEVEL_CALLBACK f level_val (level_ctx st1)])\<rparr>
                in if publish then mesh_model_publish_level model_index level_val s1
                   else Returned (ESP_OK, s1))
           | _ \<Rightarrow> Crashed BAD_POINTER))"

subsection \<open>Sensor\<close>

text \<open>
  The search loop of \<open>mesh_model_publish_sensor\<close> for the sensor of a property id:
  \<open>n\<close> iterations are left, \<open>i\<close> is the loop index; \<open>None\<close> is \<open>sensor_idx = -1\<close>.
\<close>

fun sensor_index_loop ::
  "mesh_sensor_config_t list \<Rightarrow> 16 word \<Rightarrow> nat \<Rightarrow> nat \<Rightarrow> nat option outcome" where
  "sensor_index_loop snsrs t 0 i = Returned None"
| "sensor_index_loop snsrs t (Suc n) i =
     (if length snsrs \<le> i then Crashed OUT_OF_BOUNDS
      else if sensor_type (snsrs ! i) = t then Returned (Some i)
      else sensor_index_loop snsrs t n (Suc i))"

text \<open>
  Lines 1875 to 1883 of \<open>mesh_model_publish_sensor\<close>: the Format B header byte
  \<open>(value_len << 1) | 0x01\<close> with \<open>value_len = 4\<close>, the property id, then the
  content of the raw-value buffer.
\<close>

definition sensor_status_encode ::
  "net_buf_simple \<Rightarrow> 16 word \<Rightarrow> net_buf_simple \<Rightarrow> net_buf_simple outcome" where
  "sensor_status_encode m sensor_type_val buf =
     (let value_len = (4 :: byte);
          format_byte = push_bit 1 value_len OR 0x01
      in obind (net_buf_simple_add_u8 m format_byte)
           (\<lambda>m1. obind (net_buf_simple_add_le16 m1 sensor_type_val)
              (\<lambda>m2. net_buf_simple_add_mem m2 (buf_data buf))))"

definition mesh_model_publish_sensor ::
  "byte \<Rightarrow> 16 word \<Rightarrow> node_state \<Rightarrow> (esp_err_t \<times> node_state) outcome" where
  "mesh_model_publish_sensor model_index sensor_type_val s =
     (case find_sensor_model model_index s of
        None \<Rightarrow> Returned (ESP_ERR_NOT_FOUND, s)
      | Some p \<Rightarrow>
          (case objs s p of
             Some (SENSOR_STATE st) \<Rightarrow>
               obind (sensor_index_loop (sensors st) sensor_type_val (unat (sensor_count st)) 0)
                 (\<lambda>found. case found of
                    None \<Rightarrow> Returned (ESP_ERR_NOT_FOUND, s)
                  | Some sensor_idx \<Rightarrow>
                      (let answer = (case read (sensors st ! sensor_idx) of
                                       None \<Rightarrow> (ESP_OK, 0)
                                     | Some f \<Rightarrow> f sensor_type_val 0
                                                  (sensor_user_data (sensors st ! sensor_idx)));
                           sensor_value = snd answer
                       in if fst answer \<noteq> ESP_OK then Returned (fst answer, s)
                          else if length (sensor_states st) \<le> sensor_idx then Crashed OUT_OF_BOUNDS
                          else
                            (case raw_value (sensor_states st ! sensor_idx) of
                               None \<Rightarrow> Crashed NULL_DEREF
                             | Some buf0 \<Rightarrow>
                                 obind (net_buf_simple_add_le32 (net_buf_simple_reset buf0) sensor_value)
                                   (\<lambda>buf.
                                      let st1 = st\<lparr>sensor_states := (sensor_states st)
                                                  [sensor_idx := (sensor_states st ! sensor_idx)
                                                     \<lparr>raw_value := Some buf\<rparr>]\<rparr>;
                                          s1 = s\<lparr>objs := (objs s)(p \<mapsto> SENSOR_STATE st1)\<rparr>
                                      in if publish_addr (pub st1) = ESP_BLE_MESH_ADDR_UNASSIGNED
                                         then Returned (ESP_ERR_INVALID_STATE, s1)
                                         else
                                           (case msg (pub st1) of
                                              None \<Rightarrow> Crashed NULL_DEREF
                                            | Some m \<Rightarrow>
                                                obind (sensor_status_encode (net_buf_simple_reset m)
                                                         sensor_type_val buf)
                                                  (\<lambda>m1.
                                                     let st2 = st1\<lparr>pub := (pub st1)\<lparr>msg := Some m1\<rparr>\<rparr>;
                                                         s2 = s\<lparr>objs := (objs s)(p \<mapsto> SENSOR_STATE st2)\<rparr>
                                                     in Returned (esp_ble_mesh_server_model_send_msg
                                                          (esp_model st2)
                                                          (pub_ctx_to (publish_addr (pub st2)))
                                                          ESP_BLE_MESH_MODEL_OP_SENSOR_STATUS
                                                          (length (buf_data m1)) (buf_data m1) s2)))))))
           | _ \<Rightarrow> Crashed BAD_POINTER))"

subsection \<open>Following a model pointer\<close>

definition model_at :: "model_ref \<Rightarrow> node_state \<Rightarrow> esp_ble_mesh_model_t outcome" where
  "model_at r s =
     (case r of
        SIG_MODEL i \<Rightarrow>
          (case dynamic_sig_models s of
             None \<Rightarrow> Crashed NULL_DEREF
           | Some (a, arr) \<Rightarrow> if i < length arr then Returned (arr ! i) else Crashed OUT_OF_BOUNDS)
      | VND_MODEL i \<Rightarrow>
          (case dynamic_vnd_models s of
             None \<Rightarrow> Crashed NULL_DEREF
           | Some (a, arr) \<Rightarrow> if i < length arr then Returned (arr ! i) else Crashed OUT_OF_BOUNDS))"

definition pub_of :: "model_state \<Rightarrow> esp_ble_mesh_model_pub_t" where
  "pub_of obj =
     (case obj of
        ONOFF_STATE st \<Rightarrow> pub st
      | LEVEL_STATE st \<Rightarrow> pub st
      | SENSOR_STATE st \<Rightarrow> pub st
      | BATTERY_STATE st \<Rightarrow> pub st
      | VENDOR_STATE st \<Rightarrow> pub st)"

definition with_pub :: "esp_ble_mesh_model_pub_t \<Rightarrow> model_state \<Rightarrow> model_state" where
  "with_pub pb obj =
     (case obj of
        ONOFF_STATE st \<Rightarrow> ONOFF_STATE (st\<lparr>pub := pb\<rparr>)
      | LEVEL_STATE st \<Rightarrow> LEVEL_STATE (st\<lparr>pub := pb\<rparr>)
      | SENSOR_STATE st \<Rightarrow> SENSOR_STATE (st\<lparr>pub := pb\<rparr>)
      | BATTERY_STATE st \<Rightarrow> BATTERY_STATE (st\<lparr>pub := pb\<rparr>)
      | VENDOR_STATE st \<Rightarrow> VENDOR_STATE (st\<lparr>pub := pb\<rparr>))"

text \<open>Reading and writing the publication context a model record points to.\<close>

definition pub_at :: "pub_ref \<Rightarrow> node_state \<Rightarrow> esp_ble_mesh_model_pub_t outcome" where
  "pub_at r s =
     (case r of
        PUB_OF a \<Rightarrow> (case objs s a of None \<Rightarrow> Crashed BAD_POINTER | Some obj \<Rightarrow> Returned (pub_of obj))
      | SETUP_PUB_OF a \<Rightarrow>
          (case objs s a of
             Some (SENSOR_STATE st) \<Rightarrow> Returned (setup_pub st)
           | _ \<Rightarrow> Crashed BAD_POINTER))"

definition set_pub_at :: "pub_ref \<Rightarrow> esp_ble_mesh_model_pub_t \<Rightarrow> node_state \<Rightarrow> node_state" where
  "set_pub_at r pb s =
     (case r of
        PUB_OF a \<Rightarrow> s\<lparr>objs := (objs s)(a := map_option (with_pub pb) (objs s a))\<rparr>
      | SETUP_PUB_OF a \<Rightarrow>
          s\<lparr>objs := (objs s)(a := map_option
                 (\<lambda>obj. case obj of SENSOR_STATE st \<Rightarrow> SENSOR_STATE (st\<lparr>setup_pub := pb\<rparr>)
                                   | _ \<Rightarrow> obj) (objs s a))\<rparr>)"

subsection \<open>Vendor\<close>

definition mesh_model_send_vendor ::
  "byte \<Rightarrow> 32 word \<Rightarrow> byte list \<Rightarrow> 16 word \<Rightarrow> 16 word \<Rightarrow> node_state \<Rightarrow>
   (esp_err_t \<times> node_state) outcome" where
  "mesh_model_send_vendor model_index opcode data len dest_addr s =
     (case find_vendor_model model_index s of
        None \<Rightarrow> Returned (ESP_ERR_NOT_FOUND, s)
      | Some p \<Rightarrow>
          (case objs s p of
             Some (VENDOR_STATE st) \<Rightarrow>
               (case esp_model st of
                  None \<Rightarrow> Returned (ESP_ERR_INVALID_STATE, s)
                | Some r \<Rightarrow>
                    Returned (esp_ble_mesh_server_model_send_msg (Some r) (pub_ctx_to dest_addr)
                                opcode (unat len) data s))
           | _ \<Rightarrow> Crashed BAD_POINTER))"

definition mesh_model_publish_vendor ::
  "byte \<Rightarrow> 32 word \<Rightarrow> byte list \<Rightarrow> 16 word \<Rightarrow> node_state \<Rightarrow> (esp_err_t \<times> node_state) outcome" where
  "mesh_model_publish_vendor model_index opcode data len s =
     (case find_vendor_model model_index s of
        None \<Rightarrow> Returned (ESP_ERR_NOT_FOUND, s)
      | Some p \<Rightarrow>
          (case objs s p of
             Some (VENDOR_STATE st) \<Rightarrow>
               (case esp_model st of
                  None \<Rightarrow> Returned (ESP_ERR_INVALID_STATE, s)
                | Some r \<Rightarrow>
                    obind (model_at r s)
                      (\<lambda>m. case model_pub m of
                         None \<Rightarrow> Returned (ESP_ERR_INVALID_STATE, s)
                       | Some pr \<Rightarrow>
                           obind (pub_at pr s)
                             (\<lambda>pb. if publish_addr pb = ESP_BLE_MESH_ADDR_UNASSIGNED
                                then Returned (ESP_ERR_INVALID_STATE, s)
                                else Returned (esp_ble_mesh_server_model_send_msg (Some r)
                                       (pub_ctx_to (publish_addr pb)) opcode (unat len) data s))))
           | _ \<Rightarrow> Crashed BAD_POINTER))"

subsection \<open>Battery\<close>

definition mesh_model_set_battery ::
  "byte \<Rightarrow> byte \<Rightarrow> node_state \<Rightarrow> (esp_err_t \<times> node_state) outcome" where
  "mesh_model_set_battery model_index level_val s =
     (case find_battery_model model_index s of
        None \<Rightarrow> Returned (ESP_ERR_NOT_FOUND, s)
      | Some p \<Rightarrow>
          (case objs s p of
             Some (BATTERY_STATE st) \<Rightarrow>
               Returned (ESP_OK, s\<lparr>objs := (objs s)(p \<mapsto> BATTERY_STATE
                  (st\<lparr>battery_level := (if 100 < level_val then 100 else level_val)\<rparr>))\<rparr>)
           | _ \<Rightarrow> Crashed BAD_POINTER))"

text \<open>
  The eight \<open>net_buf_simple_add_u8\<close> calls of \<open>mesh_model_publish_battery\<close>: the
  level, 0xFF three times for the time to discharge, 0xFF three times for the time
  to charge, 0x00 for the flags.
\<close>

definition battery_status_encode :: "net_buf_simple \<Rightarrow> byte \<Rightarrow> net_buf_simple outcome" where
  "battery_status_encode m lvl =
     obind (net_buf_simple_add_u8 m lvl)
       (\<lambda>m1. obind (net_buf_simple_add_u8 m1 0xFF)
       (\<lambda>m2. obind (net_buf_simple_add_u8 m2 0xFF)
       (\<lambda>m3. obind (net_buf_simple_add_u8 m3 0xFF)
       (\<lambda>m4. obind (net_buf_simple_add_u8 m4 0xFF)
       (\<lambda>m5. obind (net_buf_simple_add_u8 m5 0xFF)
       (\<lambda>m6. obind (net_buf_simple_add_u8 m6 0xFF)
       (\<lambda>m7. net_buf_simple_add_u8 m7 0x00)))))))"

definition mesh_model_publish_battery ::
  "byte \<Rightarrow> node_state \<Rightarrow> (esp_err_t \<times> node_state) outcome" where
  "mesh_model_publish_battery model_index s =
     (case find_battery_model model_index s of
        None \<Rightarrow> Returned (ESP_ERR_NOT_FOUND, s)
      | Some p \<Rightarrow>
          (case objs s p of
             Some (BATTERY_STATE st) \<Rightarrow>
               (case esp_model st of
                  None \<Rightarrow> Returned (ESP_ERR_INVALID_STATE, s)
                | Some r \<Rightarrow>
                    (let lvl = (case battery_cb st of
                                  None \<Rightarrow> battery_level st
                                | Some f \<Rightarrow> snd (f (battery_level st) (battery_ctx st)));
                         st1 = (case battery_cb st of
                                  None \<Rightarrow> st
                                | Some f \<Rightarrow>
                                    if fst (f (battery_level st) (battery_ctx st)) = ESP_OK
                                    then st\<lparr>battery_level := lvl\<rparr> else st);
                         s1 = s\<lparr>objs := (objs s)(p \<mapsto> BATTERY_STATE st1)\<rparr>
                     in obind (model_at r s1)
                          (\<lambda>m. case model_pub m of
                             None \<Rightarrow> Crashed NULL_DEREF
                           | Some pr \<Rightarrow>
                               obind (pub_at pr s1)
                                 (\<lambda>pb. case msg pb of
                                    None \<Rightarrow> Returned (ESP_ERR_INVALID_STATE, s1)
                                  | Some m0 \<Rightarrow>
                                      obind (battery_status_encode (net_buf_simple_reset m0) lvl)
                                        (\<lambda>m1. Returned (esp_ble_mesh_server_model_send_msg (Some r)
                                                 (pub_ctx_to (publish_addr pb))
                                                 ESP_BLE_MESH_MODEL_OP_GEN_BATTERY_STATUS
                                                 (length (buf_data m1)) (buf_data m1)
                                                 (set_pub_at pr (pb\<lparr>msg := Some m1\<rparr>) s1)))))))
           | _ \<Rightarrow> Crashed BAD_POINTER))"

section \<open>The IMU node\<close>

text \<open>
  \<open>m5stick_mesh_imu.cpp\<close>. \<open>imu_sample\<close> is the six static \<open>int16_t\<close> variables
  \<open>accel_x\<close>, \<open>accel_y\<close>, \<open>accel_z\<close> (in mg) and \<open>gyro_x\<close>, \<open>gyro_y\<close>, \<open>gyro_z\<close>
  (in dps); \<open>imu_compact_data_t\<close> is the packed structure that is sent.
\<close>

record imu_sample =
  accel_x_mg :: "16 word"
  accel_y_mg :: "16 word"
  accel_z_mg :: "16 word"
  gyro_x_dps :: "16 word"
  gyro_y_dps :: "16 word"
  gyro_z_dps :: "16 word"

record imu_compact_data_t =
  timestamp_ms :: "16 word"
  accel_x :: "8 word"
  accel_y :: "8 word"
  accel_z :: "8 word"
  gyro_x :: "8 word"
  gyro_y :: "8 word"
  gyro_z :: "8 word"

text \<open>
  \<open>(int8_t)(v / d)\<close> for an \<open>int16_t\<close> \<open>v\<close>: \<open>v\<close> is promoted to \<open>int\<close>, C's division
  truncates towards zero (\<open>sdiv\<close>), and the conversion to \<open>int8_t\<close> keeps the low
  eight bits.
\<close>

definition decimate :: "16 word \<Rightarrow> int \<Rightarrow> 8 word" where
  "decimate v d = word_of_int (sint v sdiv d)"

text \<open>
  The initialiser of \<open>imu_data\<close> in \<open>publish_imu_data\<close>; \<open>time_us\<close> is what
  \<open>esp_timer_get_time\<close> returns, an \<open>int64_t\<close> count of microseconds.
\<close>

definition compact_imu :: "64 word \<Rightarrow> imu_sample \<Rightarrow> imu_compact_data_t" where
  "compact_imu time_us g =
     \<lparr>timestamp_ms = word_of_int (sint time_us sdiv 1000),
      accel_x = decimate (accel_x_mg g) 100,
      accel_y = decimate (accel_y_mg g) 100,
      accel_z = decimate (accel_z_mg g) 100,
      gyro_x = decimate (gyro_x_dps g) 10,
      gyro_y = decimate (gyro_y_dps g) 10,
      gyro_z = decimate (gyro_z_dps g) 10\<rparr>"

text \<open>
  The bytes of the packed structure as \<open>(uint8_t*)&imu_data\<close> reads them on the
  little-endian target: the members in declaration order, without padding.
\<close>

definition imu_bytes :: "imu_compact_data_t \<Rightarrow> byte list" where
  "imu_bytes d = le16 (timestamp_ms d) @
     [accel_x d, accel_y d, accel_z d, gyro_x d, gyro_y d, gyro_z d]"

definition VENDOR_MODEL_OP_IMU_DATA :: "32 word" where
  "VENDOR_MODEL_OP_IMU_DATA = 0xC00001"

text \<open>
  \<open>publish_imu_data\<close>, without its drawing on the display: the send result is only
  printed, so the function hands back the node alone.
\<close>

definition publish_imu_data :: "64 word \<Rightarrow> imu_sample \<Rightarrow> node_state \<Rightarrow> node_state outcome" where
  "publish_imu_data time_us g s =
     (let imu_data = imu_bytes (compact_imu time_us g) in
      obind (mesh_model_send_vendor 0 VENDOR_MODEL_OP_IMU_DATA imu_data
               (of_nat (length imu_data)) 0x0001 s)
        (\<lambda>(ret, s1). Returned s1))"

text \<open>
  The configuration of \<open>app_main\<close>: six sensors whose read callbacks hand back the
  static variables, one sensor model over them and one vendor model.
\<close>

definition app_sensors :: "imu_sample \<Rightarrow> mesh_sensor_config_t list" where
  "app_sensors g =
     [\<lparr>sensor_type = 0x5001, read = Some (\<lambda>t v u. (ESP_OK, scast (accel_x_mg g))),
       publish_period_ms = 100, sensor_user_data = None\<rparr>,
      \<lparr>sensor_type = 0x5002, read = Some (\<lambda>t v u. (ESP_OK, scast (accel_y_mg g))),
       publish_period_ms = 100, sensor_user_data = None\<rparr>,
      \<lparr>sensor_type = 0x5003, read = Some (\<lambda>t v u. (ESP_OK, scast (accel_z_mg g))),
       publish_period_ms = 100, sensor_user_data = None\<rparr>,
      \<lparr>sensor_type = 0x5004, read = Some (\<lambda>t v u. (ESP_OK, scast (gyro_x_dps g))),
       publish_period_ms = 100, sensor_user_data = None\<rparr>,
      \<lparr>sensor_type = 0x5005, read = Some (\<lambda>t v u. (ESP_OK, scast (gyro_y_dps g))),
       publish_period_ms = 100, sensor_user_data = None\<rparr>,
      \<lparr>sensor_type = 0x5006, read = Some (\<lambda>t v u. (ESP_OK, scast (gyro_z_dps g))),
       publish_period_ms = 100, sensor_user_data = None\<rparr>]"

definition app_models :: "imu_sample \<Rightarrow> mesh_model_config_t list" where
  "app_models g = [MESH_MODEL_SENSOR (app_sensors g) 6, MESH_MODEL_VENDOR 0x0001 0x0001 None None]"

text \<open>A sample of the device lying flat: 1 g on the z axis, no rotation.\<close>

definition imu_at_rest :: imu_sample where
  "imu_at_rest = \<lparr>accel_x_mg = 0, accel_y_mg = 0, accel_z_mg = 1000,
     gyro_x_dps = 0, gyro_y_dps = 0, gyro_z_dps = 0\<rparr>"

definition app_config :: "imu_sample \<Rightarrow> node_config_t" where
  "app_config g = \<lparr>models = Some (app_models g), model_count = 2\<rparr>"

text \<open>
  Two states that differ at most in the heap blocks and in what is left of the
  allocation script.
\<close>

definition heap_only :: "node_state \<Rightarrow> node_state \<Rightarrow> bool" where
  "heap_only s s' = (s' = s\<lparr>heap_blocks := heap_blocks s', calloc_script := calloc_script s'\<rparr>)"

text \<open>
  The heap as the later stages of \<open>init_sensor_model\<close> find it, seen from the
  state \<open>s0\<close> the function started in: the blocks of the state, of the two arrays
  and of the sensor buffers, then \<open>extra\<close> (the status publication buffer, if
  any), all of them new.
\<close>

definition sensor_heap :: "node_state \<Rightarrow> addr \<Rightarrow> addr \<Rightarrow> addr \<Rightarrow> addr list \<Rightarrow> addr list \<Rightarrow> node_state \<Rightarrow> bool" where
  "sensor_heap s0 state ss sb bufs extra s =
     ((\<exists>scr. s = s0\<lparr>heap_blocks := heap_blocks s0 @ [state, ss, sb] @ bufs @ extra, calloc_script := scr\<rparr>)
      \<and> set ([state, ss, sb] @ bufs @ extra) \<inter> set (heap_blocks s0) = {})"

text \<open>
  What the callback call of \<open>mesh_model_set_onoff\<close> and of \<open>mesh_model_set_level\<close>
  leaves in the trace: nothing \<open>if (!state->callback)\<close>, the call otherwise.
\<close>

definition onoff_cb_events :: "onoff_model_state_t \<Rightarrow> byte \<Rightarrow> event list" where
  "onoff_cb_events st v =
     (case onoff_cb st of None \<Rightarrow> [] | Some f \<Rightarrow> [ONOFF_CALLBACK f v (onoff_ctx st)])"

definition level_cb_events :: "level_model_state_t \<Rightarrow> 16 word \<Rightarrow> event list" where
  "level_cb_events st v =
     (case level_cb st of None \<Rightarrow> [] | Some f \<Rightarrow> [LEVEL_CALLBACK f v (level_ctx st)])"

text \<open>
  Modelled from the spec: the mesh stack, which is not under src/, owns the
  publication address: "a per-model publish-address field that the stack populates
  once a network operator binds a destination". \<open>bind_publish_addr p a\<close> is that
  write, to the publication context of the runtime state at \<open>p\<close>.
\<close>

definition bind_publish_addr :: "addr \<Rightarrow> 16 word \<Rightarrow> node_state \<Rightarrow> node_state" where
  "bind_publish_addr p a s =
     s\<lparr>objs := (objs s)(p := map_option (\<lambda>obj. with_pub ((pub_of obj)\<lparr>publish_addr := a\<rparr>) obj)
                                (objs s p))\<rparr>"

text \<open>
  A descriptor list with one model of each kind the \<open>switch\<close> of \<open>build_models\<close>
  handles, written with the initialiser macros; the sensor model is the one of
  \<open>app_main\<close>.
\<close>

definition five_models :: "mesh_model_config_t list" where
  "five_models = [MESH_MODEL_ONOFF None 0 None, MESH_MODEL_LEVEL None 0 None,
     MESH_MODEL_SENSOR (app_sensors imu_at_rest) 6, MESH_MODEL_VENDOR 0x0001 0x0001 None None,
     MESH_MODEL_BATTERY None 60000 None]"

text \<open>
  The allocations of a successful \<open>init_sensor_model\<close>, in order: the state, the
  \<open>sensor_states\<close> array, the \<open>sensor_bufs\<close> array, one raw-value buffer per
  sensor, the status publication buffer \<open>if (config->enable_publication)\<close>, the
  setup publication buffer.
\<close>

definition sensor_alloc_count :: "mesh_model_config_t \<Rightarrow> nat" where
  "sensor_alloc_count config =
     3 + unat (sensor_sensor_count config) + (if enable_publication config then 1 else 0) + 1"

text \<open>
  What the stack's send answers in a state: the head of the script, success once the
  script is exhausted.
\<close>

definition send_result :: "node_state \<Rightarrow> esp_err_t" where
  "send_result s = (case send_script s of [] \<Rightarrow> ESP_OK | r # rest \<Rightarrow> r)"

text \<open>
  The level \<open>mesh_model_publish_battery\<close> sends: the stored \<open>battery_level\<close>, or
  what the callback leaves in the local copy it is handed.
\<close>

definition battery_reading :: "battery_model_state_t \<Rightarrow> byte" where
  "battery_reading st =
     (case battery_cb st of
        None \<Rightarrow> battery_level st
      | Some f \<Rightarrow> snd (f (battery_level st) (battery_ctx st)))"

text \<open>
  The read of \<open>mesh_model_publish_sensor\<close>: \<open>sensor_value\<close> starts at 0 and the
  sensor's \<open>read\<close> callback, if there is one, is called with its address.
\<close>

definition sensor_reading :: "mesh_sensor_config_t \<Rightarrow> 16 word \<Rightarrow> esp_err_t \<times> 32 word" where
  "sensor_reading x t =
     (case read x of
        None \<Rightarrow> (ESP_OK, 0)
      | Some f \<Rightarrow> f t 0 (sensor_user_data x))"

text \<open>
  What the \<open>init_*_model\<close> function of a descriptor's kind leaves in the runtime
  state it allocates: the kind of the state, the initial values, the callback and
  the context copied from the descriptor, the publication address unassigned, the
  publication buffers as the kind has them.
\<close>

definition built_from :: "mesh_model_config_t \<Rightarrow> model_state \<Rightarrow> bool" where
  "built_from c obj =
     (case obj of
        ONOFF_STATE st \<Rightarrow>
          type c = MESH_MODEL_TYPE_ONOFF
          \<and> onoff st = onoff_initial_state c \<and> server_onoff st = onoff_initial_state c
          \<and> server_target_onoff st = onoff_initial_state c
          \<and> onoff_cb st = onoff_callback c \<and> onoff_ctx st = onoff_user_data c
          \<and> publish_addr (pub st) = ESP_BLE_MESH_ADDR_UNASSIGNED
          \<and> msg (pub st) = (if enable_publication c then Some (NET_BUF_SIMPLE 5) else None)
      | LEVEL_STATE st \<Rightarrow>
          type c = MESH_MODEL_TYPE_LEVEL
          \<and> level st = level_initial_level c \<and> server_level st = level_initial_level c
          \<and> server_target_level st = level_initial_level c
          \<and> level_cb st = level_callback c \<and> level_ctx st = level_user_data c
          \<and> publish_addr (pub st) = ESP_BLE_MESH_ADDR_UNASSIGNED
          \<and> msg (pub st) = (if enable_publication c then Some (NET_BUF_SIMPLE 7) else None)
      | SENSOR_STATE st \<Rightarrow>
          type c = MESH_MODEL_TYPE_SENSOR
          \<and> sensors st = sensor_sensors c \<and> sensor_count st = sensor_sensor_count c
          \<and> sensor_states st = map mk_sensor_state
                (take (unat (sensor_sensor_count c)) (sensor_sensors c))
          \<and> publish_addr (pub st) = ESP_BLE_MESH_ADDR_UNASSIGNED
          \<and> msg (pub st) = (if enable_publication c then Some (NET_BUF_SIMPLE 34) else None)
          \<and> (msg_block (pub st) \<noteq> None \<longleftrightarrow> enable_publication c)
          \<and> publish_addr (setup_pub st) = ESP_BLE_MESH_ADDR_UNASSIGNED
          \<and> msg (setup_pub st) = Some (NET_BUF_SIMPLE 34)
          \<and> msg_block (setup_pub st) \<noteq> None
      | BATTERY_STATE st \<Rightarrow>
          type c = MESH_MODEL_TYPE_BATTERY
          \<and> battery_level st = 100 \<and> battery_cb st = battery_callback c
          \<and> battery_period_ms st = battery_publish_period_ms c
          \<and> battery_ctx st = battery_user_data c
          \<and> publish_addr (pub st) = ESP_BLE_MESH_ADDR_UNASSIGNED
          \<and> msg (pub st) = (if enable_publication c then Some (NET_BUF_SIMPLE 10) else None)
      | VENDOR_STATE st \<Rightarrow>
          type c = MESH_MODEL_TYPE_VENDOR
          \<and> company_id st = vendor_company_id c \<and> model_id st = vendor_model_id c
          \<and> handler st = vendor_handler c \<and> vendor_ctx st = vendor_user_data c
          \<and> publish_addr (pub st) = ESP_BLE_MESH_ADDR_UNASSIGNED \<and> msg (pub st) = None)"

text \<open>
  A successful \<open>init_*_model\<close> as a relation between the node before and after:
  a new block \<open>state\<close> followed by the other new blocks, the runtime state at
  \<open>state\<close>, and \<open>registry->runtime_state = state\<close>.
\<close>

definition init_post :: "mesh_model_config_t \<Rightarrow> nat \<Rightarrow> node_state \<Rightarrow> node_state \<Rightarrow> bool" where
  "init_post c ri s s' =
     (\<exists>state obj new scr. state \<notin> set (heap_blocks s) \<and> built_from c obj
        \<and> s' = s\<lparr>model_registry := (model_registry s)
                     [ri := (model_registry s ! ri)\<lparr>runtime_state := Some state\<rparr>],
                 heap_blocks := heap_blocks s @ state # new, calloc_script := scr,
                 objs := (objs s)(state \<mapsto> obj)\<rparr>)"

text \<open>The conditions on \<open>state->pub\<close> that the last stage of the sensor allocation relies on.\<close>

definition sensor_pub_ready :: "mesh_model_config_t \<Rightarrow> esp_ble_mesh_model_pub_t \<Rightarrow> bool" where
  "sensor_pub_ready c pb =
     (publish_addr pb = ESP_BLE_MESH_ADDR_UNASSIGNED
      \<and> msg pb = (if enable_publication c then Some (NET_BUF_SIMPLE 34) else None)
      \<and> (msg_block pb \<noteq> None \<longleftrightarrow> enable_publication c))"

text \<open>
  \<open>place_sig_model\<close> and \<open>place_vnd_model\<close> as a relation: the model pointer \<open>r\<close>
  is stored in the runtime state and in the registry entry, the heap is untouched.
\<close>

definition placed :: "nat \<Rightarrow> addr \<Rightarrow> model_ref \<Rightarrow> node_state \<Rightarrow> node_state \<Rightarrow> bool" where
  "placed ri state r s s' =
     (registered_model_count s' = registered_model_count s
        \<and> heap_blocks s' = heap_blocks s
        \<and> objs s' = (objs s)(state := map_option (with_esp_model r) (objs s state))
        \<and> model_registry s' = (model_registry s)
             [ri := (model_registry s ! ri)\<lparr>reg_esp_model := Some r\<rparr>])"

text \<open>
  One successful pass of the second loop of \<open>build_models\<close>, before
  \<open>registered_model_count++\<close>: the entries below the count are untouched, the entry
  at the count holds the descriptor, its type and a runtime state in a new block.
\<close>

definition build_post :: "mesh_model_config_t \<Rightarrow> node_state \<Rightarrow> node_state \<Rightarrow> bool" where
  "build_post c s s' =
     (registered_model_count s' = registered_model_count s
      \<and> length (model_registry s') = length (model_registry s)
      \<and> take (unat (registered_model_count s)) (model_registry s')
          = take (unat (registered_model_count s)) (model_registry s)
      \<and> user_config (model_registry s' ! unat (registered_model_count s)) = c
      \<and> reg_type (model_registry s' ! unat (registered_model_count s)) = type c
      \<and> (\<exists>state obj. runtime_state (model_registry s' ! unat (registered_model_count s)) = Some state
           \<and> state \<notin> set (heap_blocks s) \<and> state \<in> set (heap_blocks s')
           \<and> set (heap_blocks s) \<subseteq> set (heap_blocks s')
           \<and> built_from c obj \<and> objs s' = (objs s)(state \<mapsto> obj)))"

text \<open>
  The invariant of that loop: every registered entry has the type of its descriptor
  and a runtime state, in an allocated block, built from its descriptor; no two
  entries share a runtime state.
\<close>

definition entry_ok :: "node_state \<Rightarrow> model_registry_entry_t \<Rightarrow> bool" where
  "entry_ok s e =
     (reg_type e = type (user_config e)
      \<and> (\<exists>p obj. runtime_state e = Some p \<and> p \<in> set (heap_blocks s)
            \<and> objs s p = Some obj \<and> built_from (user_config e) obj))"

definition registry_ok :: "node_state \<Rightarrow> bool" where
  "registry_ok s =
     ((\<forall>e \<in> set (registered s). entry_ok s e) \<and> distinct (map runtime_state (registered s)))"

text \<open>
  Following the spec: "find(kind, i) returns the i-th registered descriptor of that
  kind in registration order, and returns not found for i >= the count of that
  kind". \<open>kind_positions t descs\<close> are the positions in the descriptor list of the
  descriptors of kind \<open>t\<close>, in order; \<open>spec_find s t i descs\<close> is the runtime state of
  the registry entry at the i-th of them.
\<close>

definition kind_positions :: "mesh_model_type_t \<Rightarrow> mesh_model_config_t list \<Rightarrow> nat list" where
  "kind_positions t descs = filter (\<lambda>k. type (descs ! k) = t) [0..<length descs]"

definition spec_find ::
  "node_state \<Rightarrow> mesh_model_type_t \<Rightarrow> nat \<Rightarrow> mesh_model_config_t list \<Rightarrow> addr option" where
  "spec_find s t i descs =
     (if i < length (kind_positions t descs)
      then runtime_state (model_registry s ! (kind_positions t descs ! i))
      else None)"

text \<open>
  The calls of the model API as values, and a sequence of them run one after the
  other whatever each returns, up to a crash.
\<close>

datatype api_call =
    SET_ONOFF byte byte bool
  | PUBLISH_ONOFF byte byte
  | SET_LEVEL byte "16 word" bool
  | PUBLISH_LEVEL byte "16 word"
  | PUBLISH_SENSOR byte "16 word"
  | SEND_VENDOR byte "32 word" "byte list" "16 word" "16 word"
  | PUBLISH_VENDOR byte "32 word" "byte list" "16 word"
  | SET_BATTERY byte byte
  | PUBLISH_BATTERY byte

fun api :: "api_call \<Rightarrow> node_state \<Rightarrow> (esp_err_t \<times> node_state) outcome" where
  "api (SET_ONOFF i v p) s = mesh_model_set_onoff i v p s"
| "api (PUBLISH_ONOFF i v) s = mesh_model_publish_onoff i v s"
| "api (SET_LEVEL i v p) s = mesh_model_set_level i v p s"
| "api (PUBLISH_LEVEL i v) s = mesh_model_publish_level i v s"
| "api (PUBLISH_SENSOR i t) s = mesh_model_publish_sensor i t s"
| "api (SEND_VENDOR i opc d n a) s = mesh_model_send_vendor i opc d n a s"
| "api (PUBLISH_VENDOR i opc d n) s = mesh_model_publish_vendor i opc d n s"
| "api (SET_BATTERY i v) s = mesh_model_set_battery i v s"
| "api (PUBLISH_BATTERY i) s = mesh_model_publish_battery i s"

fun run_api :: "api_call list \<Rightarrow> node_state \<Rightarrow> node_state outcome" where
  "run_api [] s = Returned s"
| "run_api (c # cs) s =
     (case api c s of
        Crashed f \<Rightarrow> Crashed f
      | Returned (ret, s1) \<Rightarrow> run_api cs s1)"

text \<open>Two states with the same registry.\<close>

definition same_registry :: "node_state \<Rightarrow> node_state \<Rightarrow> bool" where
  "same_registry s s' =
     (model_registry s' = model_registry s \<and> registered_model_count s' = registered_model_count s)"

text \<open>A platform on which every collaborator of \<open>node_init\<close> succeeds.\<close>

definition ok_platform :: platform where
  "ok_platform = \<lparr>nvs_flash_init_ret = ESP_OK, nvs_flash_erase_ret = ESP_OK,
     nvs_flash_init_again_ret = ESP_OK, bt_controller_mem_release_ret = ESP_OK,
     bt_controller_init_ret = ESP_OK, bt_controller_enable_ret = ESP_OK,
     bluedroid_init_ret = ESP_OK, bluedroid_enable_ret = ESP_OK, ble_mesh_init_ret = ESP_OK\<rparr>"

text \<open>
  Descriptors for the examples: the sensor model of \<open>app_main\<close> with publication
  switched off, and two switches and a dimmer that differ in their callbacks.
\<close>

definition silent_sensor_model :: mesh_model_config_t where
  "silent_sensor_model = (MESH_MODEL_SENSOR (app_sensors imu_at_rest) 6)\<lparr>enable_publication := False\<rparr>"

definition switch_a :: mesh_model_config_t where
  "switch_a = MESH_MODEL_ONOFF (Some 1) 0 None"

definition dimmer_c :: mesh_model_config_t where
  "dimmer_c = MESH_MODEL_LEVEL (Some 3) 0 None"

definition switch_b :: mesh_model_config_t where
  "switch_b = MESH_MODEL_ONOFF (Some 2) 1 None"

text \<open>The values a signed byte can hold.\<close>

definition fits_int8 :: "int \<Rightarrow> bool" where
  "fits_int8 k = (- 128 \<le> k \<and> k \<le> 127)"

section \<open>Properties of the codec\<close>

lemma from_le16_le16: "from_le16 (le16 v) = v"
  unfolding from_le16_def le16_def
  apply simp
  apply (rule bit_word_eqI)
  apply (auto simp add: bit_simps)
  done

lemma from_le32_le32: "from_le32 (le32 v) = v"
  unfolding from_le32_def le32_def
  apply simp
  apply (rule bit_word_eqI)
  apply (auto simp add: bit_simps)
  subgoal for n by (cases "n < 24") auto
  done

lemma length_le16 [simp]: "length (le16 w) = 2"
  by (simp add: le16_def)

lemma length_le32 [simp]: "length (le32 w) = 4"
  by (simp add: le32_def)

lemma decimate_in_range:
  "fits_int8 (sint v sdiv d) \<Longrightarrow> sint (decimate v d) = sint v sdiv d"
  unfolding decimate_def fits_int8_def
  by (simp add: sint_sbintrunc' signed_take_bit_int_eq_self)

lemma decimate_wraps: "sint (decimate v d) = signed_take_bit 7 (sint v sdiv d)"
  unfolding decimate_def by (simp add: sint_sbintrunc')

lemma fits_int8_take_bit: "fits_int8 k \<Longrightarrow> signed_take_bit 7 k = k"
  unfolding fits_int8_def by (simp add: signed_take_bit_int_eq_self)

subsection \<open>The compact IMU payload\<close>

text \<open>
  C7, as the code has it. The structure \<open>publish_imu_data\<close> sends is 8 bytes for
  every input: the 16-bit timestamp, little-endian (the milliseconds modulo 65536),
  then the six signed bytes. Each accelerometer byte is the low eight bits of the
  input in mg divided by 100, each gyroscope byte the low eight bits of the input
  in dps divided by 10, the division truncating towards zero; the byte equals the
  quotient whenever the quotient fits a signed byte (-128 to 127).
\<close>

theorem imu_compact_encoding:
  "length (imu_bytes (compact_imu t g)) = 8
   \<and> take 2 (imu_bytes (compact_imu t g)) = le16 (timestamp_ms (compact_imu t g))
   \<and> (0 \<le> sint t \<longrightarrow> uint (timestamp_ms (compact_imu t g)) = (sint t div 1000) mod 65536)
   \<and> map sint (drop 2 (imu_bytes (compact_imu t g))) =
       [signed_take_bit 7 (sint (accel_x_mg g) sdiv 100),
        signed_take_bit 7 (sint (accel_y_mg g) sdiv 100),
        signed_take_bit 7 (sint (accel_z_mg g) sdiv 100),
        signed_take_bit 7 (sint (gyro_x_dps g) sdiv 10),
        signed_take_bit 7 (sint (gyro_y_dps g) sdiv 10),
        signed_take_bit 7 (sint (gyro_z_dps g) sdiv 10)]
   \<and> (fits_int8 (sint (accel_x_mg g) sdiv 100) \<longrightarrow>
        sint (accel_x (compact_imu t g)) = sint (accel_x_mg g) sdiv 100)
   \<and> (fits_int8 (sint (accel_y_mg g) sdiv 100) \<longrightarrow>
        sint (accel_y (compact_imu t g)) = sint (accel_y_mg g) sdiv 100)
   \<and> (fits_int8 (sint (accel_z_mg g) sdiv 100) \<longrightarrow>
        sint (accel_z (compact_imu t g)) = sint (accel_z_mg g) sdiv 100)
   \<and> (fits_int8 (sint (gyro_x_dps g) sdiv 10) \<longrightarrow>
        sint (gyro_x (compact_imu t g)) = sint (gyro_x_dps g) sdiv 10)
   \<and> (fits_int8 (sint (gyro_y_dps g) sdiv 10) \<longrightarrow>
        sint (gyro_y (compact_imu t g)) = sint (gyro_y_dps g) sdiv 10)
   \<and> (fits_int8 (sint (gyro_z_dps g) sdiv 10) \<longrightarrow>
        sint (gyro_z (compact_imu t g)) = sint (gyro_z_dps g) sdiv 10)"
proof -
  have ts: "0 \<le> sint t \<Longrightarrow> uint (timestamp_ms (compact_imu t g)) = (sint t div 1000) mod 65536"
    by (simp add: compact_imu_def signed_divide_int_def uint_word_of_int sgn_if)
  show ?thesis
    using ts
    by (simp add: imu_bytes_def compact_imu_def decimate_wraps fits_int8_take_bit)
qed

text \<open>
  The inputs the spec names: 1500 mg and -1500 mg give 15 and -15, 250 dps and
  -250 dps give 25 and -25.
\<close>

theorem imu_compact_encoding_witness:
  "fits_int8 (sint (1500 :: 16 word) sdiv 100) \<and> fits_int8 (sint (- 1500 :: 16 word) sdiv 100)
   \<and> fits_int8 (sint (250 :: 16 word) sdiv 10) \<and> fits_int8 (sint (- 250 :: 16 word) sdiv 10)
   \<and> map sint (drop 2 (imu_bytes (compact_imu 70000000
         \<lparr>accel_x_mg = 1500, accel_y_mg = - 1500, accel_z_mg = 1500,
          gyro_x_dps = 250, gyro_y_dps = - 250, gyro_z_dps = 250\<rparr>)))
       = [15, - 15, 15, 25, - 25, 25]
   \<and> uint (timestamp_ms (compact_imu 70000000
         \<lparr>accel_x_mg = 1500, accel_y_mg = - 1500, accel_z_mg = 1500,
          gyro_x_dps = 250, gyro_y_dps = - 250, gyro_z_dps = 250\<rparr>)) = 4464"
  using imu_compact_encoding [of 70000000
         "\<lparr>accel_x_mg = 1500, accel_y_mg = - 1500, accel_z_mg = 1500,
          gyro_x_dps = 250, gyro_y_dps = - 250, gyro_z_dps = 250\<rparr>"]
  by (simp add: fits_int8_def signed_divide_int_def imu_bytes_def compact_imu_def)

text \<open>
  C7 as the spec states it ("each accelerometer byte equals the input value
  divided by 100", for any input) fails outside that range: 12800 mg divided by
  100 is 128, and the byte sent is -128; 1280 dps divided by 10 is 128 as well.
\<close>

theorem imu_compact_encoding_counterexample:
  "sint (accel_x (compact_imu 0
      \<lparr>accel_x_mg = 12800, accel_y_mg = 0, accel_z_mg = 0,
       gyro_x_dps = 1280, gyro_y_dps = 0, gyro_z_dps = 0\<rparr>)) = - 128
   \<and> sint (12800 :: 16 word) sdiv 100 = 128
   \<and> sint (gyro_x (compact_imu 0
      \<lparr>accel_x_mg = 12800, accel_y_mg = 0, accel_z_mg = 0,
       gyro_x_dps = 1280, gyro_y_dps = 0, gyro_z_dps = 0\<rparr>)) = - 128
   \<and> sint (1280 :: 16 word) sdiv 10 = 128"
  by (simp add: compact_imu_def decimate_def signed_divide_int_def)

section \<open>Properties of the composition build\<close>

subsection \<open>What the build leaves alone\<close>

lemma calloc_frame:
  "calloc s = (r, s') \<Longrightarrow>
     sig_model_count s' = sig_model_count s \<and> vnd_model_count s' = vnd_model_count s
     \<and> model_registry s' = model_registry s \<and> registered_model_count s' = registered_model_count s
     \<and> dynamic_sig_models s' = dynamic_sig_models s \<and> dynamic_vnd_models s' = dynamic_vnd_models s
     \<and> elements s' = elements s \<and> objs s' = objs s \<and> trace s' = trace s
     \<and> send_script s' = send_script s"
  by (auto simp: calloc_def Let_def split: list.splits if_splits)

lemma fold_free_counts [simp]:
  "sig_model_count (fold free bs s) = sig_model_count s"
  "vnd_model_count (fold free bs s) = vnd_model_count s"
  "registered_model_count (fold free bs s) = registered_model_count s"
  by (induction bs arbitrary: s) (auto simp: free_def)

lemma free_counts [simp]:
  "sig_model_count (free a s) = sig_model_count s"
  "vnd_model_count (free a s) = vnd_model_count s"
  "registered_model_count (free a s) = registered_model_count s"
  by (auto simp: free_def)

lemma sensor_buf_loop_counts:
  "sensor_buf_loop snsrs state ss sb n i sts bufs s = Returned (ret, sts', bufs', s') \<Longrightarrow>
   sig_model_count s' = sig_model_count s \<and> vnd_model_count s' = vnd_model_count s
   \<and> registered_model_count s' = registered_model_count s"
proof (induction n arbitrary: i sts bufs s)
  case 0
  then show ?case by simp
next
  case (Suc n)
  then show ?case
    by (auto split: if_splits prod.splits option.splits dest!: calloc_frame)
qed

lemma sensor_setup_stage_counts:
  "sensor_setup_stage c ri state ss sb sts bufs pb s = (ret, s') \<Longrightarrow>
   sig_model_count s' = sig_model_count s \<and> vnd_model_count s' = vnd_model_count s
   \<and> registered_model_count s' = registered_model_count s"
  unfolding sensor_setup_stage_def
  by (auto simp: set_runtime_state_def Let_def split: prod.splits option.splits
      dest!: calloc_frame)

lemma sensor_pub_stage_counts:
  "sensor_pub_stage c ri state ss sb sts bufs s = (ret, s') \<Longrightarrow>
   sig_model_count s' = sig_model_count s \<and> vnd_model_count s' = vnd_model_count s
   \<and> registered_model_count s' = registered_model_count s"
  unfolding sensor_pub_stage_def
  by (auto split: if_splits prod.splits option.splits
      dest!: calloc_frame sensor_setup_stage_counts)

lemma init_sensor_model_counts:
  "init_sensor_model c ri s = Returned (ret, s') \<Longrightarrow>
   sig_model_count s' = sig_model_count s \<and> vnd_model_count s' = vnd_model_count s
   \<and> registered_model_count s' = registered_model_count s"
  unfolding init_sensor_model_def obind_def
  by (auto split: if_splits prod.splits option.splits outcome.splits
      dest!: calloc_frame sensor_buf_loop_counts sensor_pub_stage_counts)

lemma write_sig_model_counts:
  "write_sig_model k m s = Returned s' \<Longrightarrow>
   sig_model_count s' = sig_model_count s \<and> vnd_model_count s' = vnd_model_count s
   \<and> registered_model_count s' = registered_model_count s"
  by (auto simp: write_sig_model_def split: option.splits if_splits)

lemma write_vnd_model_counts:
  "write_vnd_model k m s = Returned s' \<Longrightarrow>
   sig_model_count s' = sig_model_count s \<and> vnd_model_count s' = vnd_model_count s
   \<and> registered_model_count s' = registered_model_count s"
  by (auto simp: write_vnd_model_def split: option.splits if_splits)

lemma place_sig_model_counts:
  "place_sig_model ri p m k s = Returned s' \<Longrightarrow>
   sig_model_count s' = sig_model_count s \<and> vnd_model_count s' = vnd_model_count s
   \<and> registered_model_count s' = registered_model_count s"
  by (auto simp: place_sig_model_def obind_def set_reg_esp_model_def set_esp_model_def
      split: outcome.splits dest!: write_sig_model_counts)

lemma place_vnd_model_counts:
  "place_vnd_model ri p m k s = Returned s' \<Longrightarrow>
   sig_model_count s' = sig_model_count s \<and> vnd_model_count s' = vnd_model_count s
   \<and> registered_model_count s' = registered_model_count s"
  by (auto simp: place_vnd_model_def obind_def set_reg_esp_model_def set_esp_model_def
      split: outcome.splits dest!: write_vnd_model_counts)

lemma init_simple_counts:
  "init_onoff_model c ri s = (ret, s') \<Longrightarrow>
   sig_model_count s' = sig_model_count s \<and> vnd_model_count s' = vnd_model_count s
   \<and> registered_model_count s' = registered_model_count s"
  "init_level_model c ri s = (ret, s') \<Longrightarrow>
   sig_model_count s' = sig_model_count s \<and> vnd_model_count s' = vnd_model_count s
   \<and> registered_model_count s' = registered_model_count s"
  "init_vendor_model c ri s = (ret, s') \<Longrightarrow>
   sig_model_count s' = sig_model_count s \<and> vnd_model_count s' = vnd_model_count s
   \<and> registered_model_count s' = registered_model_count s"
  "init_battery_model c ri s = (ret, s') \<Longrightarrow>
   sig_model_count s' = sig_model_count s \<and> vnd_model_count s' = vnd_model_count s
   \<and> registered_model_count s' = registered_model_count s"
  by (auto simp: init_onoff_model_def init_level_model_def init_vendor_model_def
      init_battery_model_def set_runtime_state_def Let_def
      split: prod.splits option.splits dest!: calloc_frame)

lemma build_kind_counts:
  "build_onoff_model c ri sl vl s = Returned (ret, sl', vl', s') \<Longrightarrow>
   sig_model_count s' = sig_model_count s \<and> vnd_model_count s' = vnd_model_count s
   \<and> registered_model_count s' = registered_model_count s"
  "build_level_model c ri sl vl s = Returned (ret, sl', vl', s') \<Longrightarrow>
   sig_model_count s' = sig_model_count s \<and> vnd_model_count s' = vnd_model_count s
   \<and> registered_model_count s' = registered_model_count s"
  "build_sensor_model c ri sl vl s = Returned (ret, sl', vl', s') \<Longrightarrow>
   sig_model_count s' = sig_model_count s \<and> vnd_model_count s' = vnd_model_count s
   \<and> registered_model_count s' = registered_model_count s"
  "build_vendor_model c ri sl vl s = Returned (ret, sl', vl', s') \<Longrightarrow>
   sig_model_count s' = sig_model_count s \<and> vnd_model_count s' = vnd_model_count s
   \<and> registered_model_count s' = registered_model_count s"
  "build_battery_model c ri sl vl s = Returned (ret, sl', vl', s') \<Longrightarrow>
   sig_model_count s' = sig_model_count s \<and> vnd_model_count s' = vnd_model_count s
   \<and> registered_model_count s' = registered_model_count s"
  unfolding build_onoff_model_def build_level_model_def build_sensor_model_def
    build_vendor_model_def build_battery_model_def obind_def
  by (auto split: if_splits prod.splits option.splits outcome.splits
      dest!: init_simple_counts init_sensor_model_counts place_sig_model_counts
             place_vnd_model_counts write_sig_model_counts)

lemma build_model_counts:
  "build_model c sl vl s = Returned (ret, sl', vl', s') \<Longrightarrow>
   sig_model_count s' = sig_model_count s \<and> vnd_model_count s' = vnd_model_count s
   \<and> registered_model_count s' = registered_model_count s"
  unfolding build_model_def Let_def
  by (auto simp: register_config_def split: if_splits mesh_model_type_t.splits
      dest!: build_kind_counts)

lemma build_user_models_counts:
  "build_user_models ds sl vl s = Returned (ret, s') \<Longrightarrow>
   sig_model_count s' = sig_model_count s \<and> vnd_model_count s' = vnd_model_count s"
proof (induction ds arbitrary: sl vl s)
  case Nil
  then show ?case by simp
next
  case (Cons d ds)
  then show ?case
    by (fastforce split: outcome.splits prod.splits if_splits dest!: build_model_counts)
qed


lemma count_models_eq:
  "count_models ms (a, b) =
     (a + of_nat (length (filter (\<lambda>m. type m \<noteq> MESH_MODEL_TYPE_VENDOR \<and> type m \<noteq> MESH_MODEL_TYPE_SENSOR) ms))
        + 2 * of_nat (length (filter (\<lambda>m. type m = MESH_MODEL_TYPE_SENSOR) ms)),
      b + of_nat (length (filter (\<lambda>m. type m = MESH_MODEL_TYPE_VENDOR) ms)))"
  by (induction ms arbitrary: a b) (auto simp: algebra_simps)

lemma kinds_partition:
  "length (filter (\<lambda>m. type m \<noteq> MESH_MODEL_TYPE_VENDOR \<and> type m \<noteq> MESH_MODEL_TYPE_SENSOR) ms)
   = length ms - length (filter (\<lambda>m. type m = MESH_MODEL_TYPE_SENSOR) ms)
       - length (filter (\<lambda>m. type m = MESH_MODEL_TYPE_VENDOR) ms)"
proof (induction ms)
  case Nil
  then show ?case by simp
next
  case (Cons m ms)
  have "length (filter (\<lambda>m. type m = MESH_MODEL_TYPE_SENSOR) ms)
        + length (filter (\<lambda>m. type m = MESH_MODEL_TYPE_VENDOR) ms) \<le> length ms"
    by (induction ms) auto
  with Cons show ?case by auto
qed

lemma build_models_counts:
  assumes "build_models user_models mcount s = Returned (ret, s')"
  shows "(sig_model_count s', vnd_model_count s')
           = count_models (take (unat mcount) user_models) (1, 0)
         \<and> unat mcount \<le> length user_models"
  using assms unfolding build_models_def Let_def obind_def
  by (auto split: if_splits prod.splits option.splits outcome.splits bool.splits
      dest!: calloc_frame write_sig_model_counts build_user_models_counts)

lemma build_user_models_capacity:
  "build_user_models ds sl vl s = Returned (ESP_OK, s') \<Longrightarrow>
   ds = [] \<or> unat (registered_model_count s) + length ds \<le> MAX_MODELS"
proof (induction ds arbitrary: sl vl s)
  case Nil
  then show ?case by simp
next
  case (Cons c ds)
  from Cons.prems obtain sl1 vl1 s1 where
    bm: "build_model c sl vl s = Returned (ESP_OK, sl1, vl1, s1)"
    and rest: "build_user_models ds sl1 vl1
                 (s1\<lparr>registered_model_count := registered_model_count s1 + 1\<rparr>)
               = Returned (ESP_OK, s')"
    by (auto split: outcome.splits prod.splits if_splits)
  from bm have lt: "unat (registered_model_count s) < MAX_MODELS"
    unfolding build_model_def Let_def by (auto split: if_splits)
  from build_model_counts [OF bm]
  have c1: "registered_model_count s1 = registered_model_count s" by simp
  have "unat (registered_model_count s) + 1 < 2 ^ 8" using lt by (simp add: MAX_MODELS_def)
  then have u: "unat (registered_model_count s + 1) = Suc (unat (registered_model_count s))"
    by (simp add: unat_word_ariths)
  from Cons.IH [OF rest] lt show ?case by (auto simp: c1 u)
qed

lemma build_models_capacity:
  assumes "build_models user_models mcount s = Returned (ESP_OK, s')"
  shows "unat mcount \<le> MAX_MODELS"
proof -
  from assms have le: "unat mcount \<le> length user_models"
    unfolding build_models_def by (auto split: if_splits)
  from assms obtain s5 where
    l: "build_user_models (take (unat mcount) user_models) 1 0 s5 = Returned (ESP_OK, s')"
    and c: "registered_model_count s5 = registered_model_count s"
    unfolding build_models_def Let_def obind_def
    by (auto simp: write_sig_model_def
        split: if_splits prod.splits option.splits outcome.splits bool.splits
        dest!: calloc_frame)
  from build_user_models_capacity [OF l] le show ?thesis by auto
qed

lemmas build_defs = build_models_def build_model_def build_onoff_model_def build_level_model_def
  build_sensor_model_def build_vendor_model_def build_battery_model_def register_config_def
  pub_ctx_of_def
  init_onoff_model_def init_level_model_def init_sensor_model_def sensor_pub_stage_def
  sensor_setup_stage_def mk_sensor_state_def init_vendor_model_def
  init_battery_model_def calloc_def free_def fresh_block_def
  set_runtime_state_def place_sig_model_def place_vnd_model_def write_sig_model_def
  write_vnd_model_def set_esp_model_def set_reg_esp_model_def with_esp_model_def obind_def
  boot_state_def MAX_MODELS_def Let_def
  MESH_MODEL_ONOFF_def MESH_MODEL_LEVEL_def MESH_MODEL_SENSOR_def MESH_MODEL_VENDOR_def
  MESH_MODEL_BATTERY_def zero_config_def zero_entry_def

lemma sensor_buf_loop_numeral:
  "sensor_buf_loop snsrs state ss sb (numeral k) i sts bufs s =
     (if length snsrs \<le> i then Crashed OUT_OF_BOUNDS
      else case calloc s of
        (None, s1) \<Rightarrow>
          Returned (ESP_ERR_NO_MEM, sts, bufs, free state (free ss (free sb (fold free bufs s1))))
      | (Some b, s1) \<Rightarrow>
          sensor_buf_loop snsrs state ss sb (pred_numeral k) (Suc i)
            (sts @ [mk_sensor_state (snsrs ! i)]) (bufs @ [b]) s1)"
  by (simp add: numeral_eq_Suc)

lemma app_models_build:
  "\<exists>s'. build_models (app_models g) 2 (boot_state [] []) = Returned (ESP_OK, s')"
  by (simp add: build_defs app_models_def app_sensors_def sensor_buf_loop_numeral)

lemma switch_then_sensor_failure:
  "\<exists>t. build_models [MESH_MODEL_ONOFF None 1 None, MESH_MODEL_SENSOR (app_sensors g) 6] 2
          (boot_state [True, True, True, True, True, True, False] [])
        = Returned (ESP_ERR_NO_MEM, t) \<and> heap_blocks t = [1, 2]
          \<and> registered_model_count t = 1"
  by (simp add: build_defs app_sensors_def sensor_buf_loop_numeral)

subsection \<open>Slot counts\<close>

text \<open>
  C1. Whenever \<open>build_models\<close> returns, with \<open>ESP_OK\<close> or, for a descriptor list
  within the capacity \<open>MAX_MODELS\<close> of the registry, with any code: on the
  \<open>model_count\<close> descriptors it was given, n of them, with s sensor descriptors and
  v vendor descriptors among them, the vendor slot count is v and the standard slot
  count is 1 + (n - s - v) + 2*s. (A build that returns \<open>ESP_OK\<close> has registered
  every descriptor, so it was within the capacity.)
\<close>

theorem build_models_slot_counts:
  assumes "build_models user_models mcount s = Returned (ret, s')"
    and "ret = ESP_OK \<or> unat mcount \<le> MAX_MODELS"
  shows "let descs = take (unat mcount) user_models;
             n = length descs;
             sn = length (filter (\<lambda>m. type m = MESH_MODEL_TYPE_SENSOR) descs);
             v = length (filter (\<lambda>m. type m = MESH_MODEL_TYPE_VENDOR) descs)
         in n = unat mcount
            \<and> unat (vnd_model_count s') = v
            \<and> unat (sig_model_count s') = 1 + (n - sn - v) + 2 * sn"
proof -
  define descs where "descs = take (unat mcount) user_models"
  define sn where "sn = length (filter (\<lambda>m. type m = MESH_MODEL_TYPE_SENSOR) descs)"
  define v where "v = length (filter (\<lambda>m. type m = MESH_MODEL_TYPE_VENDOR) descs)"
  from build_models_counts [OF assms(1)]
  have c: "(sig_model_count s', vnd_model_count s') = count_models descs (1, 0)"
    and le: "unat mcount \<le> length user_models"
    by (simp_all add: descs_def)
  have n: "length descs = unat mcount" using le by (simp add: descs_def)
  have cap: "unat mcount \<le> MAX_MODELS"
  proof (cases "ret = ESP_OK")
    case True
    with assms(1) build_models_capacity [of user_models mcount s s'] show ?thesis by simp
  next
    case False
    with assms(2) show ?thesis by simp
  qed
  have n8: "length descs \<le> 8" using n cap by (simp add: MAX_MODELS_def)
  have vle: "v \<le> length descs" unfolding v_def by simp
  have sle: "sn \<le> length descs" unfolding sn_def by simp
  have sig: "sig_model_count s' = 1 + of_nat (length descs - sn - v) + 2 * of_nat sn"
    and vnd: "vnd_model_count s' = of_nat v"
    using c by (simp_all add: count_models_eq kinds_partition sn_def v_def)
  have uv: "unat (vnd_model_count s') = v"
    using vle n8 by (simp add: vnd unat_of_nat)
  have "sig_model_count s' = of_nat (1 + (length descs - sn - v) + 2 * sn)"
    by (simp add: sig)
  then have "unat (sig_model_count s') = (1 + (length descs - sn - v) + 2 * sn) mod 256"
    by (simp only: unat_of_nat) simp
  moreover have "1 + (length descs - sn - v) + 2 * sn < 256" using n8 sle by simp
  ultimately have us: "unat (sig_model_count s') = 1 + (length descs - sn - v) + 2 * sn"
    by simp
  show ?thesis
    using n uv us
    by (simp add: Let_def descs_def [symmetric] sn_def [symmetric] v_def [symmetric])
qed

text \<open>
  The configuration of \<open>app_main\<close>, one sensor model and one vendor model: three
  standard slots (the configuration server and the two of the sensor model) and one
  vendor slot. And a build within the capacity that fails: a switch and the sensor
  model, the seventh allocation failing, leave four standard slots and no vendor
  slot in the counters.
\<close>

theorem build_models_slot_counts_witness:
  "(\<exists>s'. build_models (app_models imu_at_rest) 2 (boot_state [] []) = Returned (ESP_OK, s')
      \<and> unat (sig_model_count s') = 3 \<and> unat (vnd_model_count s') = 1)
   \<and> (\<exists>t. build_models [MESH_MODEL_ONOFF None 1 None, MESH_MODEL_SENSOR (app_sensors imu_at_rest) 6] 2
             (boot_state [True, True, True, True, True, True, False] [])
           = Returned (ESP_ERR_NO_MEM, t)
      \<and> unat (sig_model_count t) = 4 \<and> unat (vnd_model_count t) = 0)"
proof (intro conjI)
  obtain s' where b: "build_models (app_models imu_at_rest) 2 (boot_state [] []) = Returned (ESP_OK, s')"
    using app_models_build by blast
  from build_models_slot_counts [OF b]
  have "unat (sig_model_count s') = 3 \<and> unat (vnd_model_count s') = 1"
    by (simp add: app_models_def MESH_MODEL_SENSOR_def MESH_MODEL_VENDOR_def Let_def)
  with b show "\<exists>s'. build_models (app_models imu_at_rest) 2 (boot_state [] []) = Returned (ESP_OK, s')
      \<and> unat (sig_model_count s') = 3 \<and> unat (vnd_model_count s') = 1"
    by blast
next
  obtain t where b: "build_models
        [MESH_MODEL_ONOFF None 1 None, MESH_MODEL_SENSOR (app_sensors imu_at_rest) 6] 2
        (boot_state [True, True, True, True, True, True, False] []) = Returned (ESP_ERR_NO_MEM, t)"
    using switch_then_sensor_failure [of imu_at_rest] by blast
  have cap: "ESP_ERR_NO_MEM = ESP_OK \<or> unat (2 :: byte) \<le> MAX_MODELS"
    by (simp add: MAX_MODELS_def)
  from build_models_slot_counts [OF b cap]
  have "unat (sig_model_count t) = 4 \<and> unat (vnd_model_count t) = 0"
    by (simp add: MESH_MODEL_ONOFF_def MESH_MODEL_SENSOR_def zero_config_def Let_def)
  with b show "\<exists>t. build_models
        [MESH_MODEL_ONOFF None 1 None, MESH_MODEL_SENSOR (app_sensors imu_at_rest) 6] 2
        (boot_state [True, True, True, True, True, True, False] []) = Returned (ESP_ERR_NO_MEM, t)
      \<and> unat (sig_model_count t) = 4 \<and> unat (vnd_model_count t) = 0"
    by blast
qed

subsection \<open>The allocator and the sensor allocation chain\<close>

lemma heap_only_refl [simp]: "heap_only s s"
  by (simp add: heap_only_def)

lemma heap_only_trans: "heap_only s s1 \<Longrightarrow> heap_only s1 s2 \<Longrightarrow> heap_only s s2"
  unfolding heap_only_def by (metis (no_types, lifting) node_state.surjective node_state.update_convs(8) node_state.update_convs(9) node_state.select_convs)

lemma fold_max_ge: "a \<le> fold max bs (a :: nat)"
  by (induction bs arbitrary: a) (auto intro: order_trans [OF max.cobounded2])

lemma fold_max_mem: "x \<in> set bs \<Longrightarrow> x \<le> fold max bs (a :: nat)"
proof (induction bs arbitrary: a)
  case Nil
  then show ?case by simp
next
  case (Cons b bs)
  then show ?case
    using fold_max_ge [of "max b a" bs] by auto
qed

lemma fresh_block_notin: "fresh_block bs \<notin> set bs"
  using fold_max_mem [of "fresh_block bs" bs 0] by (auto simp: fresh_block_def)

lemma calloc_Some:
  "calloc s = (Some a, s') \<Longrightarrow>
     a \<notin> set (heap_blocks s) \<and> heap_blocks s' = heap_blocks s @ [a] \<and> heap_only s s'"
  using fresh_block_notin [of "heap_blocks s"]
  by (auto simp: calloc_def Let_def heap_only_def split: list.splits if_splits)

lemma calloc_None:
  "calloc s = (None, s') \<Longrightarrow> heap_blocks s' = heap_blocks s \<and> heap_only s s'"
  by (auto simp: calloc_def Let_def heap_only_def split: list.splits if_splits)

lemma heap_blocks_free [simp]: "heap_blocks (free a s) = removeAll a (heap_blocks s)"
  by (simp add: free_def)

lemma heap_only_free [simp]: "heap_only s (free a s)"
  by (simp add: free_def heap_only_def)

lemma heap_only_free': "heap_only s s1 \<Longrightarrow> heap_only s (free a s1)"
  using heap_only_trans heap_only_free by blast

lemma heap_only_fold_free: "heap_only s s1 \<Longrightarrow> heap_only s (fold free bs s1)"
  by (induction bs arbitrary: s1) (auto intro: heap_only_free')

lemma heap_blocks_fold_free:
  "heap_blocks (fold free bs s) = filter (\<lambda>x. x \<notin> set bs) (heap_blocks s)"
proof (induction bs arbitrary: s)
  case Nil
  then show ?case by simp
next
  case (Cons b bs)
  show ?case
    by (simp add: Cons.IH removeAll_filter_not_eq conj_commute) (metis)
qed


lemma filter_fresh:
  "b \<notin> set xs \<Longrightarrow> filter (\<lambda>x. P x \<and> x \<noteq> b) xs = filter P xs"
  by (induction xs) auto

lemma sensor_buf_loop_fail:
  "sensor_buf_loop snsrs state ss sb n i sts bufs s = Returned (ret, sts', bufs', s') \<Longrightarrow>
   ret \<noteq> ESP_OK \<Longrightarrow>
   ret = ESP_ERR_NO_MEM \<and> heap_only s s' \<and>
   heap_blocks s' = filter (\<lambda>x. x \<notin> set bufs \<and> x \<noteq> sb \<and> x \<noteq> ss \<and> x \<noteq> state) (heap_blocks s)"
proof (induction n arbitrary: i sts bufs s)
  case 0
  then show ?case by simp
next
  case (Suc n)
  from Suc.prems(1) have inb: "\<not> length snsrs \<le> i"
    by (auto split: if_splits)
  show ?case
  proof (cases "calloc s")
    case (Pair r s1)
    show ?thesis
    proof (cases r)
      case None
      with Pair Suc.prems inb calloc_None [of s s1] show ?thesis
        by (auto simp: heap_blocks_fold_free removeAll_filter_not_eq heap_only_free' heap_only_fold_free
            intro!: filter_cong)
    next
      case (Some b)
      with Pair calloc_Some [of s b s1]
      have b: "b \<notin> set (heap_blocks s)" and hb: "heap_blocks s1 = heap_blocks s @ [b]"
        and ho: "heap_only s s1" by auto
      from Suc.prems(1) inb Pair Some
      have rec: "sensor_buf_loop snsrs state ss sb n (Suc i)
            (sts @ [mk_sensor_state (snsrs ! i)])
            (bufs @ [b]) s1 = Returned (ret, sts', bufs', s')"
        by simp
      from Suc.IH [OF rec Suc.prems(2)]
      have r1: "ret = ESP_ERR_NO_MEM" and r2: "heap_only s1 s'"
        and r3: "heap_blocks s' = filter (\<lambda>x. x \<notin> set (bufs @ [b]) \<and> x \<noteq> sb \<and> x \<noteq> ss \<and> x \<noteq> state) (heap_blocks s1)"
        by auto
      have "filter (\<lambda>x. x \<notin> set (bufs @ [b]) \<and> x \<noteq> sb \<and> x \<noteq> ss \<and> x \<noteq> state) (heap_blocks s1)
            = filter (\<lambda>x. (x \<notin> set bufs \<and> x \<noteq> sb \<and> x \<noteq> ss \<and> x \<noteq> state) \<and> x \<noteq> b) (heap_blocks s)"
        by (auto simp: hb intro!: filter_cong)
      also have "\<dots> = filter (\<lambda>x. x \<notin> set bufs \<and> x \<noteq> sb \<and> x \<noteq> ss \<and> x \<noteq> state) (heap_blocks s)"
        by (rule filter_fresh [OF b])
      finally show ?thesis
        using r1 r2 r3 ho heap_only_trans by auto
    qed
  qed
qed

lemma sensor_buf_loop_ok:
  "sensor_buf_loop snsrs state ss sb n i sts bufs s = Returned (ESP_OK, sts', bufs', s') \<Longrightarrow>
   heap_only s s' \<and> (n = 0 \<or> i + n \<le> length snsrs) \<and>
   sts' = sts @ map mk_sensor_state (take n (drop i snsrs)) \<and>
   (\<exists>new. bufs' = bufs @ new \<and> length new = n \<and> heap_blocks s' = heap_blocks s @ new \<and>
          set new \<inter> set (heap_blocks s) = {})"
proof (induction n arbitrary: i sts bufs s)
  case 0
  then show ?case by simp
next
  case (Suc n)
  from Suc.prems(1) have inb: "\<not> length snsrs \<le> i"
    by (auto split: if_splits)
  show ?case
  proof (cases "calloc s")
    case (Pair r s1)
    show ?thesis
    proof (cases r)
      case None
      with Pair Suc.prems inb show ?thesis by simp
    next
      case (Some b)
      with Pair calloc_Some [of s b s1]
      have b: "b \<notin> set (heap_blocks s)" and hb: "heap_blocks s1 = heap_blocks s @ [b]"
        and ho: "heap_only s s1" by auto
      from Suc.prems(1) inb Pair Some
      have rec: "sensor_buf_loop snsrs state ss sb n (Suc i)
            (sts @ [mk_sensor_state (snsrs ! i)])
            (bufs @ [b]) s1 = Returned (ESP_OK, sts', bufs', s')"
        by simp
      from Suc.IH [OF rec] obtain new where
        r1: "heap_only s1 s'" and r2: "n = 0 \<or> Suc i + n \<le> length snsrs"
        and r3: "sts' = (sts @ [mk_sensor_state (snsrs ! i)]) @ map mk_sensor_state (take n (drop (Suc i) snsrs))"
        and r4: "bufs' = (bufs @ [b]) @ new" and r5: "length new = n"
        and r6: "heap_blocks s' = heap_blocks s1 @ new"
        and r7: "set new \<inter> set (heap_blocks s1) = {}"
        by blast
      have d: "drop i snsrs = snsrs ! i # drop (Suc i) snsrs"
        using inb by (simp add: Cons_nth_drop_Suc)
      have "bufs' = bufs @ (b # new) \<and> length (b # new) = Suc n
            \<and> heap_blocks s' = heap_blocks s @ (b # new)
            \<and> set (b # new) \<inter> set (heap_blocks s) = {}"
        using r4 r5 r6 r7 hb b by auto
      then show ?thesis
        using r1 r2 r3 ho heap_only_trans inb d by (auto simp del: append_assoc)
    qed
  qed
qed


lemma heap_onlyD:
  "heap_only s s' \<Longrightarrow> heap_blocks s' = hb \<Longrightarrow>
   \<exists>scr. s' = s\<lparr>heap_blocks := hb, calloc_script := scr\<rparr>"
  unfolding heap_only_def by metis

lemma calloc_SomeE:
  "calloc s = (Some a, s') \<Longrightarrow>
   a \<notin> set (heap_blocks s) \<and> (\<exists>scr. s' = s\<lparr>heap_blocks := heap_blocks s @ [a], calloc_script := scr\<rparr>)"
  using calloc_Some [of s a s'] heap_onlyD by blast

lemma calloc_NoneE:
  "calloc s = (None, s') \<Longrightarrow> \<exists>scr. s' = s\<lparr>calloc_script := scr\<rparr>"
  by (auto simp: calloc_def Let_def split: list.splits if_splits)

lemma sensor_buf_loop_failE:
  "sensor_buf_loop snsrs state ss sb n i sts bufs s = Returned (ret, sts', bufs', s') \<Longrightarrow>
   ret \<noteq> ESP_OK \<Longrightarrow>
   ret = ESP_ERR_NO_MEM \<and>
   (\<exists>scr. s' = s\<lparr>heap_blocks := filter (\<lambda>x. x \<notin> set bufs \<and> x \<noteq> sb \<and> x \<noteq> ss \<and> x \<noteq> state) (heap_blocks s),
                 calloc_script := scr\<rparr>)"
  using sensor_buf_loop_fail heap_onlyD by blast

lemma sensor_buf_loop_okE:
  assumes "sensor_buf_loop snsrs state ss sb n i sts bufs s = Returned (ESP_OK, sts', bufs', s')"
  shows "(n = 0 \<or> i + n \<le> length snsrs) \<and>
   sts' = sts @ map mk_sensor_state (take n (drop i snsrs)) \<and>
   (\<exists>new scr. bufs' = bufs @ new \<and> length new = n \<and>
          s' = s\<lparr>heap_blocks := heap_blocks s @ new, calloc_script := scr\<rparr> \<and>
          set new \<inter> set (heap_blocks s) = {})"
proof -
  from sensor_buf_loop_ok [OF assms] obtain new where
    ho: "heap_only s s'" and b: "n = 0 \<or> i + n \<le> length snsrs"
    and st: "sts' = sts @ map mk_sensor_state (take n (drop i snsrs))"
    and n1: "bufs' = bufs @ new" and n2: "length new = n"
    and n3: "heap_blocks s' = heap_blocks s @ new"
    and n4: "set new \<inter> set (heap_blocks s) = {}"
    by blast
  from heap_onlyD [OF ho n3] obtain scr where
    "s' = s\<lparr>heap_blocks := heap_blocks s @ new, calloc_script := scr\<rparr>" by blast
  with b st n1 n2 n4 show ?thesis by blast
qed

lemma rollback_filter:
  "set new \<inter> set H = {} \<Longrightarrow> (\<And>x. x \<in> set new \<Longrightarrow> \<not> P x) \<Longrightarrow> (\<And>x. x \<in> set H \<Longrightarrow> P x) \<Longrightarrow>
   filter P (H @ new) = H"
  by (simp add: filter_id_conv filter_empty_conv)

lemma heap_blocks_free_all:
  "heap_blocks (free state (free ss (free sb (fold free bufs t))))
     = filter (\<lambda>x. x \<noteq> state \<and> x \<noteq> ss \<and> x \<noteq> sb \<and> x \<notin> set bufs) (heap_blocks t)"
  by (auto simp: heap_blocks_fold_free removeAll_filter_not_eq intro!: filter_cong)

lemma heap_only_free_all:
  "heap_only t (free state (free ss (free sb (fold free bufs t))))"
  by (intro heap_only_free' heap_only_fold_free heap_only_refl)

lemma rollback_state:
  assumes "heap_only t t'" and "t = s\<lparr>heap_blocks := hb, calloc_script := scr\<rparr>"
    and "heap_blocks t' = heap_blocks s"
  shows "\<exists>scr'. t' = s\<lparr>calloc_script := scr'\<rparr>"
proof -
  from heap_onlyD [OF assms(1,3)] obtain scr' where
    "t' = t\<lparr>heap_blocks := heap_blocks s, calloc_script := scr'\<rparr>" by blast
  then have "t' = s\<lparr>calloc_script := scr'\<rparr>" by (simp add: assms(2))
  then show ?thesis by blast
qed

lemma sensor_heap_rollback:
  assumes "sensor_heap s0 state ss sb bufs extra s"
    and "heap_only s u" and "heap_blocks u = filter (\<lambda>x. x \<notin> set extra) (heap_blocks s)"
  shows "\<exists>scr. free state (free ss (free sb (fold free bufs u))) = s0\<lparr>calloc_script := scr\<rparr>"
proof -
  from assms(1) obtain scr where
    s: "s = s0\<lparr>heap_blocks := heap_blocks s0 @ [state, ss, sb] @ bufs @ extra, calloc_script := scr\<rparr>"
    and fr: "set ([state, ss, sb] @ bufs @ extra) \<inter> set (heap_blocks s0) = {}"
    unfolding sensor_heap_def by blast
  have a: "heap_only s (free state (free ss (free sb (fold free bufs u))))"
    by (rule heap_only_trans [OF assms(2) heap_only_free_all])
  have b: "heap_blocks (free state (free ss (free sb (fold free bufs u)))) = heap_blocks s0"
    unfolding heap_blocks_free_all assms(3) using fr
    by (auto simp: s filter_id_conv filter_empty_conv)
  show ?thesis by (rule rollback_state [OF a s b])
qed

lemma sensor_setup_stage_fail:
  assumes "sensor_setup_stage config ri state ss sb sts bufs pb s = (ret, s')" and "ret \<noteq> ESP_OK"
    and "sensor_heap s0 state ss sb bufs extra s"
    and "case msg_block pb of None \<Rightarrow> extra = [] | Some m \<Rightarrow> extra = [m]"
  shows "ret = ESP_ERR_NO_MEM \<and> (\<exists>scr. s' = s0\<lparr>calloc_script := scr\<rparr>)"
proof (cases "calloc s")
  case (Pair r s1)
  show ?thesis
  proof (cases r)
    case None
    from calloc_NoneE [of s s1] Pair None obtain scr1 where s1: "s1 = s\<lparr>calloc_script := scr1\<rparr>"
      by blast
    define u where "u = (case msg_block pb of None \<Rightarrow> s1 | Some m \<Rightarrow> free m s1)"
    have hu: "heap_only s u"
      by (auto simp: u_def s1 heap_only_def free_def split: option.splits)
    have hbu: "heap_blocks u = filter (\<lambda>x. x \<notin> set extra) (heap_blocks s)"
      using assms(4)
      by (auto simp: u_def s1 removeAll_filter_not_eq split: option.splits intro!: filter_cong)
    have "ret = ESP_ERR_NO_MEM" and "s' = free state (free ss (free sb (fold free bufs u)))"
      using assms(1) Pair None by (simp_all add: sensor_setup_stage_def u_def)
    with sensor_heap_rollback [OF assms(3) hu hbu] show ?thesis by simp
  next
    case (Some a)
    with assms(1,2) Pair show ?thesis by (simp add: sensor_setup_stage_def Let_def)
  qed
qed

lemma sensor_pub_stage_fail:
  assumes "sensor_pub_stage config ri state ss sb sts bufs s = (ret, s')" and "ret \<noteq> ESP_OK"
    and "sensor_heap s0 state ss sb bufs [] s"
  shows "ret = ESP_ERR_NO_MEM \<and> (\<exists>scr. s' = s0\<lparr>calloc_script := scr\<rparr>)"
proof (cases "enable_publication config")
  case False
  with assms(1) have "sensor_setup_stage config ri state ss sb sts bufs zero_pub s = (ret, s')"
    by (simp add: sensor_pub_stage_def)
  from sensor_setup_stage_fail [OF this assms(2,3)] show ?thesis
    by (simp add: zero_pub_def)
next
  case True
  show ?thesis
  proof (cases "calloc s")
    case (Pair r s1)
    show ?thesis
    proof (cases r)
      case None
      from calloc_NoneE [of s s1] Pair None obtain scr1 where s1: "s1 = s\<lparr>calloc_script := scr1\<rparr>"
        by blast
      have hu: "heap_only s s1" by (simp add: s1 heap_only_def)
      have hbu: "heap_blocks s1 = filter (\<lambda>x. x \<notin> set []) (heap_blocks s)" by (simp add: s1)
      have "ret = ESP_ERR_NO_MEM" and "s' = free state (free ss (free sb (fold free bufs s1)))"
        using assms(1) Pair None True by (simp_all add: sensor_pub_stage_def)
      with sensor_heap_rollback [OF assms(3) hu hbu] show ?thesis by simp
    next
      case (Some pub_msg)
      from calloc_SomeE [of s pub_msg s1] Pair Some obtain scr1 where
        f: "pub_msg \<notin> set (heap_blocks s)"
        and s1: "s1 = s\<lparr>heap_blocks := heap_blocks s @ [pub_msg], calloc_script := scr1\<rparr>" by blast
      have sh: "sensor_heap s0 state ss sb bufs [pub_msg] s1"
        using assms(3) f unfolding sensor_heap_def by (auto simp: s1)
      have "sensor_setup_stage config ri state ss sb sts bufs
              (zero_pub\<lparr>msg := Some (NET_BUF_SIMPLE 34), msg_block := Some pub_msg, pub_update := 0\<rparr>) s1
            = (ret, s')"
        using assms(1) Pair Some True by (simp add: sensor_pub_stage_def)
      from sensor_setup_stage_fail [OF this assms(2) sh] show ?thesis by simp
    qed
  qed
qed

lemma init_sensor_model_fail:
  assumes "init_sensor_model config ri s = Returned (ret, s')" and "ret \<noteq> ESP_OK"
  shows "ret = ESP_ERR_NO_MEM \<and> (\<exists>scr. s' = s\<lparr>calloc_script := scr\<rparr>)"
proof (cases "calloc s")
  case c1: (Pair r1 s1)
  show ?thesis
  proof (cases r1)
    case None
    with c1 assms calloc_NoneE [of s s1] show ?thesis
      by (auto simp: init_sensor_model_def)
  next
    case (Some state)
    with c1 calloc_SomeE [of s state s1] obtain scr1 where
      f1: "state \<notin> set (heap_blocks s)"
      and s1: "s1 = s\<lparr>heap_blocks := heap_blocks s @ [state], calloc_script := scr1\<rparr>" by blast
    show ?thesis
    proof (cases "calloc s1")
      case c2: (Pair r2 s2)
      show ?thesis
      proof (cases r2)
        case None
        with c2 calloc_NoneE [of s1 s2] obtain scr2 where "s2 = s1\<lparr>calloc_script := scr2\<rparr>" by blast
        with c1 c2 Some None assms s1 f1 show ?thesis
          by (auto simp: init_sensor_model_def free_def)
      next
        case Some2: (Some ss)
        with c2 calloc_SomeE [of s1 ss s2] obtain scr2 where
          f2: "ss \<notin> set (heap_blocks s1)"
          and s2: "s2 = s1\<lparr>heap_blocks := heap_blocks s1 @ [ss], calloc_script := scr2\<rparr>" by blast
        show ?thesis
        proof (cases "calloc s2")
          case c3: (Pair r3 s3)
          show ?thesis
          proof (cases r3)
            case None
            with c3 calloc_NoneE [of s2 s3] obtain scr3 where "s3 = s2\<lparr>calloc_script := scr3\<rparr>" by blast
            with c1 c2 c3 Some Some2 None assms s1 s2 f1 f2 show ?thesis
              by (auto simp: init_sensor_model_def free_def)
          next
            case Some3: (Some sb)
            with c3 calloc_SomeE [of s2 sb s3] obtain scr3 where
              f3: "sb \<notin> set (heap_blocks s2)"
              and s3: "s3 = s2\<lparr>heap_blocks := heap_blocks s2 @ [sb], calloc_script := scr3\<rparr>" by blast
            have h3: "heap_blocks s3 = heap_blocks s @ [state, ss, sb]"
              by (simp add: s1 s2 s3)
            have fr: "state \<notin> set (heap_blocks s)" "ss \<notin> set (heap_blocks s)" "sb \<notin> set (heap_blocks s)"
              "ss \<noteq> state" "sb \<noteq> state" "sb \<noteq> ss"
              using f1 f2 f3 by (auto simp: s1 s2)
            have s3': "s3 = s\<lparr>heap_blocks := heap_blocks s @ [state, ss, sb], calloc_script := scr3\<rparr>"
              by (simp add: s1 s2 s3)
            obtain ret4 sts bufs s4 where
              lp: "sensor_buf_loop (sensor_sensors config) state ss sb
                     (unat (sensor_sensor_count config)) 0 [] [] s3 = Returned (ret4, sts, bufs, s4)"
              using assms(1) c1 c2 c3 Some Some2 Some3
              by (auto simp: init_sensor_model_def obind_def split: outcome.splits)
            show ?thesis
            proof (cases "ret4 = ESP_OK")
              case False
              from sensor_buf_loop_failE [OF lp False] obtain scr4 where
                r: "ret4 = ESP_ERR_NO_MEM"
                and s4: "s4 = s3\<lparr>heap_blocks := filter (\<lambda>x. x \<notin> set [] \<and> x \<noteq> sb \<and> x \<noteq> ss \<and> x \<noteq> state) (heap_blocks s3),
                             calloc_script := scr4\<rparr>" by blast
              have "filter (\<lambda>x. x \<notin> set [] \<and> x \<noteq> sb \<and> x \<noteq> ss \<and> x \<noteq> state) (heap_blocks s3) = heap_blocks s"
                unfolding h3 using fr by (intro rollback_filter) auto
              with s4 s3' have "s4 = s\<lparr>calloc_script := scr4\<rparr>" by simp
              moreover have "ret = ret4 \<and> s' = s4"
                using assms(1) c1 c2 c3 Some Some2 Some3 lp False
                by (simp add: init_sensor_model_def obind_def)
              ultimately show ?thesis using r by blast
            next
              case True
              from sensor_buf_loop_okE [OF lp [unfolded True]] obtain scr4 where
                s4: "s4 = s3\<lparr>heap_blocks := heap_blocks s3 @ bufs, calloc_script := scr4\<rparr>"
                and f4: "set bufs \<inter> set (heap_blocks s3) = {}" by auto
              have sh: "sensor_heap s state ss sb bufs [] s4"
                unfolding sensor_heap_def using fr f4 by (auto simp: s4 s3' h3)
              have "sensor_pub_stage config ri state ss sb sts bufs s4 = (ret, s')"
                using assms(1) c1 c2 c3 Some Some2 Some3 lp True
                by (simp add: init_sensor_model_def obind_def)
              from sensor_pub_stage_fail [OF this assms(2) sh] show ?thesis .
            qed
          qed
        qed
      qed
    qed
  qed
qed

lemma take_numeral_Cons: "take (numeral k) (x # xs) = x # take (pred_numeral k) xs"
  by (simp add: numeral_eq_Suc)

lemma replicate_numeral_unfold:
  "replicate (numeral k) x = x # replicate (pred_numeral k) x"
  by (simp add: numeral_eq_Suc)

subsection \<open>Rollback of a failed sensor allocation\<close>

lemma calloc_script_free [simp]:
  "calloc_script (free a s) = calloc_script s"
  "calloc_script (fold free bs s) = calloc_script s"
  by (induction bs arbitrary: s) (simp_all add: free_def)

lemma calloc_False:
  "calloc_script s = False # rest \<Longrightarrow> calloc s = (None, s\<lparr>calloc_script := rest\<rparr>)"
  by (simp add: calloc_def)

lemma calloc_True:
  "calloc_script s = True # xs \<Longrightarrow>
   calloc s = (Some (fresh_block (heap_blocks s)),
               s\<lparr>heap_blocks := heap_blocks s @ [fresh_block (heap_blocks s)], calloc_script := xs\<rparr>)"
  by (simp add: calloc_def Let_def)

lemma calloc_succeeds:
  assumes "list_all id (take (Suc n) (calloc_script s))"
  shows "\<exists>a s'. calloc s = (Some a, s') \<and> calloc_script s' = tl (calloc_script s)
     \<and> list_all id (take n (calloc_script s'))"
proof (cases "calloc_script s")
  case Nil
  then show ?thesis by (simp add: calloc_def Let_def)
next
  case (Cons b xs)
  with assms show ?thesis by (simp add: calloc_def Let_def)
qed

lemma sensor_buf_loop_fails:
  assumes "calloc_script s = replicate j True @ False # rest" and "j < n"
    and "i + n \<le> length snsrs"
  shows "\<exists>sts' bufs' s'. sensor_buf_loop snsrs state ss sb n i sts bufs s
            = Returned (ESP_ERR_NO_MEM, sts', bufs', s') \<and> calloc_script s' = rest"
  using assms
proof (induction n arbitrary: j i sts bufs s)
  case 0
  then show ?case by simp
next
  case (Suc n)
  from Suc.prems(3) have inb: "\<not> length snsrs \<le> i" by simp
  show ?case
  proof (cases j)
    case 0
    with Suc.prems(1) have "calloc s = (None, s\<lparr>calloc_script := rest\<rparr>)"
      by (simp add: calloc_False)
    with inb show ?thesis by simp
  next
    case (Suc j')
    define b where "b = fresh_block (heap_blocks s)"
    define s1 where "s1 = s\<lparr>heap_blocks := heap_blocks s @ [b],
                           calloc_script := replicate j' True @ False # rest\<rparr>"
    from Suc Suc.prems(1) have c: "calloc s = (Some b, s1)"
      by (simp add: calloc_True b_def s1_def)
    have sc: "calloc_script s1 = replicate j' True @ False # rest" by (simp add: s1_def)
    from Suc Suc.prems(2) have lt: "j' < n" by simp
    from Suc.prems(3) have le: "Suc i + n \<le> length snsrs" by simp
    from Suc.IH [OF sc lt le, of "sts @ [mk_sensor_state (snsrs ! i)]" "bufs @ [b]"]
    show ?thesis using inb c by simp
  qed
qed

lemma sensor_buf_loop_succeeds:
  assumes "list_all id (take n (calloc_script s))" and "i + n \<le> length snsrs"
  shows "\<exists>sts' bufs' s'. sensor_buf_loop snsrs state ss sb n i sts bufs s
            = Returned (ESP_OK, sts', bufs', s') \<and> calloc_script s' = drop n (calloc_script s)"
  using assms
proof (induction n arbitrary: i sts bufs s)
  case 0
  then show ?case by simp
next
  case (Suc n)
  from Suc.prems(2) have inb: "\<not> length snsrs \<le> i" by simp
  from calloc_succeeds [OF Suc.prems(1)] obtain b s1 where
    c: "calloc s = (Some b, s1)" and sc: "calloc_script s1 = tl (calloc_script s)"
    and ok: "list_all id (take n (calloc_script s1))" by blast
  from Suc.prems(2) have le: "Suc i + n \<le> length snsrs" by simp
  from Suc.IH [OF ok le, of "sts @ [mk_sensor_state (snsrs ! i)]" "bufs @ [b]"]
  show ?case using inb c by (simp add: sc drop_Suc)
qed

lemma sensor_setup_stage_fails:
  assumes "calloc_script s = False # rest"
  shows "\<exists>s'. sensor_setup_stage c ri state ss sb sts bufs pb s = (ESP_ERR_NO_MEM, s')
     \<and> calloc_script s' = rest"
  using assms
  by (simp add: sensor_setup_stage_def calloc_False split: option.splits)

lemma sensor_pub_stage_fails:
  assumes "calloc_script s = replicate j True @ False # rest"
    and "j < (if enable_publication c then 2 else 1)"
  shows "\<exists>s'. sensor_pub_stage c ri state ss sb sts bufs s = (ESP_ERR_NO_MEM, s')
     \<and> calloc_script s' = rest"
proof (cases "enable_publication c")
  case False
  with assms have "calloc_script s = False # rest" by simp
  from sensor_setup_stage_fails [OF this] False show ?thesis
    by (simp add: sensor_pub_stage_def)
next
  case True
  show ?thesis
  proof (cases j)
    case 0
    with assms(1) have "calloc s = (None, s\<lparr>calloc_script := rest\<rparr>)"
      by (simp add: calloc_False)
    with True show ?thesis by (simp add: sensor_pub_stage_def)
  next
    case (Suc j')
    with assms(2) True have j: "j = 1" by simp
    define b where "b = fresh_block (heap_blocks s)"
    define s1 where "s1 = s\<lparr>heap_blocks := heap_blocks s @ [b], calloc_script := False # rest\<rparr>"
    from j assms(1) have c: "calloc s = (Some b, s1)"
      by (simp add: calloc_True b_def s1_def)
    have "calloc_script s1 = False # rest" by (simp add: s1_def)
    from sensor_setup_stage_fails [OF this] True c show ?thesis
      by (simp add: sensor_pub_stage_def)
  qed
qed

lemma init_sensor_model_fails_ret:
  assumes scr: "calloc_script s = replicate k True @ False # rest"
    and k: "k < sensor_alloc_count c"
    and inb: "unat (sensor_sensor_count c) \<le> length (sensor_sensors c)"
  shows "\<exists>s'. init_sensor_model c ri s = Returned (ESP_ERR_NO_MEM, s') \<and> calloc_script s' = rest"
proof -
  define n where "n = unat (sensor_sensor_count c)"
  consider (k0) "k = 0" | (k1) "k = 1" | (k2) "k = 2" | (k3) k' where "k = 3 + k'"
    by (metis add.commute add_Suc_right numeral_3_eq_3 not0_implies_Suc One_nat_def
        Suc_1 plus_1_eq_Suc add_0)
  then show ?thesis
  proof cases
    case k0
    with scr show ?thesis
      by (simp add: init_sensor_model_def calloc_False)
  next
    case k1
    with scr show ?thesis
      by (simp add: init_sensor_model_def calloc_True calloc_False)
  next
    case k2
    with scr have "calloc_script s = True # True # False # rest"
      by (simp add: numeral_2_eq_2)
    then show ?thesis
      by (simp add: init_sensor_model_def calloc_True calloc_False)
  next
    case k3
    define state where "state = fresh_block (heap_blocks s)"
    define s1 where "s1 = s\<lparr>heap_blocks := heap_blocks s @ [state],
                           calloc_script := True # True # replicate k' True @ False # rest\<rparr>"
    define ss where "ss = fresh_block (heap_blocks s1)"
    define s2 where "s2 = s1\<lparr>heap_blocks := heap_blocks s1 @ [ss],
                           calloc_script := True # replicate k' True @ False # rest\<rparr>"
    define sb where "sb = fresh_block (heap_blocks s2)"
    define s3 where "s3 = s2\<lparr>heap_blocks := heap_blocks s2 @ [sb],
                           calloc_script := replicate k' True @ False # rest\<rparr>"
    from k3 scr have s0: "calloc_script s = True # True # True # replicate k' True @ False # rest"
      by (simp add: numeral_3_eq_3)
    have c1: "calloc s = (Some state, s1)"
      using s0 by (simp add: calloc_True state_def s1_def)
    have c2: "calloc s1 = (Some ss, s2)"
      by (simp add: calloc_def Let_def s1_def ss_def s2_def)
    have c3: "calloc s2 = (Some sb, s3)"
      by (simp add: calloc_def Let_def s2_def sb_def s3_def)
    have sc3: "calloc_script s3 = replicate k' True @ False # rest" by (simp add: s3_def)
    have unf: "init_sensor_model c ri s =
        obind (sensor_buf_loop (sensor_sensors c) state ss sb n 0 [] [] s3)
          (\<lambda>(ret, sts, bufs, s4).
             if ret \<noteq> ESP_OK then Returned (ret, s4)
             else Returned (sensor_pub_stage c ri state ss sb sts bufs s4))"
      by (simp add: init_sensor_model_def c1 c2 c3 n_def)
    show ?thesis
    proof (cases "k' < n")
      case True
      from sensor_buf_loop_fails [OF sc3 True, of 0 "sensor_sensors c" state ss sb "[]" "[]"] inb
      obtain sts' bufs' s' where
        "sensor_buf_loop (sensor_sensors c) state ss sb n 0 [] [] s3
            = Returned (ESP_ERR_NO_MEM, sts', bufs', s')" "calloc_script s' = rest"
        by (auto simp: n_def)
      then show ?thesis by (simp add: unf obind_def)
    next
      case False
      then obtain j where j: "k' = n + j" by (metis le_add_diff_inverse not_less)
      from k k3 j have jlt: "j < (if enable_publication c then 2 else 1)"
        by (simp add: sensor_alloc_count_def n_def split: if_splits)
      have ok: "list_all id (take n (calloc_script s3))"
        by (simp add: sc3 j replicate_add list_all_iff)
      from sensor_buf_loop_succeeds [OF ok, of 0 "sensor_sensors c" state ss sb "[]" "[]"] inb
      obtain sts' bufs' s4 where
        l: "sensor_buf_loop (sensor_sensors c) state ss sb n 0 [] [] s3
            = Returned (ESP_OK, sts', bufs', s4)"
        and sc4: "calloc_script s4 = drop n (calloc_script s3)"
        by (auto simp: n_def)
      have "calloc_script s4 = replicate j True @ False # rest"
        by (simp add: sc4 sc3 j replicate_add)
      from sensor_pub_stage_fails [OF this jlt, of ri state ss sb sts' bufs']
      obtain s' where "sensor_pub_stage c ri state ss sb sts' bufs' s4 = (ESP_ERR_NO_MEM, s')"
        and "calloc_script s' = rest" by blast
      then show ?thesis by (simp add: unf l obind_def)
    qed
  qed
qed

lemma init_sensor_model_fails:
  assumes scr: "calloc_script s = replicate k True @ False # rest"
    and k: "k < sensor_alloc_count c"
    and inb: "unat (sensor_sensor_count c) \<le> length (sensor_sensors c)"
  shows "init_sensor_model c ri s = Returned (ESP_ERR_NO_MEM, s\<lparr>calloc_script := rest\<rparr>)"
proof -
  from init_sensor_model_fails_ret [OF assms, of ri] obtain s' where
    r: "init_sensor_model c ri s = Returned (ESP_ERR_NO_MEM, s')" and sc: "calloc_script s' = rest"
    by blast
  have ne: "ESP_ERR_NO_MEM \<noteq> ESP_OK" by simp
  from init_sensor_model_fail [OF r ne] obtain scr' where s': "s' = s\<lparr>calloc_script := scr'\<rparr>"
    by blast
  with sc have "scr' = rest" by simp
  with r s' show ?thesis by simp
qed

lemma build_sensor_model_fails:
  assumes ty: "type c = MESH_MODEL_TYPE_SENSOR"
    and lt: "unat (registered_model_count s) < MAX_MODELS"
    and scr: "calloc_script s = replicate k True @ False # rest"
    and k: "k < sensor_alloc_count c"
    and inb: "unat (sensor_sensor_count c) \<le> length (sensor_sensors c)"
  shows "build_model c sl vl s = Returned (ESP_ERR_NO_MEM, sl, vl,
           (register_config c (unat (registered_model_count s)) s)\<lparr>calloc_script := rest\<rparr>)"
proof -
  define ri where "ri = unat (registered_model_count s)"
  define s0 where "s0 = register_config c ri s"
  have "calloc_script s0 = replicate k True @ False # rest"
    by (simp add: s0_def register_config_def scr)
  from init_sensor_model_fails [OF this k inb, of ri]
  have i: "init_sensor_model c ri s0 = Returned (ESP_ERR_NO_MEM, s0\<lparr>calloc_script := rest\<rparr>)" .
  have "build_sensor_model c ri sl vl s0
        = Returned (ESP_ERR_NO_MEM, sl, vl, s0\<lparr>calloc_script := rest\<rparr>)"
    by (simp add: build_sensor_model_def i obind_def)
  with ty lt show ?thesis
    by (simp add: build_model_def Let_def ri_def [symmetric] s0_def [symmetric])
qed

text \<open>
  C5. Let the k-th allocation of \<open>init_sensor_model\<close> be the first to fail (the
  script has k successes, then a failure), k below the number of allocations the
  descriptor needs, whichever stage that is: the state block, the sensor-states
  array, the buffer-pointer array, a per-sensor buffer, the status publication
  buffer or the setup publication buffer. Then \<open>init_sensor_model\<close> returns
  \<open>ESP_ERR_NO_MEM\<close> and the node is the one it started from, but for the consumed
  part of the script: the same heap blocks, so every block taken for this descriptor
  has been freed and every earlier block is in place, the same runtime states, the
  same registry. In the loop of \<open>build_models\<close> the build stops there with
  \<open>ESP_ERR_NO_MEM\<close>, the heap, the runtime states and the registered entries of the
  earlier descriptors as they were.
\<close>

theorem sensor_init_rollback:
  assumes "calloc_script s = replicate k True @ False # rest"
    and "k < sensor_alloc_count config"
    and "unat (sensor_sensor_count config) \<le> length (sensor_sensors config)"
  shows "init_sensor_model config ri s = Returned (ESP_ERR_NO_MEM, s\<lparr>calloc_script := rest\<rparr>)
     \<and> (type config = MESH_MODEL_TYPE_SENSOR \<and> unat (registered_model_count s) < MAX_MODELS \<longrightarrow>
          (\<exists>t. build_user_models (config # others) sig_slot vnd_slot s
                  = Returned (ESP_ERR_NO_MEM, t)
             \<and> heap_blocks t = heap_blocks s \<and> objs t = objs s
             \<and> registered t = registered s
             \<and> registered_model_count t = registered_model_count s
             \<and> calloc_script t = rest))"
proof (intro conjI impI)
  show "init_sensor_model config ri s = Returned (ESP_ERR_NO_MEM, s\<lparr>calloc_script := rest\<rparr>)"
    by (rule init_sensor_model_fails [OF assms])
next
  assume a: "type config = MESH_MODEL_TYPE_SENSOR \<and> unat (registered_model_count s) < MAX_MODELS"
  define t where "t = (register_config config (unat (registered_model_count s)) s)
                        \<lparr>calloc_script := rest\<rparr>"
  from a build_sensor_model_fails [OF _ _ assms, of sig_slot vnd_slot]
  have "build_model config sig_slot vnd_slot s = Returned (ESP_ERR_NO_MEM, sig_slot, vnd_slot, t)"
    by (simp add: t_def)
  then have "build_user_models (config # others) sig_slot vnd_slot s = Returned (ESP_ERR_NO_MEM, t)"
    by simp
  moreover have "heap_blocks t = heap_blocks s" "objs t = objs s"
    "registered_model_count t = registered_model_count s" "calloc_script t = rest"
    by (simp_all add: t_def register_config_def)
  moreover have "registered t = registered s"
    by (simp add: t_def register_config_def registered_def)
  ultimately show "\<exists>t. build_user_models (config # others) sig_slot vnd_slot s
                  = Returned (ESP_ERR_NO_MEM, t)
             \<and> heap_blocks t = heap_blocks s \<and> objs t = objs s
             \<and> registered t = registered s
             \<and> registered_model_count t = registered_model_count s
             \<and> calloc_script t = rest"
    by blast
qed

text \<open>
  On a node that holds a switch already (two heap blocks, one runtime state, one
  registered entry), the sensor model of \<open>app_main\<close> with the failure forced at
  each of its eleven allocations in turn.
\<close>

lemma switch_node:
  "\<exists>s. build_models [MESH_MODEL_ONOFF None 1 None] 1 (boot_state [] []) = Returned (ESP_OK, s)
     \<and> heap_blocks s = [1, 2] \<and> dom (objs s) = {2}
     \<and> map reg_type (registered s) = [MESH_MODEL_TYPE_ONOFF]
     \<and> map runtime_state (registered s) = [Some 2]
     \<and> unat (registered_model_count s) = 1"
  by (simp add: build_defs registered_def replicate_numeral_unfold)

lemma app_sensor_alloc_count:
  "sensor_alloc_count (MESH_MODEL_SENSOR (app_sensors g) 6) = 11
   \<and> unat (sensor_sensor_count (MESH_MODEL_SENSOR (app_sensors g) 6))
       \<le> length (sensor_sensors (MESH_MODEL_SENSOR (app_sensors g) 6))
   \<and> type (MESH_MODEL_SENSOR (app_sensors g) 6) = MESH_MODEL_TYPE_SENSOR"
  by (simp add: sensor_alloc_count_def MESH_MODEL_SENSOR_def app_sensors_def)

theorem sensor_init_rollback_witness:
  "\<exists>s. build_models [MESH_MODEL_ONOFF None 1 None] 1 (boot_state [] []) = Returned (ESP_OK, s)
     \<and> heap_blocks s = [1, 2] \<and> dom (objs s) = {2}
     \<and> map runtime_state (registered s) = [Some 2]
     \<and> list_all (\<lambda>k.
          init_sensor_model (MESH_MODEL_SENSOR (app_sensors imu_at_rest) 6) 1
            (s\<lparr>calloc_script := replicate k True @ [False, True]\<rparr>)
          = Returned (ESP_ERR_NO_MEM, s\<lparr>calloc_script := [True]\<rparr>))
        [0, 1, 2, 3, 4, 5, 6, 7, 8, 9, 10]
     \<and> list_all (\<lambda>k. \<exists>t.
          build_user_models [MESH_MODEL_SENSOR (app_sensors imu_at_rest) 6] 2 0
            (s\<lparr>calloc_script := replicate k True @ [False, True]\<rparr>)
          = Returned (ESP_ERR_NO_MEM, t)
          \<and> heap_blocks t = [1, 2] \<and> dom (objs t) = {2}
          \<and> map runtime_state (registered t) = [Some 2] \<and> calloc_script t = [True])
        [0, 1, 2, 3, 4, 5, 6, 7, 8, 9, 10]"
proof -
  from switch_node obtain s where
    b: "build_models [MESH_MODEL_ONOFF None 1 None] 1 (boot_state [] []) = Returned (ESP_OK, s)"
    and h: "heap_blocks s = [1, 2]" and o: "dom (objs s) = {2}"
    and r: "map runtime_state (registered s) = [Some 2]"
    and c: "unat (registered_model_count s) = 1"
    by (elim exE conjE)
  define cfg where "cfg = MESH_MODEL_SENSOR (app_sensors imu_at_rest) 6"
  from app_sensor_alloc_count [of imu_at_rest]
  have n: "sensor_alloc_count cfg = 11"
    and inb: "unat (sensor_sensor_count cfg) \<le> length (sensor_sensors cfg)"
    and ty: "type cfg = MESH_MODEL_TYPE_SENSOR"
    by (simp_all add: cfg_def)
  have each: "init_sensor_model cfg 1 (s\<lparr>calloc_script := replicate k True @ [False, True]\<rparr>)
          = Returned (ESP_ERR_NO_MEM, s\<lparr>calloc_script := [True]\<rparr>)
        \<and> (\<exists>t. build_user_models [cfg] 2 0 (s\<lparr>calloc_script := replicate k True @ [False, True]\<rparr>)
          = Returned (ESP_ERR_NO_MEM, t)
          \<and> heap_blocks t = [1, 2] \<and> dom (objs t) = {2}
          \<and> map runtime_state (registered t) = [Some 2] \<and> calloc_script t = [True])"
    if k: "k < 11" for k
  proof -
    define sk where "sk = s\<lparr>calloc_script := replicate k True @ [False, True]\<rparr>"
    have scr: "calloc_script sk = replicate k True @ False # [True]" by (simp add: sk_def)
    have kk: "k < sensor_alloc_count cfg" using k n by simp
    have cap: "type cfg = MESH_MODEL_TYPE_SENSOR \<and> unat (registered_model_count sk) < MAX_MODELS"
      by (simp add: ty sk_def c MAX_MODELS_def)
    from sensor_init_rollback [OF scr kk inb, of 1 "[]" 2 0] cap
    have i: "init_sensor_model cfg 1 sk = Returned (ESP_ERR_NO_MEM, sk\<lparr>calloc_script := [True]\<rparr>)"
      and "\<exists>t. build_user_models [cfg] 2 0 sk = Returned (ESP_ERR_NO_MEM, t)
             \<and> heap_blocks t = heap_blocks sk \<and> objs t = objs sk
             \<and> registered t = registered sk
             \<and> registered_model_count t = registered_model_count sk
             \<and> calloc_script t = [True]"
      by blast+
    then obtain t where t: "build_user_models [cfg] 2 0 sk = Returned (ESP_ERR_NO_MEM, t)"
      "heap_blocks t = heap_blocks sk" "objs t = objs sk" "registered t = registered sk"
      "calloc_script t = [True]"
      by blast
    have "heap_blocks sk = [1, 2]" "dom (objs sk) = {2}"
      "map runtime_state (registered sk) = [Some 2]"
      using h o r by (simp_all add: sk_def registered_def)
    with t have "build_user_models [cfg] 2 0 sk = Returned (ESP_ERR_NO_MEM, t)
          \<and> heap_blocks t = [1, 2] \<and> dom (objs t) = {2}
          \<and> map runtime_state (registered t) = [Some 2] \<and> calloc_script t = [True]"
      by simp
    moreover have "sk\<lparr>calloc_script := [True]\<rparr> = s\<lparr>calloc_script := [True]\<rparr>"
      by (simp add: sk_def)
    ultimately show ?thesis using i unfolding sk_def by auto
  qed
  have 1: "list_all (\<lambda>k.
          init_sensor_model cfg 1 (s\<lparr>calloc_script := replicate k True @ [False, True]\<rparr>)
          = Returned (ESP_ERR_NO_MEM, s\<lparr>calloc_script := [True]\<rparr>))
        [0, 1, 2, 3, 4, 5, 6, 7, 8, 9, 10]"
    unfolding list_all_iff
  proof
    fix k :: nat
    assume "k \<in> set [0, 1, 2, 3, 4, 5, 6, 7, 8, 9, 10]"
    then have "k < 11" by auto
    from each [OF this]
    show "init_sensor_model cfg 1 (s\<lparr>calloc_script := replicate k True @ [False, True]\<rparr>)
          = Returned (ESP_ERR_NO_MEM, s\<lparr>calloc_script := [True]\<rparr>)"
      by (rule conjunct1)
  qed
  have 2: "list_all (\<lambda>k. \<exists>t.
          build_user_models [cfg] 2 0 (s\<lparr>calloc_script := replicate k True @ [False, True]\<rparr>)
          = Returned (ESP_ERR_NO_MEM, t)
          \<and> heap_blocks t = [1, 2] \<and> dom (objs t) = {2}
          \<and> map runtime_state (registered t) = [Some 2] \<and> calloc_script t = [True])
        [0, 1, 2, 3, 4, 5, 6, 7, 8, 9, 10]"
    unfolding list_all_iff
  proof
    fix k :: nat
    assume "k \<in> set [0, 1, 2, 3, 4, 5, 6, 7, 8, 9, 10]"
    then have "k < 11" by auto
    from each [OF this]
    show "\<exists>t. build_user_models [cfg] 2 0 (s\<lparr>calloc_script := replicate k True @ [False, True]\<rparr>)
          = Returned (ESP_ERR_NO_MEM, t)
          \<and> heap_blocks t = [1, 2] \<and> dom (objs t) = {2}
          \<and> map runtime_state (registered t) = [Some 2] \<and> calloc_script t = [True]"
      by (rule conjunct2)
  qed
  from b h o r 1 2 show ?thesis unfolding cfg_def by (intro exI [of _ s] conjI)
qed

subsection \<open>What a successful build registers\<close>

lemma init_postI:
  "state \<notin> set (heap_blocks s) \<Longrightarrow> built_from c obj \<Longrightarrow>
   s' = s\<lparr>model_registry := (model_registry s)
                     [ri := (model_registry s ! ri)\<lparr>runtime_state := Some state\<rparr>],
           heap_blocks := heap_blocks s @ state # new, calloc_script := scr,
           objs := (objs s)(state \<mapsto> obj)\<rparr> \<Longrightarrow>
   init_post c ri s s'"
  unfolding init_post_def by blast

lemma simple_init_post:
  assumes "calloc s = (Some state, s1)"
    and "s' = set_runtime_state ri state (s1\<lparr>objs := (objs s1)(state \<mapsto> obj)\<rparr>)"
    and "built_from c obj"
  shows "init_post c ri s s'"
proof -
  from calloc_SomeE [OF assms(1)] obtain scr where
    f: "state \<notin> set (heap_blocks s)"
    and s1: "s1 = s\<lparr>heap_blocks := heap_blocks s @ [state], calloc_script := scr\<rparr>" by blast
  have "s' = s\<lparr>model_registry := (model_registry s)
                     [ri := (model_registry s ! ri)\<lparr>runtime_state := Some state\<rparr>],
           heap_blocks := heap_blocks s @ state # [], calloc_script := scr,
           objs := (objs s)(state \<mapsto> obj)\<rparr>"
    by (simp add: assms(2) s1 set_runtime_state_def)
  with f assms(3) show ?thesis by (rule init_postI)
qed

lemma init_onoff_model_post:
  assumes "init_onoff_model c ri s = (ESP_OK, s')" and "type c = MESH_MODEL_TYPE_ONOFF"
  shows "init_post c ri s s'"
proof (cases "calloc s")
  case (Pair r s1)
  with assms(1) obtain state where r: "r = Some state"
    by (cases r) (auto simp: init_onoff_model_def)
  show ?thesis
  proof (rule simple_init_post)
    show "calloc s = (Some state, s1)" using Pair r by simp
    show "s' = set_runtime_state ri state (s1\<lparr>objs := (objs s1)(state \<mapsto> ONOFF_STATE
             \<lparr>pub = (if enable_publication c
                      then zero_pub\<lparr>msg := Some (NET_BUF_SIMPLE (2 + 3)), pub_update := 0\<rparr>
                      else zero_pub),
              esp_model = None, onoff = onoff_initial_state c, onoff_cb = onoff_callback c,
              onoff_ctx = onoff_user_data c, server_onoff = onoff_initial_state c,
              server_target_onoff = onoff_initial_state c\<rparr>)\<rparr>)"
      using assms(1) Pair r by (simp add: init_onoff_model_def Let_def)
    show "built_from c (ONOFF_STATE
             \<lparr>pub = (if enable_publication c
                      then zero_pub\<lparr>msg := Some (NET_BUF_SIMPLE (2 + 3)), pub_update := 0\<rparr>
                      else zero_pub),
              esp_model = None, onoff = onoff_initial_state c, onoff_cb = onoff_callback c,
              onoff_ctx = onoff_user_data c, server_onoff = onoff_initial_state c,
              server_target_onoff = onoff_initial_state c\<rparr>)"
      by (simp add: built_from_def assms(2) zero_pub_def ESP_BLE_MESH_ADDR_UNASSIGNED_def)
  qed
qed

lemma init_level_model_post:
  assumes "init_level_model c ri s = (ESP_OK, s')" and "type c = MESH_MODEL_TYPE_LEVEL"
  shows "init_post c ri s s'"
proof (cases "calloc s")
  case (Pair r s1)
  with assms(1) obtain state where r: "r = Some state"
    by (cases r) (auto simp: init_level_model_def)
  show ?thesis
  proof (rule simple_init_post)
    show "calloc s = (Some state, s1)" using Pair r by simp
    show "s' = set_runtime_state ri state (s1\<lparr>objs := (objs s1)(state \<mapsto> LEVEL_STATE
             \<lparr>pub = (if enable_publication c
                      then zero_pub\<lparr>msg := Some (NET_BUF_SIMPLE (2 + 5)), pub_update := 0\<rparr>
                      else zero_pub),
              esp_model = None, level = level_initial_level c, level_cb = level_callback c,
              level_ctx = level_user_data c, server_level = level_initial_level c,
              server_target_level = level_initial_level c\<rparr>)\<rparr>)"
      using assms(1) Pair r by (simp add: init_level_model_def Let_def)
    show "built_from c (LEVEL_STATE
             \<lparr>pub = (if enable_publication c
                      then zero_pub\<lparr>msg := Some (NET_BUF_SIMPLE (2 + 5)), pub_update := 0\<rparr>
                      else zero_pub),
              esp_model = None, level = level_initial_level c, level_cb = level_callback c,
              level_ctx = level_user_data c, server_level = level_initial_level c,
              server_target_level = level_initial_level c\<rparr>)"
      by (simp add: built_from_def assms(2) zero_pub_def ESP_BLE_MESH_ADDR_UNASSIGNED_def)
  qed
qed

lemma init_vendor_model_post:
  assumes "init_vendor_model c ri s = (ESP_OK, s')" and "type c = MESH_MODEL_TYPE_VENDOR"
  shows "init_post c ri s s'"
proof (cases "calloc s")
  case (Pair r s1)
  with assms(1) obtain state where r: "r = Some state"
    by (cases r) (auto simp: init_vendor_model_def)
  show ?thesis
  proof (rule simple_init_post)
    show "calloc s = (Some state, s1)" using Pair r by simp
    show "s' = set_runtime_state ri state (s1\<lparr>objs := (objs s1)(state \<mapsto> VENDOR_STATE
             \<lparr>pub = zero_pub, esp_model = None, company_id = vendor_company_id c,
              model_id = vendor_model_id c, handler = vendor_handler c,
              vendor_ctx = vendor_user_data c, vendor_publish_addr = 0\<rparr>)\<rparr>)"
      using assms(1) Pair r by (simp add: init_vendor_model_def Let_def)
    show "built_from c (VENDOR_STATE
             \<lparr>pub = zero_pub, esp_model = None, company_id = vendor_company_id c,
              model_id = vendor_model_id c, handler = vendor_handler c,
              vendor_ctx = vendor_user_data c, vendor_publish_addr = 0\<rparr>)"
      by (simp add: built_from_def assms(2) zero_pub_def ESP_BLE_MESH_ADDR_UNASSIGNED_def)
  qed
qed

lemma init_battery_model_post:
  assumes "init_battery_model c ri s = (ESP_OK, s')" and "type c = MESH_MODEL_TYPE_BATTERY"
  shows "init_post c ri s s'"
proof (cases "calloc s")
  case (Pair r s1)
  with assms(1) obtain state where r: "r = Some state"
    by (cases r) (auto simp: init_battery_model_def)
  show ?thesis
  proof (rule simple_init_post)
    show "calloc s = (Some state, s1)" using Pair r by simp
    show "s' = set_runtime_state ri state (s1\<lparr>objs := (objs s1)(state \<mapsto> BATTERY_STATE
             \<lparr>pub = (if enable_publication c
                      then zero_pub\<lparr>msg := Some (NET_BUF_SIMPLE (2 + 8)), pub_update := 0\<rparr>
                      else zero_pub),
              esp_model = None, battery_level = 100, battery_cb = battery_callback c,
              battery_period_ms = battery_publish_period_ms c,
              battery_ctx = battery_user_data c\<rparr>)\<rparr>)"
      using assms(1) Pair r by (simp add: init_battery_model_def Let_def)
    show "built_from c (BATTERY_STATE
             \<lparr>pub = (if enable_publication c
                      then zero_pub\<lparr>msg := Some (NET_BUF_SIMPLE (2 + 8)), pub_update := 0\<rparr>
                      else zero_pub),
              esp_model = None, battery_level = 100, battery_cb = battery_callback c,
              battery_period_ms = battery_publish_period_ms c,
              battery_ctx = battery_user_data c\<rparr>)"
      by (simp add: built_from_def assms(2) zero_pub_def ESP_BLE_MESH_ADDR_UNASSIGNED_def)
  qed
qed

lemma sensor_setup_stage_post:
  assumes "sensor_setup_stage c ri state ss sb sts bufs pb s = (ESP_OK, s')"
    and "s = s0\<lparr>heap_blocks := heap_blocks s0 @ state # mid, calloc_script := scr\<rparr>"
    and "state \<notin> set (heap_blocks s0)"
    and "type c = MESH_MODEL_TYPE_SENSOR"
    and "sts = map mk_sensor_state (take (unat (sensor_sensor_count c)) (sensor_sensors c))"
    and "sensor_pub_ready c pb"
  shows "init_post c ri s0 s'"
proof (cases "calloc s")
  case (Pair r s1)
  with assms(1) obtain setup_msg where r: "r = Some setup_msg"
    by (cases r) (auto simp: sensor_setup_stage_def)
  from calloc_SomeE [of s setup_msg s1] Pair r obtain scr1 where
    s1: "s1 = s\<lparr>heap_blocks := heap_blocks s @ [setup_msg], calloc_script := scr1\<rparr>" by blast
  define obj where "obj = SENSOR_STATE \<lparr>pub = pb, esp_model = None,
                     sensors = sensor_sensors c,
                     sensor_count = sensor_sensor_count c,
                     sensor_states_block = ss,
                     sensor_states = sts,
                     sensor_bufs_block = sb,
                     sensor_bufs = bufs,
                     server_state_count = sensor_sensor_count c,
                     setup_state_count = sensor_sensor_count c,
                     setup_pub = zero_pub\<lparr>msg := Some (NET_BUF_SIMPLE 34),
                                   msg_block := Some setup_msg, pub_update := 0\<rparr>\<rparr>"
  have b: "built_from c obj"
    using assms(4,5,6)
    by (simp add: built_from_def obj_def sensor_pub_ready_def zero_pub_def
        ESP_BLE_MESH_ADDR_UNASSIGNED_def)
  have "s' = set_runtime_state ri state (s1\<lparr>objs := (objs s1)(state \<mapsto> obj)\<rparr>)"
    using assms(1) Pair r by (simp add: sensor_setup_stage_def Let_def obj_def)
  then have "s' = s0\<lparr>model_registry := (model_registry s0)
                     [ri := (model_registry s0 ! ri)\<lparr>runtime_state := Some state\<rparr>],
           heap_blocks := heap_blocks s0 @ state # (mid @ [setup_msg]), calloc_script := scr1,
           objs := (objs s0)(state \<mapsto> obj)\<rparr>"
    by (simp add: s1 assms(2) set_runtime_state_def)
  with assms(3) b show ?thesis by (rule init_postI)
qed

lemma sensor_pub_stage_post:
  assumes "sensor_pub_stage c ri state ss sb sts bufs s = (ESP_OK, s')"
    and "s = s0\<lparr>heap_blocks := heap_blocks s0 @ state # mid, calloc_script := scr\<rparr>"
    and "state \<notin> set (heap_blocks s0)"
    and "type c = MESH_MODEL_TYPE_SENSOR"
    and "sts = map mk_sensor_state (take (unat (sensor_sensor_count c)) (sensor_sensors c))"
  shows "init_post c ri s0 s'"
proof (cases "enable_publication c")
  case False
  with assms(1) have st: "sensor_setup_stage c ri state ss sb sts bufs zero_pub s = (ESP_OK, s')"
    by (simp add: sensor_pub_stage_def)
  have "sensor_pub_ready c zero_pub"
    using False by (simp add: sensor_pub_ready_def zero_pub_def ESP_BLE_MESH_ADDR_UNASSIGNED_def)
  from sensor_setup_stage_post [OF st assms(2,3,4,5) this] show ?thesis .
next
  case True
  show ?thesis
  proof (cases "calloc s")
    case (Pair r s1)
    with assms(1) True obtain pub_msg where r: "r = Some pub_msg"
      by (cases r) (auto simp: sensor_pub_stage_def)
    from calloc_SomeE [of s pub_msg s1] Pair r obtain scr1 where
      s1: "s1 = s\<lparr>heap_blocks := heap_blocks s @ [pub_msg], calloc_script := scr1\<rparr>" by blast
    have s1': "s1 = s0\<lparr>heap_blocks := heap_blocks s0 @ state # (mid @ [pub_msg]), calloc_script := scr1\<rparr>"
      by (simp add: s1 assms(2))
    have st: "sensor_setup_stage c ri state ss sb sts bufs
              (zero_pub\<lparr>msg := Some (NET_BUF_SIMPLE 34), msg_block := Some pub_msg, pub_update := 0\<rparr>) s1
            = (ESP_OK, s')"
      using assms(1) Pair r True by (simp add: sensor_pub_stage_def)
    have "sensor_pub_ready c (zero_pub\<lparr>msg := Some (NET_BUF_SIMPLE 34), msg_block := Some pub_msg, pub_update := 0\<rparr>)"
      using True by (simp add: sensor_pub_ready_def zero_pub_def ESP_BLE_MESH_ADDR_UNASSIGNED_def)
    from sensor_setup_stage_post [OF st s1' assms(3,4,5) this] show ?thesis .
  qed
qed

lemma init_sensor_model_post:
  assumes "init_sensor_model c ri s = Returned (ESP_OK, s')" and "type c = MESH_MODEL_TYPE_SENSOR"
  shows "init_post c ri s s'"
proof -
  from assms(1) obtain state s1 ss s2 sb s3 ret4 sts bufs s4 where
    c1: "calloc s = (Some state, s1)" and c2: "calloc s1 = (Some ss, s2)"
    and c3: "calloc s2 = (Some sb, s3)"
    and lp: "sensor_buf_loop (sensor_sensors c) state ss sb
               (unat (sensor_sensor_count c)) 0 [] [] s3 = Returned (ret4, sts, bufs, s4)"
    and fin: "(if ret4 \<noteq> ESP_OK then Returned (ret4, s4)
               else Returned (sensor_pub_stage c ri state ss sb sts bufs s4)) = Returned (ESP_OK, s')"
    unfolding init_sensor_model_def obind_def
    by (auto split: prod.splits option.splits outcome.splits)
  from fin have ok: "ret4 = ESP_OK" and ps: "sensor_pub_stage c ri state ss sb sts bufs s4 = (ESP_OK, s')"
    by (auto split: if_splits)
  from calloc_SomeE [OF c1] obtain scr1 where
    f1: "state \<notin> set (heap_blocks s)"
    and s1: "s1 = s\<lparr>heap_blocks := heap_blocks s @ [state], calloc_script := scr1\<rparr>" by blast
  from calloc_SomeE [OF c2] obtain scr2 where
    s2: "s2 = s1\<lparr>heap_blocks := heap_blocks s1 @ [ss], calloc_script := scr2\<rparr>" by blast
  from calloc_SomeE [OF c3] obtain scr3 where
    s3: "s3 = s2\<lparr>heap_blocks := heap_blocks s2 @ [sb], calloc_script := scr3\<rparr>" by blast
  from sensor_buf_loop_okE [OF lp [unfolded ok]] obtain scr4 where
    sts: "sts = [] @ map mk_sensor_state (take (unat (sensor_sensor_count c)) (drop 0 (sensor_sensors c)))"
    and s4: "s4 = s3\<lparr>heap_blocks := heap_blocks s3 @ bufs, calloc_script := scr4\<rparr>" by auto
  have s4': "s4 = s\<lparr>heap_blocks := heap_blocks s @ state # ([ss, sb] @ bufs), calloc_script := scr4\<rparr>"
    by (simp add: s1 s2 s3 s4)
  from sts have sts': "sts = map mk_sensor_state (take (unat (sensor_sensor_count c)) (sensor_sensors c))"
    by simp
  from sensor_pub_stage_post [OF ps s4' f1 assms(2) sts'] show ?thesis .
qed

lemma built_from_with_esp_model [simp]: "built_from c (with_esp_model r obj) = built_from c obj"
  by (cases obj) (simp_all add: built_from_def with_esp_model_def)

lemma place_sig_model_placed:
  "place_sig_model ri state m k s = Returned s' \<Longrightarrow> placed ri state (SIG_MODEL (unat k)) s s'"
  by (auto simp: place_sig_model_def obind_def write_sig_model_def set_reg_esp_model_def
      set_esp_model_def placed_def split: outcome.splits option.splits if_splits)

lemma place_vnd_model_placed:
  "place_vnd_model ri state m k s = Returned s' \<Longrightarrow> placed ri state (VND_MODEL (unat k)) s s'"
  by (auto simp: place_vnd_model_def obind_def write_vnd_model_def set_reg_esp_model_def
      set_esp_model_def placed_def split: outcome.splits option.splits if_splits)

lemma write_sig_model_placed:
  "placed ri state r s s1 \<Longrightarrow> write_sig_model k m s1 = Returned s2 \<Longrightarrow> placed ri state r s s2"
  by (auto simp: write_sig_model_def placed_def split: option.splits if_splits)

lemma init_placed_post:
  assumes ip: "init_post c ri (register_config c ri s) s1"
    and ri: "ri = unat (registered_model_count s)"
    and lt: "ri < length (model_registry s)"
    and rs: "runtime_state (model_registry s1 ! ri) = Some state"
    and pl: "placed ri state r s1 s2"
  shows "build_post c s s2"
proof -
  define s0 where "s0 = register_config c ri s"
  from ip obtain state' obj new scr where
    f: "state' \<notin> set (heap_blocks s0)" and b: "built_from c obj"
    and s1: "s1 = s0\<lparr>model_registry := (model_registry s0)
                     [ri := (model_registry s0 ! ri)\<lparr>runtime_state := Some state'\<rparr>],
                 heap_blocks := heap_blocks s0 @ state' # new, calloc_script := scr,
                 objs := (objs s0)(state' \<mapsto> obj)\<rparr>"
    unfolding init_post_def s0_def by blast
  have l0: "length (model_registry s0) = length (model_registry s)"
    and h0: "heap_blocks s0 = heap_blocks s" and o0: "objs s0 = objs s"
    and c0: "registered_model_count s0 = registered_model_count s"
    and t0: "take ri (model_registry s0) = take ri (model_registry s)"
    and u0: "user_config (model_registry s0 ! ri) = c"
    and y0: "reg_type (model_registry s0 ! ri) = type c"
    using lt by (simp_all add: s0_def register_config_def)
  have st: "state' = state" using rs lt l0 by (simp add: s1)
  from pl have
    c2: "registered_model_count s2 = registered_model_count s1"
    and h2: "heap_blocks s2 = heap_blocks s1"
    and o2: "objs s2 = (objs s1)(state := map_option (with_esp_model r) (objs s1 state))"
    and m2: "model_registry s2 = (model_registry s1)
               [ri := (model_registry s1 ! ri)\<lparr>reg_esp_model := Some r\<rparr>]"
    unfolding placed_def by blast+
  have 1: "registered_model_count s2 = registered_model_count s" by (simp add: c2 s1 c0)
  have 2: "length (model_registry s2) = length (model_registry s)" by (simp add: m2 s1 l0)
  have 3: "take ri (model_registry s2) = take ri (model_registry s)" by (simp add: m2 s1 t0)
  have 4: "user_config (model_registry s2 ! ri) = c" using lt l0 by (simp add: m2 s1 u0)
  have 5: "reg_type (model_registry s2 ! ri) = type c" using lt l0 by (simp add: m2 s1 y0)
  have 6: "runtime_state (model_registry s2 ! ri) = Some state" using lt l0 by (simp add: m2 s1 st)
  have 7: "state \<notin> set (heap_blocks s)" using f by (simp add: st h0)
  have 8: "state \<in> set (heap_blocks s2)" by (simp add: h2 s1 st)
  have 9: "set (heap_blocks s) \<subseteq> set (heap_blocks s2)" by (auto simp: h2 s1 h0)
  have 10: "built_from c (with_esp_model r obj)" using b by simp
  have 11: "objs s2 = (objs s)(state \<mapsto> with_esp_model r obj)" by (simp add: o2 s1 st o0)
  show ?thesis
    unfolding build_post_def ri [symmetric]
    using 1 2 3 4 5 6 7 8 9 10 11 by blast
qed

lemma build_onoff_model_post:
  assumes "build_onoff_model c ri sl vl (register_config c ri s) = Returned (ESP_OK, sl', vl', s2)"
    and "type c = MESH_MODEL_TYPE_ONOFF"
    and "ri = unat (registered_model_count s)" and "ri < length (model_registry s)"
  shows "build_post c s s2"
proof -
  from assms(1) obtain s1 state where
    i: "init_onoff_model c ri (register_config c ri s) = (ESP_OK, s1)"
    and r: "runtime_state (model_registry s1 ! ri) = Some state"
    and p: "place_sig_model ri state
              (ESP_BLE_MESH_MODEL_GEN_ONOFF_SRV (pub_ctx_of c state) state) sl s1 = Returned s2"
    unfolding build_onoff_model_def obind_def
    by (auto split: prod.splits if_splits option.splits outcome.splits)
  from init_placed_post [OF init_onoff_model_post [OF i assms(2)] assms(3,4) r
      place_sig_model_placed [OF p]]
  show ?thesis .
qed

lemma build_level_model_post:
  assumes "build_level_model c ri sl vl (register_config c ri s) = Returned (ESP_OK, sl', vl', s2)"
    and "type c = MESH_MODEL_TYPE_LEVEL"
    and "ri = unat (registered_model_count s)" and "ri < length (model_registry s)"
  shows "build_post c s s2"
proof -
  from assms(1) obtain s1 state where
    i: "init_level_model c ri (register_config c ri s) = (ESP_OK, s1)"
    and r: "runtime_state (model_registry s1 ! ri) = Some state"
    and p: "place_sig_model ri state
              (ESP_BLE_MESH_MODEL_GEN_LEVEL_SRV (pub_ctx_of c state) state) sl s1 = Returned s2"
    unfolding build_level_model_def obind_def
    by (auto split: prod.splits if_splits option.splits outcome.splits)
  from init_placed_post [OF init_level_model_post [OF i assms(2)] assms(3,4) r
      place_sig_model_placed [OF p]]
  show ?thesis .
qed

lemma build_battery_model_post:
  assumes "build_battery_model c ri sl vl (register_config c ri s) = Returned (ESP_OK, sl', vl', s2)"
    and "type c = MESH_MODEL_TYPE_BATTERY"
    and "ri = unat (registered_model_count s)" and "ri < length (model_registry s)"
  shows "build_post c s s2"
proof -
  from assms(1) obtain s1 state where
    i: "init_battery_model c ri (register_config c ri s) = (ESP_OK, s1)"
    and r: "runtime_state (model_registry s1 ! ri) = Some state"
    and p: "place_sig_model ri state
              (ESP_BLE_MESH_MODEL_GEN_BATTERY_SRV (pub_ctx_of c state) state) sl s1 = Returned s2"
    unfolding build_battery_model_def obind_def
    by (auto split: prod.splits if_splits option.splits outcome.splits)
  from init_placed_post [OF init_battery_model_post [OF i assms(2)] assms(3,4) r
      place_sig_model_placed [OF p]]
  show ?thesis .
qed

lemma build_vendor_model_post:
  assumes "build_vendor_model c ri sl vl (register_config c ri s) = Returned (ESP_OK, sl', vl', s2)"
    and "type c = MESH_MODEL_TYPE_VENDOR"
    and "ri = unat (registered_model_count s)" and "ri < length (model_registry s)"
  shows "build_post c s s2"
proof -
  from assms(1) obtain s1 state where
    i: "init_vendor_model c ri (register_config c ri s) = (ESP_OK, s1)"
    and r: "runtime_state (model_registry s1 ! ri) = Some state"
    and p: "place_vnd_model ri state
              (ESP_BLE_MESH_VENDOR_MODEL (vendor_company_id c) (vendor_model_id c) vendor_op
                 (pub_ctx_of c state)) vl s1 = Returned s2"
    unfolding build_vendor_model_def obind_def
    by (auto split: prod.splits if_splits option.splits outcome.splits)
  from init_placed_post [OF init_vendor_model_post [OF i assms(2)] assms(3,4) r
      place_vnd_model_placed [OF p]]
  show ?thesis .
qed

lemma build_sensor_model_post:
  assumes "build_sensor_model c ri sl vl (register_config c ri s) = Returned (ESP_OK, sl', vl', s3)"
    and "type c = MESH_MODEL_TYPE_SENSOR"
    and "ri = unat (registered_model_count s)" and "ri < length (model_registry s)"
  shows "build_post c s s3"
proof -
  from assms(1) obtain s1 state s2 where
    i: "init_sensor_model c ri (register_config c ri s) = Returned (ESP_OK, s1)"
    and r: "runtime_state (model_registry s1 ! ri) = Some state"
    and p: "place_sig_model ri state
              (ESP_BLE_MESH_MODEL_SENSOR_SRV (pub_ctx_of c state) state) sl s1 = Returned s2"
    and w: "write_sig_model (unat (sl + 1))
              (ESP_BLE_MESH_MODEL_SENSOR_SETUP_SRV (Some (SETUP_PUB_OF state)) state) s2
            = Returned s3"
    unfolding build_sensor_model_def obind_def
    by (auto split: prod.splits if_splits option.splits outcome.splits)
  from init_placed_post [OF init_sensor_model_post [OF i assms(2)] assms(3,4) r
      write_sig_model_placed [OF place_sig_model_placed [OF p] w]]
  show ?thesis .
qed

lemma build_model_post:
  assumes "build_model c sl vl s = Returned (ESP_OK, sl', vl', s2)"
    and "length (model_registry s) = MAX_MODELS"
  shows "build_post c s s2 \<and> unat (registered_model_count s) < MAX_MODELS"
proof -
  define ri where "ri = unat (registered_model_count s)"
  from assms(1) have lt: "ri < MAX_MODELS"
    unfolding build_model_def Let_def ri_def by (auto split: if_splits)
  then have lt': "ri < length (model_registry s)" by (simp add: assms(2))
  from assms(1) lt have b: "(case type c of
          MESH_MODEL_TYPE_ONOFF \<Rightarrow> build_onoff_model c ri sl vl (register_config c ri s)
        | MESH_MODEL_TYPE_LEVEL \<Rightarrow> build_level_model c ri sl vl (register_config c ri s)
        | MESH_MODEL_TYPE_SENSOR \<Rightarrow> build_sensor_model c ri sl vl (register_config c ri s)
        | MESH_MODEL_TYPE_VENDOR \<Rightarrow> build_vendor_model c ri sl vl (register_config c ri s)
        | MESH_MODEL_TYPE_BATTERY \<Rightarrow> build_battery_model c ri sl vl (register_config c ri s)
        | _ \<Rightarrow> Returned (ESP_ERR_INVALID_ARG, sl, vl, register_config c ri s))
      = Returned (ESP_OK, sl', vl', s2)"
    unfolding build_model_def Let_def ri_def by (simp split: if_splits)
  have "build_post c s s2"
  proof (cases "type c")
    case MESH_MODEL_TYPE_ONOFF
    with b build_onoff_model_post [of c ri sl vl s sl' vl' s2] lt' show ?thesis
      by (simp add: ri_def)
  next
    case MESH_MODEL_TYPE_LEVEL
    with b build_level_model_post [of c ri sl vl s sl' vl' s2] lt' show ?thesis
      by (simp add: ri_def)
  next
    case MESH_MODEL_TYPE_SENSOR
    with b build_sensor_model_post [of c ri sl vl s sl' vl' s2] lt' show ?thesis
      by (simp add: ri_def)
  next
    case MESH_MODEL_TYPE_POWER_LEVEL
    with b show ?thesis by simp
  next
    case MESH_MODEL_TYPE_BATTERY
    with b build_battery_model_post [of c ri sl vl s sl' vl' s2] lt' show ?thesis
      by (simp add: ri_def)
  next
    case MESH_MODEL_TYPE_VENDOR
    with b build_vendor_model_post [of c ri sl vl s sl' vl' s2] lt' show ?thesis
      by (simp add: ri_def)
  next
    case (MESH_MODEL_TYPE_OTHER x)
    with b show ?thesis by simp
  qed
  with lt show ?thesis by (simp add: ri_def)
qed

lemma unat_count_Suc:
  fixes x :: byte
  assumes "unat x < MAX_MODELS"
  shows "unat (x + 1) = Suc (unat x)"
proof -
  have "unat x + 1 < 2 ^ 8" using assms by (simp add: MAX_MODELS_def)
  then show ?thesis by (simp add: unat_word_ariths)
qed

lemma entry_ok_mono:
  assumes "entry_ok s e" and "set (heap_blocks s) \<subseteq> set (heap_blocks s')"
    and "state \<notin> set (heap_blocks s)" and "objs s' = (objs s)(state \<mapsto> obj)"
  shows "entry_ok s' e"
  using assms unfolding entry_ok_def by auto

lemma build_post_step:
  assumes bp: "build_post c s s1" and ok: "registry_ok s"
    and lt: "unat (registered_model_count s) < MAX_MODELS"
    and len: "length (model_registry s) = MAX_MODELS"
  shows "registry_ok (s1\<lparr>registered_model_count := registered_model_count s1 + 1\<rparr>)
     \<and> map user_config (registered (s1\<lparr>registered_model_count := registered_model_count s1 + 1\<rparr>))
         = map user_config (registered s) @ [c]
     \<and> length (model_registry (s1\<lparr>registered_model_count := registered_model_count s1 + 1\<rparr>))
         = MAX_MODELS"
proof -
  define ri where "ri = unat (registered_model_count s)"
  define s2 where "s2 = s1\<lparr>registered_model_count := registered_model_count s1 + 1\<rparr>"
  define e where "e = model_registry s1 ! ri"
  from bp obtain state obj where
    c1: "registered_model_count s1 = registered_model_count s"
    and l1: "length (model_registry s1) = length (model_registry s)"
    and t1: "take ri (model_registry s1) = take ri (model_registry s)"
    and u1: "user_config e = c" and y1: "reg_type e = type c"
    and r1: "runtime_state e = Some state"
    and f: "state \<notin> set (heap_blocks s)" and m: "state \<in> set (heap_blocks s1)"
    and sub: "set (heap_blocks s) \<subseteq> set (heap_blocks s1)"
    and b: "built_from c obj" and o1: "objs s1 = (objs s)(state \<mapsto> obj)"
    unfolding build_post_def ri_def e_def by blast
  have cnt: "unat (registered_model_count s2) = Suc ri"
    using lt by (simp add: s2_def c1 unat_count_Suc ri_def)
  have lt1: "ri < length (model_registry s1)" using lt len l1 by (simp add: ri_def)
  have reg: "registered s2 = registered s @ [e]"
    unfolding registered_def cnt
    using lt1 by (simp add: s2_def take_Suc_conv_app_nth t1 e_def ri_def [symmetric])
  have h2: "heap_blocks s2 = heap_blocks s1" and o2: "objs s2 = objs s1"
    by (simp_all add: s2_def)
  have old: "entry_ok s2 x" if "x \<in> set (registered s)" for x
  proof -
    from ok that have "entry_ok s x" unfolding registry_ok_def by blast
    then show ?thesis
      by (rule entry_ok_mono) (simp_all add: h2 o2 sub f o1)
  qed
  have new: "entry_ok s2 e"
    unfolding entry_ok_def using u1 y1 r1 m b by (simp add: h2 o2 o1)
  have nin: "Some state \<notin> set (map runtime_state (registered s))"
  proof
    assume "Some state \<in> set (map runtime_state (registered s))"
    then obtain x where x: "x \<in> set (registered s)" and rx: "runtime_state x = Some state"
      by auto
    from ok x have "entry_ok s x" unfolding registry_ok_def by blast
    with rx have "state \<in> set (heap_blocks s)" unfolding entry_ok_def by auto
    with f show False by contradiction
  qed
  have d: "distinct (map runtime_state (registered s2))"
    using ok nin unfolding registry_ok_def by (simp add: reg r1)
  have "registry_ok s2"
    unfolding registry_ok_def using old new d by (auto simp: reg)
  moreover have "map user_config (registered s2) = map user_config (registered s) @ [c]"
    by (simp add: reg u1)
  moreover have "length (model_registry s2) = MAX_MODELS"
    by (simp add: s2_def l1 len)
  ultimately show ?thesis unfolding s2_def by blast
qed

lemma build_user_models_ok:
  assumes "build_user_models ds sl vl s = Returned (ESP_OK, s')"
    and "registry_ok s" and "length (model_registry s) = MAX_MODELS"
  shows "registry_ok s' \<and> map user_config (registered s') = map user_config (registered s) @ ds
     \<and> length (model_registry s') = MAX_MODELS"
  using assms
proof (induction ds arbitrary: sl vl s)
  case Nil
  then show ?case by simp
next
  case (Cons c ds)
  from Cons.prems(1) obtain sl1 vl1 s1 where
    bm: "build_model c sl vl s = Returned (ESP_OK, sl1, vl1, s1)"
    and rest: "build_user_models ds sl1 vl1
                 (s1\<lparr>registered_model_count := registered_model_count s1 + 1\<rparr>)
               = Returned (ESP_OK, s')"
    by (auto split: outcome.splits prod.splits if_splits)
  from build_model_post [OF bm Cons.prems(3)]
  have bp: "build_post c s s1" and lt: "unat (registered_model_count s) < MAX_MODELS"
    by simp_all
  from build_post_step [OF bp Cons.prems(2) lt Cons.prems(3)]
  have ok2: "registry_ok (s1\<lparr>registered_model_count := registered_model_count s1 + 1\<rparr>)"
    and u2: "map user_config (registered (s1\<lparr>registered_model_count := registered_model_count s1 + 1\<rparr>))
         = map user_config (registered s) @ [c]"
    and l2: "length (model_registry (s1\<lparr>registered_model_count := registered_model_count s1 + 1\<rparr>))
         = MAX_MODELS"
    by blast+
  from Cons.IH [OF rest ok2 l2] u2 show ?case by simp
qed

lemma build_models_loop:
  assumes "build_models user_models mcount s = Returned (ESP_OK, s')"
  shows "\<exists>s5. build_user_models (take (unat mcount) user_models) 1 0 s5 = Returned (ESP_OK, s')
     \<and> model_registry s5 = model_registry s
     \<and> registered_model_count s5 = registered_model_count s"
  using assms unfolding build_models_def Let_def obind_def
  by (auto simp: write_sig_model_def
      split: if_splits prod.splits option.splits outcome.splits bool.splits
      dest!: calloc_frame)

lemma build_models_ok:
  assumes "build_models user_models mcount s = Returned (ESP_OK, s')"
    and "registered_model_count s = 0" and "length (model_registry s) = MAX_MODELS"
  shows "registry_ok s' \<and> map user_config (registered s') = take (unat mcount) user_models
     \<and> length (model_registry s') = MAX_MODELS"
proof -
  from build_models_loop [OF assms(1)] obtain s5 where
    l: "build_user_models (take (unat mcount) user_models) 1 0 s5 = Returned (ESP_OK, s')"
    and m: "model_registry s5 = model_registry s"
    and c: "registered_model_count s5 = registered_model_count s"
    by blast
  have e: "registered s5 = []" by (simp add: registered_def c assms(2))
  then have ok: "registry_ok s5" by (simp add: registry_ok_def)
  have len: "length (model_registry s5) = MAX_MODELS" by (simp add: m assms(3))
  from build_user_models_ok [OF l ok len] e show ?thesis by simp
qed

subsection \<open>The publication buffers of the sensor model\<close>

lemma calloc_succeeds_frame:
  assumes "list_all id (take (Suc n) (calloc_script s))"
  shows "\<exists>a s'. calloc s = (Some a, s') \<and> calloc_script s' = tl (calloc_script s)
     \<and> list_all id (take n (calloc_script s'))
     \<and> heap_blocks s' = heap_blocks s @ [a] \<and> a \<notin> set (heap_blocks s)
     \<and> objs s' = objs s \<and> model_registry s' = model_registry s"
proof -
  from calloc_succeeds [OF assms] obtain a s' where
    c: "calloc s = (Some a, s')" and t: "calloc_script s' = tl (calloc_script s)"
    and l: "list_all id (take n (calloc_script s'))" by blast
  from calloc_Some [OF c] calloc_frame [OF c] c t l show ?thesis by auto
qed

lemma sensor_buf_loop_succeeds_frame:
  assumes "list_all id (take n (calloc_script s))" and "i + n \<le> length snsrs"
  shows "\<exists>bufs' s'. sensor_buf_loop snsrs state ss sb n i sts bufs s
            = Returned (ESP_OK, sts @ map mk_sensor_state (take n (drop i snsrs)), bufs', s')
     \<and> calloc_script s' = drop n (calloc_script s)
     \<and> length (heap_blocks s') = length (heap_blocks s) + n
     \<and> set (heap_blocks s) \<subseteq> set (heap_blocks s')
     \<and> objs s' = objs s \<and> model_registry s' = model_registry s"
proof -
  from sensor_buf_loop_succeeds [OF assms, of state ss sb sts bufs] obtain sts' bufs' s' where
    l: "sensor_buf_loop snsrs state ss sb n i sts bufs s = Returned (ESP_OK, sts', bufs', s')"
    and sc: "calloc_script s' = drop n (calloc_script s)" by blast
  from sensor_buf_loop_okE [OF l] obtain new scr where
    "sts' = sts @ map mk_sensor_state (take n (drop i snsrs))"
    "length new = n" "s' = s\<lparr>heap_blocks := heap_blocks s @ new, calloc_script := scr\<rparr>"
    by blast
  with l sc show ?thesis by auto
qed

lemma sensor_setup_stage_succeeds:
  assumes "list_all id (take 1 (calloc_script s))" and "ri < length (model_registry s)"
  shows "\<exists>s' st b. sensor_setup_stage c ri state ss sb sts bufs pb s = (ESP_OK, s')
     \<and> calloc_script s' = drop 1 (calloc_script s)
     \<and> heap_blocks s' = heap_blocks s @ [b] \<and> b \<notin> set (heap_blocks s)
     \<and> runtime_state (model_registry s' ! ri) = Some state
     \<and> objs s' state = Some (SENSOR_STATE st)
     \<and> pub st = pb \<and> sensor_states st = sts
     \<and> setup_pub st = zero_pub\<lparr>msg := Some (NET_BUF_SIMPLE 34), msg_block := Some b,
                                  pub_update := 0\<rparr>"
proof -
  from assms(1) have "list_all id (take (Suc 0) (calloc_script s))" by simp
  from calloc_succeeds_frame [OF this] obtain b s1 where
    c: "calloc s = (Some b, s1)" and t: "calloc_script s1 = tl (calloc_script s)"
    and h: "heap_blocks s1 = heap_blocks s @ [b]" and f: "b \<notin> set (heap_blocks s)"
    and m: "model_registry s1 = model_registry s"
    by blast
  show ?thesis
    using assms(2) c t h f m
    by (simp add: sensor_setup_stage_def Let_def set_runtime_state_def drop_Suc)
qed

lemma sensor_pub_stage_succeeds:
  assumes ok: "list_all id (take (if enable_publication c then 2 else 1) (calloc_script s))"
    and ri: "ri < length (model_registry s)"
  shows "\<exists>s' st b. sensor_pub_stage c ri state ss sb sts bufs s = (ESP_OK, s')
     \<and> calloc_script s' = drop (if enable_publication c then 2 else 1) (calloc_script s)
     \<and> length (heap_blocks s') = length (heap_blocks s) + (if enable_publication c then 2 else 1)
     \<and> set (heap_blocks s) \<subseteq> set (heap_blocks s')
     \<and> runtime_state (model_registry s' ! ri) = Some state
     \<and> objs s' state = Some (SENSOR_STATE st)
     \<and> sensor_states st = sts
     \<and> msg (setup_pub st) = Some (NET_BUF_SIMPLE 34)
     \<and> msg_block (setup_pub st) = Some b
     \<and> b \<in> set (heap_blocks s') \<and> b \<notin> set (heap_blocks s)
     \<and> msg (pub st) = (if enable_publication c then Some (NET_BUF_SIMPLE 34) else None)
     \<and> (msg_block (pub st) = None \<longleftrightarrow> \<not> enable_publication c)"
proof (cases "enable_publication c")
  case False
  with ok have ok1: "list_all id (take 1 (calloc_script s))" by simp
  from sensor_setup_stage_succeeds [OF ok1 ri, of c state ss sb sts bufs zero_pub]
  obtain s' st b where
    "sensor_setup_stage c ri state ss sb sts bufs zero_pub s = (ESP_OK, s')"
    "calloc_script s' = drop 1 (calloc_script s)"
    "heap_blocks s' = heap_blocks s @ [b]" "b \<notin> set (heap_blocks s)"
    "runtime_state (model_registry s' ! ri) = Some state"
    "objs s' state = Some (SENSOR_STATE st)" "pub st = zero_pub" "sensor_states st = sts"
    "setup_pub st = zero_pub\<lparr>msg := Some (NET_BUF_SIMPLE 34), msg_block := Some b,
                                  pub_update := 0\<rparr>"
    by blast
  with False show ?thesis
    by (auto simp: sensor_pub_stage_def zero_pub_def)
next
  case True
  with ok have "list_all id (take (Suc 1) (calloc_script s))" by (simp add: numeral_2_eq_2)
  from calloc_succeeds_frame [OF this] obtain pm s1 where
    c: "calloc s = (Some pm, s1)" and t: "calloc_script s1 = tl (calloc_script s)"
    and ok1: "list_all id (take 1 (calloc_script s1))"
    and h: "heap_blocks s1 = heap_blocks s @ [pm]" and f: "pm \<notin> set (heap_blocks s)"
    and m: "model_registry s1 = model_registry s"
    by blast
  have ri1: "ri < length (model_registry s1)" using ri m by simp
  from sensor_setup_stage_succeeds [OF ok1 ri1, of c state ss sb sts bufs
      "zero_pub\<lparr>msg := Some (NET_BUF_SIMPLE 34), msg_block := Some pm, pub_update := 0\<rparr>"]
  obtain s' st b where
    r: "sensor_setup_stage c ri state ss sb sts bufs
         (zero_pub\<lparr>msg := Some (NET_BUF_SIMPLE 34), msg_block := Some pm, pub_update := 0\<rparr>) s1
        = (ESP_OK, s')"
    and p: "calloc_script s' = drop 1 (calloc_script s1)"
    "heap_blocks s' = heap_blocks s1 @ [b]" "b \<notin> set (heap_blocks s1)"
    "runtime_state (model_registry s' ! ri) = Some state"
    "objs s' state = Some (SENSOR_STATE st)"
    "pub st = zero_pub\<lparr>msg := Some (NET_BUF_SIMPLE 34), msg_block := Some pm, pub_update := 0\<rparr>"
    "sensor_states st = sts"
    "setup_pub st = zero_pub\<lparr>msg := Some (NET_BUF_SIMPLE 34), msg_block := Some b,
                                  pub_update := 0\<rparr>"
    by blast
  have "sensor_pub_stage c ri state ss sb sts bufs s = (ESP_OK, s')"
    using True c r by (simp add: sensor_pub_stage_def)
  moreover have "calloc_script s' = drop 2 (calloc_script s)"
    by (simp add: p(1) t drop_Suc numeral_2_eq_2 drop_tl)
  ultimately show ?thesis
    using True p h by (auto simp: zero_pub_def)
qed


lemma list_all_take_le:
  assumes "list_all P (take m xs)" and "n \<le> m"
  shows "list_all P (take n xs)"
proof -
  have "take n xs = take n (take m xs)" using assms(2) by (simp add: min_def)
  with assms(1) show ?thesis by (metis list_all_iff in_set_takeD)
qed

lemma list_all_take_drop:
  assumes "list_all P (take (n + e) xs)"
  shows "list_all P (take e (drop n xs))"
proof -
  have "take e (drop n xs) = drop n (take (e + n) xs)" by (simp only: take_drop)
  with assms show ?thesis by (metis list_all_iff in_set_dropD add.commute)
qed

lemma init_sensor_model_succeeds:
  assumes ok: "list_all id (take (sensor_alloc_count c) (calloc_script s))"
    and inb: "unat (sensor_sensor_count c) \<le> length (sensor_sensors c)"
    and ri: "ri < length (model_registry s)"
  shows "\<exists>s' state st b. init_sensor_model c ri s = Returned (ESP_OK, s')
     \<and> calloc_script s' = drop (sensor_alloc_count c) (calloc_script s)
     \<and> length (heap_blocks s') = length (heap_blocks s) + sensor_alloc_count c
     \<and> set (heap_blocks s) \<subseteq> set (heap_blocks s')
     \<and> runtime_state (model_registry s' ! ri) = Some state
     \<and> objs s' state = Some (SENSOR_STATE st)
     \<and> sensor_states st = map mk_sensor_state
           (take (unat (sensor_sensor_count c)) (sensor_sensors c))
     \<and> msg (setup_pub st) = Some (NET_BUF_SIMPLE 34)
     \<and> msg_block (setup_pub st) = Some b
     \<and> b \<in> set (heap_blocks s') \<and> b \<notin> set (heap_blocks s)
     \<and> msg (pub st) = (if enable_publication c then Some (NET_BUF_SIMPLE 34) else None)
     \<and> (msg_block (pub st) = None \<longleftrightarrow> \<not> enable_publication c)"
proof -
  define n where "n = unat (sensor_sensor_count c)"
  define e where "e = (if enable_publication c then 2 else 1 :: nat)"
  have cnt: "sensor_alloc_count c = Suc (Suc (Suc (n + e)))"
    by (simp add: sensor_alloc_count_def n_def e_def)
  have ok0: "list_all id (take (Suc (Suc (Suc (n + e)))) (calloc_script s))"
    using ok by (simp add: cnt)
  from calloc_succeeds_frame [OF ok0] obtain state s1 where
    c1: "calloc s = (Some state, s1)" and t1: "calloc_script s1 = tl (calloc_script s)"
    and ok1: "list_all id (take (Suc (Suc (n + e))) (calloc_script s1))"
    and h1: "heap_blocks s1 = heap_blocks s @ [state]"
    and o1: "objs s1 = objs s" and m1: "model_registry s1 = model_registry s"
    by blast
  from calloc_succeeds_frame [OF ok1] obtain ss s2 where
    c2: "calloc s1 = (Some ss, s2)" and t2: "calloc_script s2 = tl (calloc_script s1)"
    and ok2: "list_all id (take (Suc (n + e)) (calloc_script s2))"
    and h2: "heap_blocks s2 = heap_blocks s1 @ [ss]"
    and o2: "objs s2 = objs s1" and m2: "model_registry s2 = model_registry s1"
    by blast
  from calloc_succeeds_frame [OF ok2] obtain sb s3 where
    c3: "calloc s2 = (Some sb, s3)" and t3: "calloc_script s3 = tl (calloc_script s2)"
    and ok3: "list_all id (take (n + e) (calloc_script s3))"
    and h3: "heap_blocks s3 = heap_blocks s2 @ [sb]"
    and o3: "objs s3 = objs s2" and m3: "model_registry s3 = model_registry s2"
    by blast
  have sc3: "calloc_script s3 = drop 3 (calloc_script s)"
    by (simp add: t3 t2 t1 drop_Suc numeral_3_eq_3 drop_tl)
  have okl: "list_all id (take n (calloc_script s3))"
    by (rule list_all_take_le [OF ok3]) simp
  have le: "0 + n \<le> length (sensor_sensors c)" using inb by (simp add: n_def)
  from sensor_buf_loop_succeeds_frame [OF okl le, of state ss sb "[]" "[]"]
  obtain bufs s4 where
    l: "sensor_buf_loop (sensor_sensors c) state ss sb n 0 [] [] s3
          = Returned (ESP_OK, [] @ map mk_sensor_state (take n (drop 0 (sensor_sensors c))), bufs, s4)"
    and t4: "calloc_script s4 = drop n (calloc_script s3)"
    and h4: "length (heap_blocks s4) = length (heap_blocks s3) + n"
    and sub4: "set (heap_blocks s3) \<subseteq> set (heap_blocks s4)"
    and o4: "objs s4 = objs s3" and m4: "model_registry s4 = model_registry s3"
    by blast
  have "list_all id (take e (drop n (calloc_script s3)))"
    by (rule list_all_take_drop [OF ok3])
  then have okp: "list_all id (take (if enable_publication c then 2 else 1) (calloc_script s4))"
    by (simp only: t4 e_def)
  have ri4: "ri < length (model_registry s4)" using ri by (simp add: m4 m3 m2 m1)
  from sensor_pub_stage_succeeds [OF okp ri4, of state ss sb
      "map mk_sensor_state (take n (sensor_sensors c))" bufs]
  obtain s' st b where
    p: "sensor_pub_stage c ri state ss sb (map mk_sensor_state (take n (sensor_sensors c))) bufs s4
          = (ESP_OK, s')"
    and t5': "calloc_script s' = drop (if enable_publication c then 2 else 1) (calloc_script s4)"
    and h5': "length (heap_blocks s') = length (heap_blocks s4) + (if enable_publication c then 2 else 1)"
    and sub5: "set (heap_blocks s4) \<subseteq> set (heap_blocks s')"
    and q: "runtime_state (model_registry s' ! ri) = Some state"
      "objs s' state = Some (SENSOR_STATE st)"
      "sensor_states st = map mk_sensor_state (take n (sensor_sensors c))"
      "msg (setup_pub st) = Some (NET_BUF_SIMPLE 34)"
      "msg_block (setup_pub st) = Some b"
      "b \<in> set (heap_blocks s')" "b \<notin> set (heap_blocks s4)"
      "msg (pub st) = (if enable_publication c then Some (NET_BUF_SIMPLE 34) else None)"
      "(msg_block (pub st) = None \<longleftrightarrow> \<not> enable_publication c)"
    by (elim exE conjE)
  have t5: "calloc_script s' = drop e (calloc_script s4)"
    and h5: "length (heap_blocks s') = length (heap_blocks s4) + e"
    by (simp_all only: t5' h5' e_def)
  have r: "init_sensor_model c ri s = Returned (ESP_OK, s')"
    using c1 c2 c3 l p by (simp add: init_sensor_model_def obind_def n_def [symmetric])
  have ar: "e + (n + 3) = sensor_alloc_count c" by (simp add: cnt)
  have "calloc_script s' = drop (e + (n + 3)) (calloc_script s)"
    by (simp only: t5 t4 sc3 drop_drop)
  then have sc: "calloc_script s' = drop (sensor_alloc_count c) (calloc_script s)"
    by (simp only: ar)
  have hl: "length (heap_blocks s') = length (heap_blocks s) + sensor_alloc_count c"
    by (simp add: h5 h4 h3 h2 h1 cnt)
  have sub: "set (heap_blocks s) \<subseteq> set (heap_blocks s4)"
    using sub4 by (auto simp: h3 h2 h1)
  then have sub': "set (heap_blocks s) \<subseteq> set (heap_blocks s')" using sub5 by auto
  have bn: "b \<notin> set (heap_blocks s)" using q(7) sub by auto
  have "init_sensor_model c ri s = Returned (ESP_OK, s')
     \<and> calloc_script s' = drop (sensor_alloc_count c) (calloc_script s)
     \<and> length (heap_blocks s') = length (heap_blocks s) + sensor_alloc_count c
     \<and> set (heap_blocks s) \<subseteq> set (heap_blocks s')
     \<and> runtime_state (model_registry s' ! ri) = Some state
     \<and> objs s' state = Some (SENSOR_STATE st)
     \<and> sensor_states st = map mk_sensor_state
           (take (unat (sensor_sensor_count c)) (sensor_sensors c))
     \<and> msg (setup_pub st) = Some (NET_BUF_SIMPLE 34)
     \<and> msg_block (setup_pub st) = Some b
     \<and> b \<in> set (heap_blocks s') \<and> b \<notin> set (heap_blocks s)
     \<and> msg (pub st) = (if enable_publication c then Some (NET_BUF_SIMPLE 34) else None)
     \<and> (msg_block (pub st) = None \<longleftrightarrow> \<not> enable_publication c)"
    using r sc hl sub' q(1-6) q(8,9) bn unfolding n_def by (intro conjI)
  then show ?thesis by (intro exI)
qed

lemma registered_sensor_buffers:
  assumes ok: "registry_ok t" and e: "e \<in> set (registered t)"
    and ty: "reg_type e = MESH_MODEL_TYPE_SENSOR"
  shows "\<exists>p st. runtime_state e = Some p \<and> objs t p = Some (SENSOR_STATE st)
     \<and> msg (setup_pub st) = Some (NET_BUF_SIMPLE 34) \<and> msg_block (setup_pub st) \<noteq> None
     \<and> msg (pub st) = (if enable_publication (user_config e)
                        then Some (NET_BUF_SIMPLE 34) else None)
     \<and> (msg_block (pub st) = None \<longleftrightarrow> \<not> enable_publication (user_config e))"
proof -
  from ok e have "entry_ok t e" unfolding registry_ok_def by blast
  then obtain p obj where
    y: "reg_type e = type (user_config e)" and r: "runtime_state e = Some p"
    and o: "objs t p = Some obj" and b: "built_from (user_config e) obj"
    unfolding entry_ok_def by blast
  from y ty have k: "type (user_config e) = MESH_MODEL_TYPE_SENSOR" by simp
  from b k obtain st where st: "obj = SENSOR_STATE st"
    by (cases obj) (simp_all add: built_from_def)
  from b st have "msg (setup_pub st) = Some (NET_BUF_SIMPLE 34) \<and> msg_block (setup_pub st) \<noteq> None
     \<and> msg (pub st) = (if enable_publication (user_config e)
                        then Some (NET_BUF_SIMPLE 34) else None)
     \<and> (msg_block (pub st) = None \<longleftrightarrow> \<not> enable_publication (user_config e))"
    by (auto simp: built_from_def)
  with r o st show ?thesis by simp
qed

text \<open>
  C9. When the allocations a sensor descriptor needs succeed, \<open>init_sensor_model\<close>
  returns \<open>ESP_OK\<close> having made exactly \<open>sensor_alloc_count\<close> of them (three, one
  per sensor, one more only if publication is enabled, and one for the setup
  publication buffer): the runtime state has a setup publication buffer of 34 bytes
  in a block allocated by this call, whatever \<open>enable_publication\<close> says, and a
  status publication buffer, with its block, exactly when publication is enabled.
  And after a build that returned \<open>ESP_OK\<close>, the runtime state of every registered
  sensor entry has its setup publication buffer, and its status publication buffer
  exactly when its descriptor enables publication.
\<close>

theorem sensor_setup_buffer_unconditional:
  "(list_all id (take (sensor_alloc_count config) (calloc_script s))
    \<and> unat (sensor_sensor_count config) \<le> length (sensor_sensors config)
    \<and> ri < length (model_registry s) \<longrightarrow>
      (\<exists>s' state st b. init_sensor_model config ri s = Returned (ESP_OK, s')
         \<and> calloc_script s' = drop (sensor_alloc_count config) (calloc_script s)
         \<and> length (heap_blocks s') = length (heap_blocks s) + sensor_alloc_count config
         \<and> set (heap_blocks s) \<subseteq> set (heap_blocks s')
         \<and> runtime_state (model_registry s' ! ri) = Some state
         \<and> objs s' state = Some (SENSOR_STATE st)
         \<and> msg (setup_pub st) = Some (NET_BUF_SIMPLE 34)
         \<and> msg_block (setup_pub st) = Some b
         \<and> b \<in> set (heap_blocks s') \<and> b \<notin> set (heap_blocks s)
         \<and> msg (pub st) = (if enable_publication config then Some (NET_BUF_SIMPLE 34) else None)
         \<and> (msg_block (pub st) = None \<longleftrightarrow> \<not> enable_publication config)))
   \<and> (build_models user_models mcount s0 = Returned (ESP_OK, t)
       \<and> registered_model_count s0 = 0 \<and> length (model_registry s0) = MAX_MODELS \<longrightarrow>
      (\<forall>e \<in> set (registered t). reg_type e = MESH_MODEL_TYPE_SENSOR \<longrightarrow>
         (\<exists>p st. runtime_state e = Some p \<and> objs t p = Some (SENSOR_STATE st)
            \<and> msg (setup_pub st) = Some (NET_BUF_SIMPLE 34) \<and> msg_block (setup_pub st) \<noteq> None
            \<and> msg (pub st) = (if enable_publication (user_config e)
                               then Some (NET_BUF_SIMPLE 34) else None)
            \<and> (msg_block (pub st) = None \<longleftrightarrow> \<not> enable_publication (user_config e)))))"
proof (intro conjI impI ballI)
  assume a: "list_all id (take (sensor_alloc_count config) (calloc_script s))
    \<and> unat (sensor_sensor_count config) \<le> length (sensor_sensors config)
    \<and> ri < length (model_registry s)"
  from a have a1: "list_all id (take (sensor_alloc_count config) (calloc_script s))"
    and a2: "unat (sensor_sensor_count config) \<le> length (sensor_sensors config)"
    and a3: "ri < length (model_registry s)" by simp_all
  from init_sensor_model_succeeds [OF a1 a2 a3] obtain s' state st b where
    "init_sensor_model config ri s = Returned (ESP_OK, s')
         \<and> calloc_script s' = drop (sensor_alloc_count config) (calloc_script s)
         \<and> length (heap_blocks s') = length (heap_blocks s) + sensor_alloc_count config
         \<and> set (heap_blocks s) \<subseteq> set (heap_blocks s')
         \<and> runtime_state (model_registry s' ! ri) = Some state
         \<and> objs s' state = Some (SENSOR_STATE st)
         \<and> msg (setup_pub st) = Some (NET_BUF_SIMPLE 34)
         \<and> msg_block (setup_pub st) = Some b
         \<and> b \<in> set (heap_blocks s') \<and> b \<notin> set (heap_blocks s)
         \<and> msg (pub st) = (if enable_publication config then Some (NET_BUF_SIMPLE 34) else None)
         \<and> (msg_block (pub st) = None \<longleftrightarrow> \<not> enable_publication config)"
    by (elim exE conjE) simp
  then show "\<exists>s' state st b. init_sensor_model config ri s = Returned (ESP_OK, s')
         \<and> calloc_script s' = drop (sensor_alloc_count config) (calloc_script s)
         \<and> length (heap_blocks s') = length (heap_blocks s) + sensor_alloc_count config
         \<and> set (heap_blocks s) \<subseteq> set (heap_blocks s')
         \<and> runtime_state (model_registry s' ! ri) = Some state
         \<and> objs s' state = Some (SENSOR_STATE st)
         \<and> msg (setup_pub st) = Some (NET_BUF_SIMPLE 34)
         \<and> msg_block (setup_pub st) = Some b
         \<and> b \<in> set (heap_blocks s') \<and> b \<notin> set (heap_blocks s)
         \<and> msg (pub st) = (if enable_publication config then Some (NET_BUF_SIMPLE 34) else None)
         \<and> (msg_block (pub st) = None \<longleftrightarrow> \<not> enable_publication config)"
    by (intro exI)
next
  fix e
  assume b: "build_models user_models mcount s0 = Returned (ESP_OK, t)
       \<and> registered_model_count s0 = 0 \<and> length (model_registry s0) = MAX_MODELS"
    and e: "e \<in> set (registered t)" and ty: "reg_type e = MESH_MODEL_TYPE_SENSOR"
  from b build_models_ok [of user_models mcount s0 t] have "registry_ok t" by simp
  from registered_sensor_buffers [OF this e ty]
  show "\<exists>p st. runtime_state e = Some p \<and> objs t p = Some (SENSOR_STATE st)
            \<and> msg (setup_pub st) = Some (NET_BUF_SIMPLE 34) \<and> msg_block (setup_pub st) \<noteq> None
            \<and> msg (pub st) = (if enable_publication (user_config e)
                               then Some (NET_BUF_SIMPLE 34) else None)
            \<and> (msg_block (pub st) = None \<longleftrightarrow> \<not> enable_publication (user_config e))" .
qed

text \<open>
  The sensor model of \<open>app_main\<close> with publication switched off: ten allocations,
  the tenth the setup publication buffer, no status publication buffer; and the
  same in a build.
\<close>

lemma silent_sensor_init:
  "\<exists>s' st. init_sensor_model silent_sensor_model 0 (boot_state [] []) = Returned (ESP_OK, s')
     \<and> heap_blocks s' = [1, 2, 3, 4, 5, 6, 7, 8, 9, 10]
     \<and> runtime_state (model_registry s' ! 0) = Some 1
     \<and> objs s' 1 = Some (SENSOR_STATE st)
     \<and> msg_block (setup_pub st) = Some 10 \<and> msg_block (pub st) = None"
  by (simp add: silent_sensor_model_def build_defs app_sensors_def sensor_buf_loop_numeral
      zero_pub_def)

lemma silent_sensor_build:
  "\<exists>t e st. build_models [silent_sensor_model] 1 (boot_state [] []) = Returned (ESP_OK, t)
     \<and> registered t = [e] \<and> reg_type e = MESH_MODEL_TYPE_SENSOR
     \<and> \<not> enable_publication (user_config e)
     \<and> runtime_state e = Some 2 \<and> objs t 2 = Some (SENSOR_STATE st)
     \<and> heap_blocks t = [1, 2, 3, 4, 5, 6, 7, 8, 9, 10, 11]
     \<and> msg_block (setup_pub st) = Some 11 \<and> msg_block (pub st) = None"
  by (simp add: silent_sensor_model_def build_defs app_sensors_def sensor_buf_loop_numeral
      zero_pub_def registered_def replicate_numeral_unfold)

lemma silent_sensor_facts:
  "sensor_alloc_count silent_sensor_model = 10
   \<and> unat (sensor_sensor_count silent_sensor_model) \<le> length (sensor_sensors silent_sensor_model)
   \<and> \<not> enable_publication silent_sensor_model"
  by (simp add: silent_sensor_model_def sensor_alloc_count_def MESH_MODEL_SENSOR_def
      app_sensors_def)

theorem sensor_setup_buffer_unconditional_witness:
  "(\<exists>s' st. init_sensor_model silent_sensor_model 0 (boot_state [] []) = Returned (ESP_OK, s')
      \<and> sensor_alloc_count silent_sensor_model = 10
      \<and> heap_blocks s' = [1, 2, 3, 4, 5, 6, 7, 8, 9, 10]
      \<and> length (heap_blocks s') = length (heap_blocks (boot_state [] [])) + 10
      \<and> objs s' 1 = Some (SENSOR_STATE st)
      \<and> msg (setup_pub st) = Some (NET_BUF_SIMPLE 34) \<and> msg_block (setup_pub st) = Some 10
      \<and> msg (pub st) = None \<and> msg_block (pub st) = None)
   \<and> (\<exists>t e st. build_models [silent_sensor_model] 1 (boot_state [] []) = Returned (ESP_OK, t)
      \<and> registered t = [e] \<and> reg_type e = MESH_MODEL_TYPE_SENSOR
      \<and> \<not> enable_publication (user_config e)
      \<and> runtime_state e = Some 2 \<and> objs t 2 = Some (SENSOR_STATE st)
      \<and> msg (setup_pub st) = Some (NET_BUF_SIMPLE 34) \<and> msg_block (setup_pub st) = Some 11
      \<and> msg (pub st) = None \<and> msg_block (pub st) = None)"
proof -
  from silent_sensor_facts have n: "sensor_alloc_count silent_sensor_model = 10"
    and inb: "unat (sensor_sensor_count silent_sensor_model)
                \<le> length (sensor_sensors silent_sensor_model)"
    and off: "\<not> enable_publication silent_sensor_model" by simp_all
  from silent_sensor_init obtain s' st where
    i: "init_sensor_model silent_sensor_model 0 (boot_state [] []) = Returned (ESP_OK, s')"
    and h: "heap_blocks s' = [1, 2, 3, 4, 5, 6, 7, 8, 9, 10]"
    and r: "runtime_state (model_registry s' ! 0) = Some 1"
    and o: "objs s' 1 = Some (SENSOR_STATE st)"
    and sb: "msg_block (setup_pub st) = Some 10" and pb: "msg_block (pub st) = None"
    by (elim exE conjE)
  from silent_sensor_build obtain t e st2 where
    b: "build_models [silent_sensor_model] 1 (boot_state [] []) = Returned (ESP_OK, t)"
    and rg: "registered t = [e]" and ty: "reg_type e = MESH_MODEL_TYPE_SENSOR"
    and en: "\<not> enable_publication (user_config e)"
    and r2: "runtime_state e = Some 2" and o2: "objs t 2 = Some (SENSOR_STATE st2)"
    and sb2: "msg_block (setup_pub st2) = Some 11" and pb2: "msg_block (pub st2) = None"
    by (elim exE conjE)
  note inst = sensor_setup_buffer_unconditional [of silent_sensor_model "boot_state [] []" 0
      "[silent_sensor_model]" 1 "boot_state [] []" t]
  have hyp1: "list_all id (take (sensor_alloc_count silent_sensor_model)
                 (calloc_script (boot_state [] [])))
    \<and> unat (sensor_sensor_count silent_sensor_model) \<le> length (sensor_sensors silent_sensor_model)
    \<and> 0 < length (model_registry (boot_state [] []))"
    using inb by (simp add: boot_state_def MAX_MODELS_def)
  from inst have "list_all id (take (sensor_alloc_count silent_sensor_model)
                 (calloc_script (boot_state [] [])))
    \<and> unat (sensor_sensor_count silent_sensor_model) \<le> length (sensor_sensors silent_sensor_model)
    \<and> 0 < length (model_registry (boot_state [] [])) \<longrightarrow>
      (\<exists>s' state st b. init_sensor_model silent_sensor_model 0 (boot_state [] [])
            = Returned (ESP_OK, s')
         \<and> calloc_script s' = drop (sensor_alloc_count silent_sensor_model)
                                 (calloc_script (boot_state [] []))
         \<and> length (heap_blocks s') = length (heap_blocks (boot_state [] []))
              + sensor_alloc_count silent_sensor_model
         \<and> set (heap_blocks (boot_state [] [])) \<subseteq> set (heap_blocks s')
         \<and> runtime_state (model_registry s' ! 0) = Some state
         \<and> objs s' state = Some (SENSOR_STATE st)
         \<and> msg (setup_pub st) = Some (NET_BUF_SIMPLE 34)
         \<and> msg_block (setup_pub st) = Some b
         \<and> b \<in> set (heap_blocks s') \<and> b \<notin> set (heap_blocks (boot_state [] []))
         \<and> msg (pub st) = (if enable_publication silent_sensor_model
                            then Some (NET_BUF_SIMPLE 34) else None)
         \<and> (msg_block (pub st) = None \<longleftrightarrow> \<not> enable_publication silent_sensor_model))"
    by (rule conjunct1)
  from this hyp1 have "\<exists>s' state st b. init_sensor_model silent_sensor_model 0 (boot_state [] [])
            = Returned (ESP_OK, s')
         \<and> calloc_script s' = drop (sensor_alloc_count silent_sensor_model)
                                 (calloc_script (boot_state [] []))
         \<and> length (heap_blocks s') = length (heap_blocks (boot_state [] []))
              + sensor_alloc_count silent_sensor_model
         \<and> set (heap_blocks (boot_state [] [])) \<subseteq> set (heap_blocks s')
         \<and> runtime_state (model_registry s' ! 0) = Some state
         \<and> objs s' state = Some (SENSOR_STATE st)
         \<and> msg (setup_pub st) = Some (NET_BUF_SIMPLE 34)
         \<and> msg_block (setup_pub st) = Some b
         \<and> b \<in> set (heap_blocks s') \<and> b \<notin> set (heap_blocks (boot_state [] []))
         \<and> msg (pub st) = (if enable_publication silent_sensor_model
                            then Some (NET_BUF_SIMPLE 34) else None)
         \<and> (msg_block (pub st) = None \<longleftrightarrow> \<not> enable_publication silent_sensor_model)"
    by (rule mp)
  then obtain s'' state st'' where
    i'': "init_sensor_model silent_sensor_model 0 (boot_state [] []) = Returned (ESP_OK, s'')"
    and l'': "length (heap_blocks s'') = length (heap_blocks (boot_state [] []))
                + sensor_alloc_count silent_sensor_model"
    and r'': "runtime_state (model_registry s'' ! 0) = Some state"
    and o'': "objs s'' state = Some (SENSOR_STATE st'')"
    and m'': "msg (setup_pub st'') = Some (NET_BUF_SIMPLE 34)"
    and p'': "msg (pub st'') = (if enable_publication silent_sensor_model
                                then Some (NET_BUF_SIMPLE 34) else None)"
    by (elim exE conjE)
  from i i'' have same: "s'' = s'" by simp
  with r r'' have "state = 1" by simp
  with o o'' same have "st'' = st" by simp
  with m'' p'' off have ms: "msg (setup_pub st) = Some (NET_BUF_SIMPLE 34)"
    and mp: "msg (pub st) = None" by simp_all
  from l'' same n have len: "length (heap_blocks s') = length (heap_blocks (boot_state [] [])) + 10"
    by simp
  have hyp2: "build_models [silent_sensor_model] 1 (boot_state [] []) = Returned (ESP_OK, t)
       \<and> registered_model_count (boot_state [] []) = 0
       \<and> length (model_registry (boot_state [] [])) = MAX_MODELS"
    using b by (simp add: boot_state_def)
  have mem: "e \<in> set (registered t)" by (simp add: rg)
  from inst have "build_models [silent_sensor_model] 1 (boot_state [] []) = Returned (ESP_OK, t)
       \<and> registered_model_count (boot_state [] []) = 0
       \<and> length (model_registry (boot_state [] [])) = MAX_MODELS \<longrightarrow>
      (\<forall>e \<in> set (registered t). reg_type e = MESH_MODEL_TYPE_SENSOR \<longrightarrow>
         (\<exists>p st. runtime_state e = Some p \<and> objs t p = Some (SENSOR_STATE st)
            \<and> msg (setup_pub st) = Some (NET_BUF_SIMPLE 34) \<and> msg_block (setup_pub st) \<noteq> None
            \<and> msg (pub st) = (if enable_publication (user_config e)
                               then Some (NET_BUF_SIMPLE 34) else None)
            \<and> (msg_block (pub st) = None \<longleftrightarrow> \<not> enable_publication (user_config e))))"
    by (rule conjunct2)
  from this hyp2 have "\<forall>e \<in> set (registered t). reg_type e = MESH_MODEL_TYPE_SENSOR \<longrightarrow>
         (\<exists>p st. runtime_state e = Some p \<and> objs t p = Some (SENSOR_STATE st)
            \<and> msg (setup_pub st) = Some (NET_BUF_SIMPLE 34) \<and> msg_block (setup_pub st) \<noteq> None
            \<and> msg (pub st) = (if enable_publication (user_config e)
                               then Some (NET_BUF_SIMPLE 34) else None)
            \<and> (msg_block (pub st) = None \<longleftrightarrow> \<not> enable_publication (user_config e)))"
    by (elim impE) assumption+
  from this mem have "reg_type e = MESH_MODEL_TYPE_SENSOR \<longrightarrow>
         (\<exists>p st. runtime_state e = Some p \<and> objs t p = Some (SENSOR_STATE st)
            \<and> msg (setup_pub st) = Some (NET_BUF_SIMPLE 34) \<and> msg_block (setup_pub st) \<noteq> None
            \<and> msg (pub st) = (if enable_publication (user_config e)
                               then Some (NET_BUF_SIMPLE 34) else None)
            \<and> (msg_block (pub st) = None \<longleftrightarrow> \<not> enable_publication (user_config e)))"
    by (rule bspec)
  from this ty have "\<exists>p st. runtime_state e = Some p \<and> objs t p = Some (SENSOR_STATE st)
            \<and> msg (setup_pub st) = Some (NET_BUF_SIMPLE 34) \<and> msg_block (setup_pub st) \<noteq> None
            \<and> msg (pub st) = (if enable_publication (user_config e)
                               then Some (NET_BUF_SIMPLE 34) else None)
            \<and> (msg_block (pub st) = None \<longleftrightarrow> \<not> enable_publication (user_config e))"
    by (elim impE) assumption+
  then obtain p st3 where
    "runtime_state e = Some p" "objs t p = Some (SENSOR_STATE st3)"
    "msg (setup_pub st3) = Some (NET_BUF_SIMPLE 34)"
    "msg (pub st3) = (if enable_publication (user_config e) then Some (NET_BUF_SIMPLE 34) else None)"
    by (elim exE conjE)
  with r2 o2 en have ms2: "msg (setup_pub st2) = Some (NET_BUF_SIMPLE 34)"
    and mp2: "msg (pub st2) = None" by simp_all
  have 1: "\<exists>s' st. init_sensor_model silent_sensor_model 0 (boot_state [] []) = Returned (ESP_OK, s')
      \<and> sensor_alloc_count silent_sensor_model = 10
      \<and> heap_blocks s' = [1, 2, 3, 4, 5, 6, 7, 8, 9, 10]
      \<and> length (heap_blocks s') = length (heap_blocks (boot_state [] [])) + 10
      \<and> objs s' 1 = Some (SENSOR_STATE st)
      \<and> msg (setup_pub st) = Some (NET_BUF_SIMPLE 34) \<and> msg_block (setup_pub st) = Some 10
      \<and> msg (pub st) = None \<and> msg_block (pub st) = None"
    using i n h len o ms sb mp pb by (intro exI [of _ s'] exI [of _ st] conjI)
  have 2: "\<exists>t e st. build_models [silent_sensor_model] 1 (boot_state [] []) = Returned (ESP_OK, t)
      \<and> registered t = [e] \<and> reg_type e = MESH_MODEL_TYPE_SENSOR
      \<and> \<not> enable_publication (user_config e)
      \<and> runtime_state e = Some 2 \<and> objs t 2 = Some (SENSOR_STATE st)
      \<and> msg (setup_pub st) = Some (NET_BUF_SIMPLE 34) \<and> msg_block (setup_pub st) = Some 11
      \<and> msg (pub st) = None \<and> msg_block (pub st) = None"
    using b rg ty en r2 o2 ms2 sb2 mp2 pb2 by (intro exI [of _ t] exI [of _ e] exI [of _ st2] conjI)
  from 1 2 show ?thesis by (rule conjI)
qed

section \<open>Properties of the model API\<close>

lemma find_objs_trace [simp]:
  "find_onoff_model i (s\<lparr>objs := ob, trace := tr\<rparr>) = find_onoff_model i s"
  "find_level_model i (s\<lparr>objs := ob, trace := tr\<rparr>) = find_level_model i s"
  by (simp_all add: find_onoff_model_def find_level_model_def registered_def)

lemmas api_defs = find_onoff_model_def find_level_model_def find_sensor_model_def
  find_battery_model_def find_vendor_model_def registered_def
  esp_ble_mesh_server_model_send_msg_def pub_ctx_to_def model_at_def pub_at_def set_pub_at_def
  pub_of_def with_pub_def net_buf_simple_reset_def net_buf_simple_add_mem_def
  net_buf_simple_add_u8_def net_buf_simple_add_le16_def net_buf_simple_add_le32_def
  NET_BUF_SIMPLE_def zero_pub_def ESP_BLE_MESH_ADDR_UNASSIGNED_def
  ESP_BLE_MESH_MODEL_GEN_ONOFF_SRV_def ESP_BLE_MESH_MODEL_GEN_LEVEL_SRV_def
  ESP_BLE_MESH_MODEL_SENSOR_SRV_def ESP_BLE_MESH_MODEL_SENSOR_SETUP_SRV_def
  ESP_BLE_MESH_MODEL_GEN_BATTERY_SRV_def ESP_BLE_MESH_VENDOR_MODEL_def
  ESP_BLE_MESH_MODEL_CFG_SRV_def zero_model_def

subsection \<open>The battery status\<close>

lemma battery_status_encode_data:
  assumes "battery_status_encode (net_buf_simple_reset m0) lvl = Returned m1"
  shows "buf_data m1 = [lvl, 0xFF, 0xFF, 0xFF, 0xFF, 0xFF, 0xFF, 0x00]"
  using assms
  by (auto simp: battery_status_encode_def obind_def net_buf_simple_add_u8_def
      net_buf_simple_add_mem_def net_buf_simple_reset_def split: if_splits)

lemma battery_status_encode_returns:
  assumes "8 \<le> buf_size m0"
  shows "\<exists>m1. battery_status_encode (net_buf_simple_reset m0) lvl = Returned m1"
  using assms
  by (simp add: battery_status_encode_def obind_def net_buf_simple_add_u8_def
      net_buf_simple_add_mem_def net_buf_simple_reset_def)

lemma send_msg_trace:
  "esp_ble_mesh_server_model_send_msg m ctx opc len data s = (r, s') \<Longrightarrow>
     trace s' = trace s @ [SEND_MSG m ctx opc len data]"
  by (auto simp: esp_ble_mesh_server_model_send_msg_def Let_def split: list.splits)

lemma trace_set_pub_at [simp]: "trace (set_pub_at pr pb s) = trace s"
  by (simp add: set_pub_at_def split: pub_ref.splits)

lemma publish_battery_sends:
  assumes "mesh_model_publish_battery model_index s = Returned (ret, s')"
    and "trace s' \<noteq> trace s"
  shows "\<exists>m ctx lvl. trace s' = trace s @ [SEND_MSG m ctx ESP_BLE_MESH_MODEL_OP_GEN_BATTERY_STATUS 8
            ([lvl] @ [0xFF, 0xFF, 0xFF] @ [0xFF, 0xFF, 0xFF] @ [0x00])]"
proof -
  from assms obtain p st r lvl st1 m pr pb m0 m1 where
    enc: "battery_status_encode (net_buf_simple_reset m0) lvl = Returned m1"
    and snd: "esp_ble_mesh_server_model_send_msg (Some r) (pub_ctx_to (publish_addr pb))
                ESP_BLE_MESH_MODEL_OP_GEN_BATTERY_STATUS (length (buf_data m1)) (buf_data m1)
                (set_pub_at pr (pb\<lparr>msg := Some m1\<rparr>)
                   (s\<lparr>objs := (objs s)(p \<mapsto> BATTERY_STATE st1)\<rparr>)) = (ret, s')"
    unfolding mesh_model_publish_battery_def obind_def Let_def
    by (auto split: option.splits model_state.splits outcome.splits)
  from battery_status_encode_data [OF enc]
  have d: "buf_data m1 = [lvl, 0xFF, 0xFF, 0xFF, 0xFF, 0xFF, 0xFF, 0x00]" .
  from send_msg_trace [OF snd] show ?thesis by (simp add: d)
qed

lemma send_msg_result:
  "\<exists>s'. esp_ble_mesh_server_model_send_msg m ctx opc len data s = (send_result s, s')
      \<and> trace s' = trace s @ [SEND_MSG m ctx opc len data]"
  by (auto simp: esp_ble_mesh_server_model_send_msg_def send_result_def Let_def split: list.splits)

lemma send_result_frame [simp]:
  "send_result (s\<lparr>objs := ob\<rparr>) = send_result s"
  "send_result (set_pub_at pr pb s) = send_result s"
  by (simp_all add: send_result_def set_pub_at_def split: pub_ref.splits)

lemma model_at_objs [simp]: "model_at r (s\<lparr>objs := ob\<rparr>) = model_at r s"
  by (simp add: model_at_def split: model_ref.splits)

lemma publish_battery_forward:
  assumes f: "find_battery_model i s = Some p"
    and o: "objs s p = Some (BATTERY_STATE st)"
    and e: "esp_model st = Some r"
    and ma: "model_at r s = Returned m"
    and mp: "model_pub m = Some (PUB_OF p)"
    and mg: "msg (pub st) = Some b0"
    and sz: "8 \<le> buf_size b0"
  shows "\<exists>s'. mesh_model_publish_battery i s = Returned (send_result s, s')
     \<and> trace s' = trace s @ [SEND_MSG (Some r) (pub_ctx_to (publish_addr (pub st)))
          ESP_BLE_MESH_MODEL_OP_GEN_BATTERY_STATUS 8
          ([battery_reading st] @ [0xFF, 0xFF, 0xFF] @ [0xFF, 0xFF, 0xFF] @ [0x00])]"
proof -
  define lvl where "lvl = battery_reading st"
  define st1 where "st1 = (case battery_cb st of
                                  None \<Rightarrow> st
                                | Some f \<Rightarrow>
                                    if fst (f (battery_level st) (battery_ctx st)) = ESP_OK
                                    then st\<lparr>battery_level := lvl\<rparr> else st)"
  define s1 where "s1 = s\<lparr>objs := (objs s)(p \<mapsto> BATTERY_STATE st1)\<rparr>"
  have p1: "pub st1 = pub st"
    by (simp add: st1_def split: option.splits)
  from battery_status_encode_returns [OF sz, of lvl] obtain m1 where
    en: "battery_status_encode (net_buf_simple_reset b0) lvl = Returned m1" by blast
  from battery_status_encode_data [OF en]
  have d: "buf_data m1 = [lvl, 0xFF, 0xFF, 0xFF, 0xFF, 0xFF, 0xFF, 0x00]" .
  have pa: "pub_at (PUB_OF p) s1 = Returned (pub st)"
    by (simp add: pub_at_def s1_def pub_of_def p1)
  have "mesh_model_publish_battery i s
      = Returned (esp_ble_mesh_server_model_send_msg (Some r) (pub_ctx_to (publish_addr (pub st)))
                    ESP_BLE_MESH_MODEL_OP_GEN_BATTERY_STATUS (length (buf_data m1)) (buf_data m1)
                    (set_pub_at (PUB_OF p) ((pub st)\<lparr>msg := Some m1\<rparr>) s1))"
    unfolding mesh_model_publish_battery_def
    using f o e ma mp mg en pa
    by (simp add: Let_def obind_def lvl_def [symmetric] battery_reading_def [symmetric]
        st1_def [symmetric] s1_def [symmetric])
  moreover from send_msg_result [of "Some r" "pub_ctx_to (publish_addr (pub st))"
      ESP_BLE_MESH_MODEL_OP_GEN_BATTERY_STATUS "length (buf_data m1)" "buf_data m1"
      "set_pub_at (PUB_OF p) ((pub st)\<lparr>msg := Some m1\<rparr>) s1"]
  obtain s' where "esp_ble_mesh_server_model_send_msg (Some r) (pub_ctx_to (publish_addr (pub st)))
                    ESP_BLE_MESH_MODEL_OP_GEN_BATTERY_STATUS (length (buf_data m1)) (buf_data m1)
                    (set_pub_at (PUB_OF p) ((pub st)\<lparr>msg := Some m1\<rparr>) s1) = (send_result s, s')"
    and "trace s' = trace s @ [SEND_MSG (Some r) (pub_ctx_to (publish_addr (pub st)))
          ESP_BLE_MESH_MODEL_OP_GEN_BATTERY_STATUS (length (buf_data m1)) (buf_data m1)]"
    by (auto simp: s1_def)
  ultimately show ?thesis by (simp add: d lvl_def)
qed

text \<open>
  C8. The eight bytes of a battery status. Whatever the level, and given the eight
  bytes of room the publication buffer has, \<open>battery_status_encode\<close> returns the
  level, 0xFF three times (time to discharge), 0xFF three times (time to charge)
  and 0x00 (flags). \<open>mesh_model_publish_battery\<close> on a registered battery model that
  has its model record and its publication buffer hands the stack exactly one
  message: as that model, to the publication address, with the battery status
  opcode, of length 8, the first byte the level read (the stored level, or the one
  the callback gives), then 0xFF six times and 0x00. And whenever the function hands
  a message to the stack at all, it is one message of that shape.
\<close>

theorem battery_status_payload:
  "(8 \<le> buf_size m0 \<longrightarrow>
      (\<exists>m1. battery_status_encode (net_buf_simple_reset m0) lvl = Returned m1
         \<and> buf_data m1 = [lvl] @ [0xFF, 0xFF, 0xFF] @ [0xFF, 0xFF, 0xFF] @ [0x00]
         \<and> length (buf_data m1) = 8))
   \<and> (find_battery_model i s = Some p \<and> objs s p = Some (BATTERY_STATE st)
       \<and> esp_model st = Some r \<and> model_at r s = Returned m \<and> model_pub m = Some (PUB_OF p)
       \<and> msg (pub st) = Some b0 \<and> 8 \<le> buf_size b0 \<longrightarrow>
      (\<exists>s'. mesh_model_publish_battery i s = Returned (send_result s, s')
         \<and> trace s' = trace s @ [SEND_MSG (Some r) (pub_ctx_to (publish_addr (pub st)))
              ESP_BLE_MESH_MODEL_OP_GEN_BATTERY_STATUS 8
              ([battery_reading st] @ [0xFF, 0xFF, 0xFF] @ [0xFF, 0xFF, 0xFF] @ [0x00])]))
   \<and> (mesh_model_publish_battery i s = Returned (ret, t) \<and> trace t \<noteq> trace s \<longrightarrow>
      (\<exists>mr ctx b. trace t = trace s @ [SEND_MSG mr ctx ESP_BLE_MESH_MODEL_OP_GEN_BATTERY_STATUS 8
            ([b] @ [0xFF, 0xFF, 0xFF] @ [0xFF, 0xFF, 0xFF] @ [0x00])]))"
proof (intro conjI impI)
  assume "8 \<le> buf_size m0"
  then obtain m1 where e: "battery_status_encode (net_buf_simple_reset m0) lvl = Returned m1"
    using battery_status_encode_returns [of m0 lvl] by blast
  from battery_status_encode_data [OF e] e
  show "\<exists>m1. battery_status_encode (net_buf_simple_reset m0) lvl = Returned m1
         \<and> buf_data m1 = [lvl] @ [0xFF, 0xFF, 0xFF] @ [0xFF, 0xFF, 0xFF] @ [0x00]
         \<and> length (buf_data m1) = 8"
    by simp
next
  assume "find_battery_model i s = Some p \<and> objs s p = Some (BATTERY_STATE st)
       \<and> esp_model st = Some r \<and> model_at r s = Returned m \<and> model_pub m = Some (PUB_OF p)
       \<and> msg (pub st) = Some b0 \<and> 8 \<le> buf_size b0"
  then show "\<exists>s'. mesh_model_publish_battery i s = Returned (send_result s, s')
         \<and> trace s' = trace s @ [SEND_MSG (Some r) (pub_ctx_to (publish_addr (pub st)))
              ESP_BLE_MESH_MODEL_OP_GEN_BATTERY_STATUS 8
              ([battery_reading st] @ [0xFF, 0xFF, 0xFF] @ [0xFF, 0xFF, 0xFF] @ [0x00])]"
    using publish_battery_forward [of i s p st r m b0] by blast
next
  assume "mesh_model_publish_battery i s = Returned (ret, t) \<and> trace t \<noteq> trace s"
  then show "\<exists>mr ctx b. trace t = trace s @ [SEND_MSG mr ctx ESP_BLE_MESH_MODEL_OP_GEN_BATTERY_STATUS 8
            ([b] @ [0xFF, 0xFF, 0xFF] @ [0xFF, 0xFF, 0xFF] @ [0x00])]"
    using publish_battery_sends [of i s ret t] by blast
qed

text \<open>
  On a node built with one battery model, its publication address bound to 0xC000
  and its level set to 87: the message is 57 FF FF FF FF FF FF 00.
\<close>

lemma battery_node_87:
  "\<exists>s0 s1 st m b0.
     build_models [MESH_MODEL_BATTERY None 60000 None] 1 (boot_state [] []) = Returned (ESP_OK, s0)
     \<and> mesh_model_set_battery 0 87 (bind_publish_addr 2 0xC000 s0) = Returned (ESP_OK, s1)
     \<and> trace s1 = [] \<and> send_result s1 = ESP_OK
     \<and> find_battery_model 0 s1 = Some 2 \<and> objs s1 2 = Some (BATTERY_STATE st)
     \<and> esp_model st = Some (SIG_MODEL 1) \<and> model_at (SIG_MODEL 1) s1 = Returned m
     \<and> model_pub m = Some (PUB_OF 2) \<and> msg (pub st) = Some b0 \<and> buf_size b0 = 10
     \<and> publish_addr (pub st) = 0xC000 \<and> battery_reading st = 87"
  by (simp add: build_defs api_defs replicate_numeral_unfold bind_publish_addr_def
      mesh_model_set_battery_def send_result_def battery_reading_def)

theorem battery_status_payload_witness:
  "(\<exists>m1. 8 \<le> buf_size (NET_BUF_SIMPLE (2 + 8))
      \<and> battery_status_encode (net_buf_simple_reset (NET_BUF_SIMPLE (2 + 8))) 87 = Returned m1
      \<and> buf_data m1 = [87, 0xFF, 0xFF, 0xFF, 0xFF, 0xFF, 0xFF, 0x00])
   \<and> (\<exists>s0 s1 s'.
        build_models [MESH_MODEL_BATTERY None 60000 None] 1 (boot_state [] []) = Returned (ESP_OK, s0)
      \<and> mesh_model_set_battery 0 87 (bind_publish_addr 2 0xC000 s0) = Returned (ESP_OK, s1)
      \<and> mesh_model_publish_battery 0 s1 = Returned (ESP_OK, s')
      \<and> trace s' \<noteq> trace s1
      \<and> trace s' = [SEND_MSG (Some (SIG_MODEL 1)) (pub_ctx_to 0xC000)
                      ESP_BLE_MESH_MODEL_OP_GEN_BATTERY_STATUS 8
                      [87, 0xFF, 0xFF, 0xFF, 0xFF, 0xFF, 0xFF, 0x00]])"
proof -
  from battery_node_87 obtain s0 s1 st m b0 where
    b: "build_models [MESH_MODEL_BATTERY None 60000 None] 1 (boot_state [] []) = Returned (ESP_OK, s0)"
    and sb: "mesh_model_set_battery 0 87 (bind_publish_addr 2 0xC000 s0) = Returned (ESP_OK, s1)"
    and t1: "trace s1 = []" and sr: "send_result s1 = ESP_OK"
    and h: "find_battery_model 0 s1 = Some 2" "objs s1 2 = Some (BATTERY_STATE st)"
      "esp_model st = Some (SIG_MODEL 1)" "model_at (SIG_MODEL 1) s1 = Returned m"
      "model_pub m = Some (PUB_OF 2)" "msg (pub st) = Some b0"
    and bs: "buf_size b0 = 10"
    and pa: "publish_addr (pub st) = 0xC000" and br: "battery_reading st = 87"
    by blast
  have sz: "8 \<le> buf_size (NET_BUF_SIMPLE (2 + 8))" by (simp add: NET_BUF_SIMPLE_def)
  have sz0: "8 \<le> buf_size b0" by (simp add: bs)
  note inst = battery_status_payload [of "NET_BUF_SIMPLE (2 + 8)" 87 0 s1 2 st "SIG_MODEL 1" m b0
      ESP_OK s1]
  from inst sz have "\<exists>m1. battery_status_encode (net_buf_simple_reset (NET_BUF_SIMPLE (2 + 8))) 87
        = Returned m1
      \<and> buf_data m1 = [87] @ [0xFF, 0xFF, 0xFF] @ [0xFF, 0xFF, 0xFF] @ [0x00]"
    by blast
  then have 1: "\<exists>m1. 8 \<le> buf_size (NET_BUF_SIMPLE (2 + 8))
      \<and> battery_status_encode (net_buf_simple_reset (NET_BUF_SIMPLE (2 + 8))) 87 = Returned m1
      \<and> buf_data m1 = [87, 0xFF, 0xFF, 0xFF, 0xFF, 0xFF, 0xFF, 0x00]"
    using sz by simp
  from inst h sz0 obtain s' where
    "mesh_model_publish_battery 0 s1 = Returned (send_result s1, s')"
    "trace s' = trace s1 @ [SEND_MSG (Some (SIG_MODEL 1)) (pub_ctx_to (publish_addr (pub st)))
              ESP_BLE_MESH_MODEL_OP_GEN_BATTERY_STATUS 8
              ([battery_reading st] @ [0xFF, 0xFF, 0xFF] @ [0xFF, 0xFF, 0xFF] @ [0x00])]"
    by blast
  then have "mesh_model_publish_battery 0 s1 = Returned (ESP_OK, s')"
    and "trace s' \<noteq> trace s1"
    and "trace s' = [SEND_MSG (Some (SIG_MODEL 1)) (pub_ctx_to 0xC000)
                      ESP_BLE_MESH_MODEL_OP_GEN_BATTERY_STATUS 8
                      [87, 0xFF, 0xFF, 0xFF, 0xFF, 0xFF, 0xFF, 0x00]]"
    by (simp_all add: sr t1 pa br)
  with b sb have 2: "\<exists>s0 s1 s'.
        build_models [MESH_MODEL_BATTERY None 60000 None] 1 (boot_state [] []) = Returned (ESP_OK, s0)
      \<and> mesh_model_set_battery 0 87 (bind_publish_addr 2 0xC000 s0) = Returned (ESP_OK, s1)
      \<and> mesh_model_publish_battery 0 s1 = Returned (ESP_OK, s')
      \<and> trace s' \<noteq> trace s1
      \<and> trace s' = [SEND_MSG (Some (SIG_MODEL 1)) (pub_ctx_to 0xC000)
                      ESP_BLE_MESH_MODEL_OP_GEN_BATTERY_STATUS 8
                      [87, 0xFF, 0xFF, 0xFF, 0xFF, 0xFF, 0xFF, 0x00]]"
    by blast
  from 1 2 show ?thesis by (rule conjI)
qed

subsection \<open>Publishing without a publication address\<close>

lemma sensor_index_loop_numeral:
  "sensor_index_loop snsrs t (numeral k) i =
     (if length snsrs \<le> i then Crashed OUT_OF_BOUNDS
      else if sensor_type (snsrs ! i) = t then Returned (Some i)
      else sensor_index_loop snsrs t (pred_numeral k) (Suc i))"
  by (simp add: numeral_eq_Suc)

text \<open>
  C4. On a node built with one model of each kind, no publication address bound:
  \<open>mesh_model_publish_onoff\<close>, \<open>mesh_model_publish_level\<close>,
  \<open>mesh_model_publish_sensor\<close> and \<open>mesh_model_publish_vendor\<close> return
  \<open>ESP_ERR_INVALID_STATE\<close> and send nothing, whereas
  \<open>mesh_model_publish_battery\<close>, which does not compare \<open>publish_addr\<close> with
  \<open>ESP_BLE_MESH_ADDR_UNASSIGNED\<close>, returns \<open>ESP_OK\<close> after handing the stack a
  battery status for the unassigned address 0x0000.
\<close>

theorem battery_publish_unbound:
  "\<exists>s. build_models five_models 5 (boot_state [] []) = Returned (ESP_OK, s)
     \<and> mesh_model_publish_onoff 0 1 s = Returned (ESP_ERR_INVALID_STATE, s)
     \<and> mesh_model_publish_level 0 1 s = Returned (ESP_ERR_INVALID_STATE, s)
     \<and> (\<exists>s'. mesh_model_publish_sensor 0 0x5001 s = Returned (ESP_ERR_INVALID_STATE, s')
              \<and> trace s' = trace s)
     \<and> mesh_model_publish_vendor 0 VENDOR_MODEL_OP_IMU_DATA [1, 2] 2 s
         = Returned (ESP_ERR_INVALID_STATE, s)
     \<and> (\<exists>s'. mesh_model_publish_battery 0 s = Returned (ESP_OK, s')
              \<and> trace s' = trace s @ [SEND_MSG (Some (SIG_MODEL 5))
                     (pub_ctx_to ESP_BLE_MESH_ADDR_UNASSIGNED)
                     ESP_BLE_MESH_MODEL_OP_GEN_BATTERY_STATUS 8
                     [100, 0xFF, 0xFF, 0xFF, 0xFF, 0xFF, 0xFF, 0x00]])"
  by (simp add: five_models_def build_defs api_defs replicate_numeral_unfold app_sensors_def
      sensor_buf_loop_numeral sensor_index_loop_numeral
      mesh_model_publish_battery_def battery_status_encode_def mesh_model_publish_onoff_def
      mesh_model_publish_level_def mesh_model_publish_sensor_def mesh_model_publish_vendor_def)

subsection \<open>Set, then publish\<close>

lemma publish_onoff_keeps:
  assumes "mesh_model_publish_onoff i v s = Returned (ret, s')"
    and "find_onoff_model i s = Some p"
    and "objs s p = Some (ONOFF_STATE st)"
  shows "(ret = ESP_ERR_INVALID_STATE \<and> publish_addr (pub st) = ESP_BLE_MESH_ADDR_UNASSIGNED \<and> s' = s)
     \<or> (\<exists>st'. objs s' = (objs s)(p \<mapsto> ONOFF_STATE st')
            \<and> onoff st' = v \<and> server_onoff st' = v \<and> server_target_onoff st' = v
            \<and> (ret = ESP_ERR_NO_MEM \<and> msg (pub st) = None \<and> trace s' = trace s
               \<or> (\<exists>m c n d. trace s' = trace s @ [SEND_MSG m c ESP_BLE_MESH_MODEL_OP_GEN_ONOFF_STATUS n d])))"
  using assms
  by (auto simp: mesh_model_publish_onoff_def obind_def Let_def
      esp_ble_mesh_server_model_send_msg_def
      split: if_splits option.splits outcome.splits list.splits)

lemma publish_level_keeps:
  assumes "mesh_model_publish_level i v s = Returned (ret, s')"
    and "find_level_model i s = Some p"
    and "objs s p = Some (LEVEL_STATE st)"
  shows "(ret = ESP_ERR_INVALID_STATE \<and> publish_addr (pub st) = ESP_BLE_MESH_ADDR_UNASSIGNED \<and> s' = s)
     \<or> (\<exists>st'. objs s' = (objs s)(p \<mapsto> LEVEL_STATE st')
            \<and> level st' = v \<and> server_level st' = v \<and> server_target_level st' = v
            \<and> (ret = ESP_ERR_NO_MEM \<and> msg (pub st) = None \<and> trace s' = trace s
               \<or> (\<exists>m c n d. trace s' = trace s @ [SEND_MSG m c ESP_BLE_MESH_MODEL_OP_GEN_LEVEL_STATUS n d])))"
  using assms
  by (auto simp: mesh_model_publish_level_def obind_def Let_def
      esp_ble_mesh_server_model_send_msg_def
      split: if_splits option.splits outcome.splits list.splits)

lemma set_onoff_keeps:
  assumes "mesh_model_set_onoff i v publish s = Returned (ret, s')"
    and "find_onoff_model i s = Some p"
  shows "\<exists>st st' sent. objs s p = Some (ONOFF_STATE st) \<and> objs s' p = Some (ONOFF_STATE st')
     \<and> onoff st' = v \<and> server_onoff st' = v \<and> server_target_onoff st' = v
     \<and> trace s' = trace s @ onoff_cb_events st v @ sent
     \<and> (ret = ESP_OK \<and> \<not> publish \<and> sent = []
        \<or> publish \<and> ret = ESP_ERR_INVALID_STATE
            \<and> publish_addr (pub st) = ESP_BLE_MESH_ADDR_UNASSIGNED \<and> sent = []
        \<or> publish \<and> ret = ESP_ERR_NO_MEM \<and> msg (pub st) = None \<and> sent = []
        \<or> publish \<and> (\<exists>m c n d. sent = [SEND_MSG m c ESP_BLE_MESH_MODEL_OP_GEN_ONOFF_STATUS n d]))"
proof -
  from assms obtain st where o: "objs s p = Some (ONOFF_STATE st)"
    by (auto simp: mesh_model_set_onoff_def split: option.splits model_state.splits)
  define st1 where "st1 = st\<lparr>onoff := v, server_onoff := v, server_target_onoff := v\<rparr>"
  define s1 where "s1 = s\<lparr>objs := (objs s)(p \<mapsto> ONOFF_STATE st1),
                          trace := trace s @ onoff_cb_events st v\<rparr>"
  have v1: "onoff st1 = v" "server_onoff st1 = v" "server_target_onoff st1 = v"
    and p1: "pub st1 = pub st"
    by (simp_all add: st1_def)
  have r: "(if publish then mesh_model_publish_onoff i v s1 else Returned (ESP_OK, s1))
           = Returned (ret, s')"
    using assms o
    by (cases publish)
      (simp_all add: mesh_model_set_onoff_def Let_def st1_def s1_def onoff_cb_events_def
        cong: option.case_cong)
  have f: "find_onoff_model i s1 = Some p" using assms(2) by (simp add: s1_def)
  have o1: "objs s1 p = Some (ONOFF_STATE st1)" by (simp add: s1_def)
  have t1: "trace s1 = trace s @ onoff_cb_events st v" by (simp add: s1_def)
  show ?thesis
  proof (cases publish)
    case False
    with r have "ret = ESP_OK" "s' = s1" by simp_all
    with o o1 v1 t1 False show ?thesis by simp
  next
    case True
    with r have pr: "mesh_model_publish_onoff i v s1 = Returned (ret, s')" by simp
    from publish_onoff_keeps [OF pr f o1]
    consider (unbound) "ret = ESP_ERR_INVALID_STATE"
        "publish_addr (pub st1) = ESP_BLE_MESH_ADDR_UNASSIGNED" "s' = s1"
      | (nomem) st' where "objs s' = (objs s1)(p \<mapsto> ONOFF_STATE st')"
          "onoff st' = v" "server_onoff st' = v" "server_target_onoff st' = v"
          "ret = ESP_ERR_NO_MEM" "msg (pub st1) = None" "trace s' = trace s1"
      | (sent) st' m c n d where "objs s' = (objs s1)(p \<mapsto> ONOFF_STATE st')"
          "onoff st' = v" "server_onoff st' = v" "server_target_onoff st' = v"
          "trace s' = trace s1 @ [SEND_MSG m c ESP_BLE_MESH_MODEL_OP_GEN_ONOFF_STATUS n d]"
      by blast
    then show ?thesis
    proof cases
      case unbound
      with o o1 v1 t1 p1 True show ?thesis by simp
    next
      case nomem
      with o t1 p1 True show ?thesis by simp
    next
      case sent
      with o t1 True show ?thesis by simp
    qed
  qed
qed

lemma set_level_keeps:
  assumes "mesh_model_set_level i v publish s = Returned (ret, s')"
    and "find_level_model i s = Some p"
  shows "\<exists>st st' sent. objs s p = Some (LEVEL_STATE st) \<and> objs s' p = Some (LEVEL_STATE st')
     \<and> level st' = v \<and> server_level st' = v \<and> server_target_level st' = v
     \<and> trace s' = trace s @ level_cb_events st v @ sent
     \<and> (ret = ESP_OK \<and> \<not> publish \<and> sent = []
        \<or> publish \<and> ret = ESP_ERR_INVALID_STATE
            \<and> publish_addr (pub st) = ESP_BLE_MESH_ADDR_UNASSIGNED \<and> sent = []
        \<or> publish \<and> ret = ESP_ERR_NO_MEM \<and> msg (pub st) = None \<and> sent = []
        \<or> publish \<and> (\<exists>m c n d. sent = [SEND_MSG m c ESP_BLE_MESH_MODEL_OP_GEN_LEVEL_STATUS n d]))"
proof -
  from assms obtain st where o: "objs s p = Some (LEVEL_STATE st)"
    by (auto simp: mesh_model_set_level_def split: option.splits model_state.splits)
  define st1 where "st1 = st\<lparr>level := v, server_level := v, server_target_level := v\<rparr>"
  define s1 where "s1 = s\<lparr>objs := (objs s)(p \<mapsto> LEVEL_STATE st1),
                          trace := trace s @ level_cb_events st v\<rparr>"
  have v1: "level st1 = v" "server_level st1 = v" "server_target_level st1 = v"
    and p1: "pub st1 = pub st"
    by (simp_all add: st1_def)
  have r: "(if publish then mesh_model_publish_level i v s1 else Returned (ESP_OK, s1))
           = Returned (ret, s')"
    using assms o
    by (cases publish)
      (simp_all add: mesh_model_set_level_def Let_def st1_def s1_def level_cb_events_def
        cong: option.case_cong)
  have f: "find_level_model i s1 = Some p" using assms(2) by (simp add: s1_def)
  have o1: "objs s1 p = Some (LEVEL_STATE st1)" by (simp add: s1_def)
  have t1: "trace s1 = trace s @ level_cb_events st v" by (simp add: s1_def)
  show ?thesis
  proof (cases publish)
    case False
    with r have "ret = ESP_OK" "s' = s1" by simp_all
    with o o1 v1 t1 False show ?thesis by simp
  next
    case True
    with r have pr: "mesh_model_publish_level i v s1 = Returned (ret, s')" by simp
    from publish_level_keeps [OF pr f o1]
    consider (unbound) "ret = ESP_ERR_INVALID_STATE"
        "publish_addr (pub st1) = ESP_BLE_MESH_ADDR_UNASSIGNED" "s' = s1"
      | (nomem) st' where "objs s' = (objs s1)(p \<mapsto> LEVEL_STATE st')"
          "level st' = v" "server_level st' = v" "server_target_level st' = v"
          "ret = ESP_ERR_NO_MEM" "msg (pub st1) = None" "trace s' = trace s1"
      | (sent) st' m c n d where "objs s' = (objs s1)(p \<mapsto> LEVEL_STATE st')"
          "level st' = v" "server_level st' = v" "server_target_level st' = v"
          "trace s' = trace s1 @ [SEND_MSG m c ESP_BLE_MESH_MODEL_OP_GEN_LEVEL_STATUS n d]"
      by blast
    then show ?thesis
    proof cases
      case unbound
      with o o1 v1 t1 p1 True show ?thesis by simp
    next
      case nomem
      with o t1 p1 True show ?thesis by simp
    next
      case sent
      with o t1 True show ?thesis by simp
    qed
  qed
qed

lemma set_onoff_unbound:
  assumes "find_onoff_model i s = Some p" and "objs s p = Some (ONOFF_STATE st)"
    and "publish_addr (pub st) = ESP_BLE_MESH_ADDR_UNASSIGNED"
  shows "mesh_model_set_onoff i v True s = Returned (ESP_ERR_INVALID_STATE,
           s\<lparr>objs := (objs s)(p \<mapsto> ONOFF_STATE
                 (st\<lparr>onoff := v, server_onoff := v, server_target_onoff := v\<rparr>)),
             trace := trace s @ onoff_cb_events st v\<rparr>)"
  using assms
  by (simp add: mesh_model_set_onoff_def mesh_model_publish_onoff_def Let_def onoff_cb_events_def
      cong: option.case_cong)

lemma set_level_unbound:
  assumes "find_level_model i s = Some p" and "objs s p = Some (LEVEL_STATE st)"
    and "publish_addr (pub st) = ESP_BLE_MESH_ADDR_UNASSIGNED"
  shows "mesh_model_set_level i v True s = Returned (ESP_ERR_INVALID_STATE,
           s\<lparr>objs := (objs s)(p \<mapsto> LEVEL_STATE
                 (st\<lparr>level := v, server_level := v, server_target_level := v\<rparr>)),
             trace := trace s @ level_cb_events st v\<rparr>)"
  using assms
  by (simp add: mesh_model_set_level_def mesh_model_publish_level_def Let_def level_cb_events_def
      cong: option.case_cong)

text \<open>
  C10. \<open>mesh_model_set_onoff\<close> on a registered OnOff model (\<open>find_onoff_model\<close>
  finds it at \<open>p\<close>), whatever it returns: the runtime state at \<open>p\<close> holds the new
  value in \<open>onoff\<close> and in the mirrored server state, and the trace is the old one,
  then the callback call if there is a callback, then what the publish step sent
  (nothing when publish was not asked for, nothing when the publish step fails with
  \<open>ESP_ERR_INVALID_STATE\<close> or \<open>ESP_ERR_NO_MEM\<close>, one OnOff status otherwise). With
  the publication address unassigned, a set with publish returns
  \<open>ESP_ERR_INVALID_STATE\<close> from exactly that state: value stored, callback
  called, nothing sent. The same for \<open>mesh_model_set_level\<close>.
\<close>

theorem set_then_publish_not_atomic:
  "(mesh_model_set_onoff i v publish s = Returned (ret, s') \<and> find_onoff_model i s = Some p \<longrightarrow>
      (\<exists>st st' sent. objs s p = Some (ONOFF_STATE st) \<and> objs s' p = Some (ONOFF_STATE st')
         \<and> onoff st' = v \<and> server_onoff st' = v \<and> server_target_onoff st' = v
         \<and> trace s' = trace s @ onoff_cb_events st v @ sent
         \<and> (ret = ESP_OK \<and> \<not> publish \<and> sent = []
            \<or> publish \<and> ret = ESP_ERR_INVALID_STATE
                \<and> publish_addr (pub st) = ESP_BLE_MESH_ADDR_UNASSIGNED \<and> sent = []
            \<or> publish \<and> ret = ESP_ERR_NO_MEM \<and> msg (pub st) = None \<and> sent = []
            \<or> publish \<and> (\<exists>m c n d. sent = [SEND_MSG m c ESP_BLE_MESH_MODEL_OP_GEN_ONOFF_STATUS n d]))))
   \<and> (find_onoff_model i s = Some p \<and> objs s p = Some (ONOFF_STATE ost)
       \<and> publish_addr (pub ost) = ESP_BLE_MESH_ADDR_UNASSIGNED \<longrightarrow>
      mesh_model_set_onoff i v True s = Returned (ESP_ERR_INVALID_STATE,
        s\<lparr>objs := (objs s)(p \<mapsto> ONOFF_STATE
              (ost\<lparr>onoff := v, server_onoff := v, server_target_onoff := v\<rparr>)),
          trace := trace s @ onoff_cb_events ost v\<rparr>))
   \<and> (mesh_model_set_level j w publish s = Returned (ret, s') \<and> find_level_model j s = Some q \<longrightarrow>
      (\<exists>st st' sent. objs s q = Some (LEVEL_STATE st) \<and> objs s' q = Some (LEVEL_STATE st')
         \<and> level st' = w \<and> server_level st' = w \<and> server_target_level st' = w
         \<and> trace s' = trace s @ level_cb_events st w @ sent
         \<and> (ret = ESP_OK \<and> \<not> publish \<and> sent = []
            \<or> publish \<and> ret = ESP_ERR_INVALID_STATE
                \<and> publish_addr (pub st) = ESP_BLE_MESH_ADDR_UNASSIGNED \<and> sent = []
            \<or> publish \<and> ret = ESP_ERR_NO_MEM \<and> msg (pub st) = None \<and> sent = []
            \<or> publish \<and> (\<exists>m c n d. sent = [SEND_MSG m c ESP_BLE_MESH_MODEL_OP_GEN_LEVEL_STATUS n d]))))
   \<and> (find_level_model j s = Some q \<and> objs s q = Some (LEVEL_STATE lst)
       \<and> publish_addr (pub lst) = ESP_BLE_MESH_ADDR_UNASSIGNED \<longrightarrow>
      mesh_model_set_level j w True s = Returned (ESP_ERR_INVALID_STATE,
        s\<lparr>objs := (objs s)(q \<mapsto> LEVEL_STATE
              (lst\<lparr>level := w, server_level := w, server_target_level := w\<rparr>)),
          trace := trace s @ level_cb_events lst w\<rparr>))"
proof (intro conjI impI)
  assume "mesh_model_set_onoff i v publish s = Returned (ret, s') \<and> find_onoff_model i s = Some p"
  then show "\<exists>st st' sent. objs s p = Some (ONOFF_STATE st) \<and> objs s' p = Some (ONOFF_STATE st')
         \<and> onoff st' = v \<and> server_onoff st' = v \<and> server_target_onoff st' = v
         \<and> trace s' = trace s @ onoff_cb_events st v @ sent
         \<and> (ret = ESP_OK \<and> \<not> publish \<and> sent = []
            \<or> publish \<and> ret = ESP_ERR_INVALID_STATE
                \<and> publish_addr (pub st) = ESP_BLE_MESH_ADDR_UNASSIGNED \<and> sent = []
            \<or> publish \<and> ret = ESP_ERR_NO_MEM \<and> msg (pub st) = None \<and> sent = []
            \<or> publish \<and> (\<exists>m c n d. sent = [SEND_MSG m c ESP_BLE_MESH_MODEL_OP_GEN_ONOFF_STATUS n d]))"
    using set_onoff_keeps [of i v publish s ret s' p] by blast
next
  assume "find_onoff_model i s = Some p \<and> objs s p = Some (ONOFF_STATE ost)
       \<and> publish_addr (pub ost) = ESP_BLE_MESH_ADDR_UNASSIGNED"
  then show "mesh_model_set_onoff i v True s = Returned (ESP_ERR_INVALID_STATE,
        s\<lparr>objs := (objs s)(p \<mapsto> ONOFF_STATE
              (ost\<lparr>onoff := v, server_onoff := v, server_target_onoff := v\<rparr>)),
          trace := trace s @ onoff_cb_events ost v\<rparr>)"
    using set_onoff_unbound [of i s p ost v] by blast
next
  assume "mesh_model_set_level j w publish s = Returned (ret, s') \<and> find_level_model j s = Some q"
  then show "\<exists>st st' sent. objs s q = Some (LEVEL_STATE st) \<and> objs s' q = Some (LEVEL_STATE st')
         \<and> level st' = w \<and> server_level st' = w \<and> server_target_level st' = w
         \<and> trace s' = trace s @ level_cb_events st w @ sent
         \<and> (ret = ESP_OK \<and> \<not> publish \<and> sent = []
            \<or> publish \<and> ret = ESP_ERR_INVALID_STATE
                \<and> publish_addr (pub st) = ESP_BLE_MESH_ADDR_UNASSIGNED \<and> sent = []
            \<or> publish \<and> ret = ESP_ERR_NO_MEM \<and> msg (pub st) = None \<and> sent = []
            \<or> publish \<and> (\<exists>m c n d. sent = [SEND_MSG m c ESP_BLE_MESH_MODEL_OP_GEN_LEVEL_STATUS n d]))"
    using set_level_keeps [of j w publish s ret s' q] by blast
next
  assume "find_level_model j s = Some q \<and> objs s q = Some (LEVEL_STATE lst)
       \<and> publish_addr (pub lst) = ESP_BLE_MESH_ADDR_UNASSIGNED"
  then show "mesh_model_set_level j w True s = Returned (ESP_ERR_INVALID_STATE,
        s\<lparr>objs := (objs s)(q \<mapsto> LEVEL_STATE
              (lst\<lparr>level := w, server_level := w, server_target_level := w\<rparr>)),
          trace := trace s @ level_cb_events lst w\<rparr>)"
    using set_level_unbound [of j s q lst w] by blast
qed

lemma switch_and_dimmer_build:
  "\<exists>s ost lst. build_models [MESH_MODEL_ONOFF (Some 7) 0 None, MESH_MODEL_LEVEL (Some 9) 0 None] 2
            (boot_state [] []) = Returned (ESP_OK, s)
     \<and> trace s = []
     \<and> find_onoff_model 0 s = Some 2 \<and> objs s 2 = Some (ONOFF_STATE ost)
     \<and> publish_addr (pub ost) = ESP_BLE_MESH_ADDR_UNASSIGNED
     \<and> onoff_cb ost = Some 7 \<and> onoff_ctx ost = None \<and> onoff ost = 0
     \<and> find_level_model 0 s = Some 3 \<and> objs s 3 = Some (LEVEL_STATE lst)
     \<and> publish_addr (pub lst) = ESP_BLE_MESH_ADDR_UNASSIGNED
     \<and> level_cb lst = Some 9 \<and> level_ctx lst = None \<and> level lst = 0"
  by (simp add: build_defs api_defs replicate_numeral_unfold)

theorem set_then_publish_not_atomic_witness:
  "\<exists>s s1 s2 ost lst. build_models [MESH_MODEL_ONOFF (Some 7) 0 None, MESH_MODEL_LEVEL (Some 9) 0 None] 2
            (boot_state [] []) = Returned (ESP_OK, s)
     \<and> find_onoff_model 0 s = Some 2 \<and> objs s 2 = Some (ONOFF_STATE ost)
     \<and> publish_addr (pub ost) = ESP_BLE_MESH_ADDR_UNASSIGNED \<and> onoff ost = 0
     \<and> mesh_model_set_onoff 0 1 True s = Returned (ESP_ERR_INVALID_STATE, s1)
     \<and> map_option (\<lambda>obj. case obj of ONOFF_STATE st \<Rightarrow> (onoff st, server_onoff st) | _ \<Rightarrow> (0, 0))
          (objs s1 2) = Some (1, 1)
     \<and> trace s1 = [ONOFF_CALLBACK 7 1 None]
     \<and> find_level_model 0 s = Some 3 \<and> objs s 3 = Some (LEVEL_STATE lst)
     \<and> publish_addr (pub lst) = ESP_BLE_MESH_ADDR_UNASSIGNED \<and> level lst = 0
     \<and> mesh_model_set_level 0 500 True s = Returned (ESP_ERR_INVALID_STATE, s2)
     \<and> map_option (\<lambda>obj. case obj of LEVEL_STATE st \<Rightarrow> (level st, server_level st) | _ \<Rightarrow> (0, 0))
          (objs s2 3) = Some (500, 500)
     \<and> trace s2 = [LEVEL_CALLBACK 9 500 None]"
proof -
  from switch_and_dimmer_build obtain s ost lst where
    b: "build_models [MESH_MODEL_ONOFF (Some 7) 0 None, MESH_MODEL_LEVEL (Some 9) 0 None] 2
            (boot_state [] []) = Returned (ESP_OK, s)"
    and t: "trace s = []"
    and fo: "find_onoff_model 0 s = Some 2" and oo: "objs s 2 = Some (ONOFF_STATE ost)"
    and uo: "publish_addr (pub ost) = ESP_BLE_MESH_ADDR_UNASSIGNED"
    and co: "onoff_cb ost = Some 7" "onoff_ctx ost = None" "onoff ost = 0"
    and fl: "find_level_model 0 s = Some 3" and ol: "objs s 3 = Some (LEVEL_STATE lst)"
    and ul: "publish_addr (pub lst) = ESP_BLE_MESH_ADDR_UNASSIGNED"
    and cl: "level_cb lst = Some 9" "level_ctx lst = None" "level lst = 0"
    by blast
  define s1 where "s1 = s\<lparr>objs := (objs s)(2 \<mapsto> ONOFF_STATE
              (ost\<lparr>onoff := 1, server_onoff := 1, server_target_onoff := 1\<rparr>)),
          trace := trace s @ onoff_cb_events ost 1\<rparr>"
  define s2 where "s2 = s\<lparr>objs := (objs s)(3 \<mapsto> LEVEL_STATE
              (lst\<lparr>level := 500, server_level := 500, server_target_level := 500\<rparr>)),
          trace := trace s @ level_cb_events lst 500\<rparr>"
  from set_then_publish_not_atomic [of 0 1 True s ESP_ERR_INVALID_STATE s1 2 ost 0 500 3 lst]
    fo oo uo fl ol ul
  have r1: "mesh_model_set_onoff 0 1 True s = Returned (ESP_ERR_INVALID_STATE, s1)"
    and r2: "mesh_model_set_level 0 500 True s = Returned (ESP_ERR_INVALID_STATE, s2)"
    unfolding s1_def s2_def by blast+
  have "map_option (\<lambda>obj. case obj of ONOFF_STATE st \<Rightarrow> (onoff st, server_onoff st) | _ \<Rightarrow> (0, 0))
          (objs s1 2) = Some (1, 1)"
    and "trace s1 = [ONOFF_CALLBACK 7 1 None]"
    and "map_option (\<lambda>obj. case obj of LEVEL_STATE st \<Rightarrow> (level st, server_level st) | _ \<Rightarrow> (0, 0))
          (objs s2 3) = Some (500, 500)"
    and "trace s2 = [LEVEL_CALLBACK 9 500 None]"
    by (simp_all add: s1_def s2_def t co cl onoff_cb_events_def level_cb_events_def)
  with b fo oo uo co(3) fl ol ul cl(3) r1 r2 show ?thesis by blast
qed

subsection \<open>The sensor status\<close>

lemma le16_0x5001: "le16 0x5001 = [0x01, 0x50]"
  by (simp add: le16_def drop_bit_eq_div)

lemma sensor_status_encode_data:
  assumes "sensor_status_encode (net_buf_simple_reset m) 0x5001 buf = Returned m1"
  shows "buf_data m1 = [0x09, 0x01, 0x50] @ buf_data buf"
  using assms
  by (auto simp: sensor_status_encode_def obind_def net_buf_simple_add_u8_def
      net_buf_simple_add_le16_def le16_0x5001 Let_def
      net_buf_simple_add_mem_def net_buf_simple_reset_def split: if_splits)

lemma add_le32_data:
  assumes "net_buf_simple_add_le32 (net_buf_simple_reset buf0) v = Returned buf"
  shows "buf_data buf = le32 v"
  using assms
  by (auto simp: net_buf_simple_add_le32_def net_buf_simple_add_mem_def net_buf_simple_reset_def
      split: if_splits)

lemma add_le32_returns:
  assumes "4 \<le> buf_size buf0"
  shows "\<exists>buf. net_buf_simple_add_le32 (net_buf_simple_reset buf0) v = Returned buf"
  using assms
  by (simp add: net_buf_simple_add_le32_def net_buf_simple_add_mem_def net_buf_simple_reset_def)

lemma sensor_status_encode_returns:
  assumes "7 \<le> buf_size m" and "length (buf_data buf) = 4"
  shows "\<exists>m1. sensor_status_encode (net_buf_simple_reset m) 0x5001 buf = Returned m1"
  using assms
  by (simp add: sensor_status_encode_def obind_def net_buf_simple_add_u8_def
      net_buf_simple_add_le16_def le16_0x5001 Let_def
      net_buf_simple_add_mem_def net_buf_simple_reset_def)

lemma publish_sensor_forward:
  assumes f: "find_sensor_model i s = Some p"
    and o: "objs s p = Some (SENSOR_STATE st)"
    and ix: "sensor_index_loop (sensors st) 0x5001 (unat (sensor_count st)) 0 = Returned (Some k)"
    and rd: "sensor_reading (sensors st ! k) 0x5001 = (ESP_OK, v)"
    and kl: "k < length (sensor_states st)"
    and rv: "raw_value (sensor_states st ! k) = Some buf0"
    and sz0: "4 \<le> buf_size buf0"
    and pa: "publish_addr (pub st) \<noteq> ESP_BLE_MESH_ADDR_UNASSIGNED"
    and mg: "msg (pub st) = Some m"
    and sz: "7 \<le> buf_size m"
  shows "\<exists>s'. mesh_model_publish_sensor i 0x5001 s = Returned (send_result s, s')
     \<and> trace s' = trace s @ [SEND_MSG (esp_model st) (pub_ctx_to (publish_addr (pub st)))
          ESP_BLE_MESH_MODEL_OP_SENSOR_STATUS 7 ([0x09, 0x01, 0x50] @ le32 v)]"
proof -
  from add_le32_returns [OF sz0, of v] obtain buf where
    a: "net_buf_simple_add_le32 (net_buf_simple_reset buf0) v = Returned buf" by blast
  from add_le32_data [OF a] have bd: "buf_data buf = le32 v" .
  then have "length (buf_data buf) = 4" by simp
  from sensor_status_encode_returns [OF sz this] obtain m1 where
    en: "sensor_status_encode (net_buf_simple_reset m) 0x5001 buf = Returned m1" by blast
  from sensor_status_encode_data [OF en] bd
  have d: "buf_data m1 = [0x09, 0x01, 0x50] @ le32 v" by simp
  define st1 where "st1 = st\<lparr>sensor_states := (sensor_states st)
                             [k := (sensor_states st ! k)\<lparr>raw_value := Some buf\<rparr>]\<rparr>"
  define s2 where "s2 = s\<lparr>objs := (objs s)(p \<mapsto> SENSOR_STATE (st1\<lparr>pub := (pub st)\<lparr>msg := Some m1\<rparr>\<rparr>))\<rparr>"
  have p1: "pub st1 = pub st" and e1: "esp_model st1 = esp_model st" by (simp_all add: st1_def)
  have rd': "(case read (sensors st ! k) of None \<Rightarrow> (ESP_OK, 0)
             | Some f \<Rightarrow> f 0x5001 0 (sensor_user_data (sensors st ! k))) = (ESP_OK, v)"
    using rd by (simp add: sensor_reading_def)
  have "mesh_model_publish_sensor i 0x5001 s
      = Returned (esp_ble_mesh_server_model_send_msg (esp_model st)
                    (pub_ctx_to (publish_addr (pub st)))
                    ESP_BLE_MESH_MODEL_OP_SENSOR_STATUS (length (buf_data m1)) (buf_data m1) s2)"
    unfolding mesh_model_publish_sensor_def
    using f o ix rd' kl rv a pa mg en
    by (simp add: Let_def obind_def st1_def [symmetric] p1 e1 s2_def [symmetric])
  moreover from send_msg_result [of "esp_model st" "pub_ctx_to (publish_addr (pub st))"
      ESP_BLE_MESH_MODEL_OP_SENSOR_STATUS "length (buf_data m1)" "buf_data m1" s2]
  obtain s' where "esp_ble_mesh_server_model_send_msg (esp_model st)
                    (pub_ctx_to (publish_addr (pub st)))
                    ESP_BLE_MESH_MODEL_OP_SENSOR_STATUS (length (buf_data m1)) (buf_data m1) s2
                  = (send_result s, s')"
    and "trace s' = trace s @ [SEND_MSG (esp_model st) (pub_ctx_to (publish_addr (pub st)))
          ESP_BLE_MESH_MODEL_OP_SENSOR_STATUS (length (buf_data m1)) (buf_data m1)]"
    by (auto simp: s2_def)
  ultimately show ?thesis by (simp add: d)
qed

lemma publish_sensor_sends:
  assumes "mesh_model_publish_sensor i 0x5001 s = Returned (ret, s')"
    and "trace s' \<noteq> trace s"
  shows "\<exists>m c v. trace s' = trace s @ [SEND_MSG m c ESP_BLE_MESH_MODEL_OP_SENSOR_STATUS 7
            ([0x09, 0x01, 0x50] @ le32 v)]"
proof -
  from assms obtain buf0 v buf m m1 r c s2 where
    a: "net_buf_simple_add_le32 (net_buf_simple_reset buf0) v = Returned buf"
    and e: "sensor_status_encode (net_buf_simple_reset m) 0x5001 buf = Returned m1"
    and snd: "esp_ble_mesh_server_model_send_msg r c ESP_BLE_MESH_MODEL_OP_SENSOR_STATUS
                (length (buf_data m1)) (buf_data m1) s2 = (ret, s')"
    and t: "trace s2 = trace s"
    unfolding mesh_model_publish_sensor_def obind_def Let_def
    by (auto split: option.splits model_state.splits outcome.splits if_splits)
  from sensor_status_encode_data [OF e] add_le32_data [OF a]
  have d: "buf_data m1 = [0x09, 0x01, 0x50] @ le32 v" by simp
  from send_msg_trace [OF snd] show ?thesis by (auto simp: d t)
qed

text \<open>
  C6. The sensor status for property id 0x5001. Given room for seven bytes in the
  publication buffer and for four in the raw-value buffer, the 32-bit value is
  written little-endian into the raw-value buffer and \<open>sensor_status_encode\<close>
  returns the header byte \<open>(4 << 1) | 1\<close> = 0x09, then 0x01 0x50, then the four value
  bytes, seven bytes in all. \<open>mesh_model_publish_sensor\<close> for 0x5001 on a registered
  sensor model that has this sensor, whose read succeeds with the value w and whose
  publication address is bound, hands the stack exactly one message: as that model,
  to the publication address, with the sensor status opcode, of length 7, with the
  payload 09 01 50 and the four little-endian bytes of w. And whenever the function
  hands a message for 0x5001 to the stack at all, it is one message of that shape.
\<close>

theorem sensor_status_payload:
  "(7 \<le> buf_size m \<and> 4 \<le> buf_size buf0 \<longrightarrow>
      (\<exists>buf m1. net_buf_simple_add_le32 (net_buf_simple_reset buf0) v = Returned buf
         \<and> sensor_status_encode (net_buf_simple_reset m) 0x5001 buf = Returned m1
         \<and> buf_data m1 = [push_bit 1 4 OR 1, 0x01, 0x50] @ le32 v
         \<and> buf_data m1 = [0x09, 0x01, 0x50] @ le32 v
         \<and> length (buf_data m1) = 7))
   \<and> (find_sensor_model i s = Some p \<and> objs s p = Some (SENSOR_STATE st)
       \<and> sensor_index_loop (sensors st) 0x5001 (unat (sensor_count st)) 0 = Returned (Some k)
       \<and> sensor_reading (sensors st ! k) 0x5001 = (ESP_OK, w)
       \<and> k < length (sensor_states st) \<and> raw_value (sensor_states st ! k) = Some rb
       \<and> 4 \<le> buf_size rb
       \<and> publish_addr (pub st) \<noteq> ESP_BLE_MESH_ADDR_UNASSIGNED
       \<and> msg (pub st) = Some pm \<and> 7 \<le> buf_size pm \<longrightarrow>
      (\<exists>s'. mesh_model_publish_sensor i 0x5001 s = Returned (send_result s, s')
         \<and> trace s' = trace s @ [SEND_MSG (esp_model st) (pub_ctx_to (publish_addr (pub st)))
              ESP_BLE_MESH_MODEL_OP_SENSOR_STATUS 7 ([0x09, 0x01, 0x50] @ le32 w)]))
   \<and> (mesh_model_publish_sensor i 0x5001 s = Returned (ret, t) \<and> trace t \<noteq> trace s \<longrightarrow>
      (\<exists>r c x. trace t = trace s @ [SEND_MSG r c ESP_BLE_MESH_MODEL_OP_SENSOR_STATUS 7
                   ([0x09, 0x01, 0x50] @ le32 x)]))"
proof (intro conjI impI)
  assume a: "7 \<le> buf_size m \<and> 4 \<le> buf_size buf0"
  then obtain buf where
    a1: "net_buf_simple_add_le32 (net_buf_simple_reset buf0) v = Returned buf"
    using add_le32_returns [of buf0 v] by blast
  from add_le32_data [OF a1] have bd: "buf_data buf = le32 v" .
  then have "length (buf_data buf) = 4" by simp
  with a obtain m1 where
    e: "sensor_status_encode (net_buf_simple_reset m) 0x5001 buf = Returned m1"
    using sensor_status_encode_returns [of m buf] by blast
  from sensor_status_encode_data [OF e] bd
  have d: "buf_data m1 = [0x09, 0x01, 0x50] @ le32 v" by simp
  have h: "push_bit 1 4 OR 1 = (0x09 :: byte)" by simp
  from a1 e d h show "\<exists>buf m1. net_buf_simple_add_le32 (net_buf_simple_reset buf0) v = Returned buf
         \<and> sensor_status_encode (net_buf_simple_reset m) 0x5001 buf = Returned m1
         \<and> buf_data m1 = [push_bit 1 4 OR 1, 0x01, 0x50] @ le32 v
         \<and> buf_data m1 = [0x09, 0x01, 0x50] @ le32 v
         \<and> length (buf_data m1) = 7"
    by auto
next
  assume "find_sensor_model i s = Some p \<and> objs s p = Some (SENSOR_STATE st)
       \<and> sensor_index_loop (sensors st) 0x5001 (unat (sensor_count st)) 0 = Returned (Some k)
       \<and> sensor_reading (sensors st ! k) 0x5001 = (ESP_OK, w)
       \<and> k < length (sensor_states st) \<and> raw_value (sensor_states st ! k) = Some rb
       \<and> 4 \<le> buf_size rb
       \<and> publish_addr (pub st) \<noteq> ESP_BLE_MESH_ADDR_UNASSIGNED
       \<and> msg (pub st) = Some pm \<and> 7 \<le> buf_size pm"
  then show "\<exists>s'. mesh_model_publish_sensor i 0x5001 s = Returned (send_result s, s')
         \<and> trace s' = trace s @ [SEND_MSG (esp_model st) (pub_ctx_to (publish_addr (pub st)))
              ESP_BLE_MESH_MODEL_OP_SENSOR_STATUS 7 ([0x09, 0x01, 0x50] @ le32 w)]"
    using publish_sensor_forward [of i s p st k w rb pm] by blast
next
  assume "mesh_model_publish_sensor i 0x5001 s = Returned (ret, t) \<and> trace t \<noteq> trace s"
  then show "\<exists>r c x. trace t = trace s @ [SEND_MSG r c ESP_BLE_MESH_MODEL_OP_SENSOR_STATUS 7
                   ([0x09, 0x01, 0x50] @ le32 x)]"
    using publish_sensor_sends [of i s ret t] by blast
qed

text \<open>
  On the node of \<open>app_main\<close> with 1500 mg on the x axis and the publication address
  of the sensor model bound to 0xC000: the message is 09 01 50 DC 05 00 00.
\<close>

lemma le32_1500: "le32 1500 = [0xDC, 0x05, 0, 0]"
  by (simp add: le32_def drop_bit_eq_div)

lemma bound_sensor_node:
  "\<exists>s0 st rb pm.
     build_models (app_models (imu_at_rest\<lparr>accel_x_mg := 1500\<rparr>)) 2 (boot_state [] [])
       = Returned (ESP_OK, s0)
     \<and> trace (bind_publish_addr 3 0xC000 s0) = []
     \<and> send_result (bind_publish_addr 3 0xC000 s0) = ESP_OK
     \<and> find_sensor_model 0 (bind_publish_addr 3 0xC000 s0) = Some 3
     \<and> objs (bind_publish_addr 3 0xC000 s0) 3 = Some (SENSOR_STATE st)
     \<and> sensor_index_loop (sensors st) 0x5001 (unat (sensor_count st)) 0 = Returned (Some 0)
     \<and> sensor_reading (sensors st ! 0) 0x5001 = (ESP_OK, 1500)
     \<and> 0 < length (sensor_states st) \<and> raw_value (sensor_states st ! 0) = Some rb
     \<and> buf_size rb = 4
     \<and> publish_addr (pub st) = 0xC000 \<and> esp_model st = Some (SIG_MODEL 1)
     \<and> msg (pub st) = Some pm \<and> buf_size pm = 34"
  by (simp add: build_defs api_defs replicate_numeral_unfold app_models_def app_sensors_def
      imu_at_rest_def bind_publish_addr_def send_result_def sensor_reading_def
      sensor_buf_loop_numeral sensor_index_loop_numeral)

theorem sensor_status_payload_witness:
  "(\<exists>buf m1. 7 \<le> buf_size (NET_BUF_SIMPLE 34) \<and> 4 \<le> buf_size (NET_BUF_SIMPLE 4)
      \<and> net_buf_simple_add_le32 (net_buf_simple_reset (NET_BUF_SIMPLE 4)) 1500 = Returned buf
      \<and> sensor_status_encode (net_buf_simple_reset (NET_BUF_SIMPLE 34)) 0x5001 buf = Returned m1
      \<and> buf_data m1 = [0x09, 0x01, 0x50, 0xDC, 0x05, 0, 0])
   \<and> (\<exists>s0 s'.
        build_models (app_models (imu_at_rest\<lparr>accel_x_mg := 1500\<rparr>)) 2 (boot_state [] [])
          = Returned (ESP_OK, s0)
      \<and> mesh_model_publish_sensor 0 0x5001 (bind_publish_addr 3 0xC000 s0) = Returned (ESP_OK, s')
      \<and> trace s' \<noteq> trace (bind_publish_addr 3 0xC000 s0)
      \<and> trace s' = [SEND_MSG (Some (SIG_MODEL 1)) (pub_ctx_to 0xC000)
                      ESP_BLE_MESH_MODEL_OP_SENSOR_STATUS 7 [0x09, 0x01, 0x50, 0xDC, 0x05, 0, 0]])"
proof -
  from bound_sensor_node obtain s0 st rb pm where
    b: "build_models (app_models (imu_at_rest\<lparr>accel_x_mg := 1500\<rparr>)) 2 (boot_state [] [])
       = Returned (ESP_OK, s0)"
    and t1: "trace (bind_publish_addr 3 0xC000 s0) = []"
    and sr: "send_result (bind_publish_addr 3 0xC000 s0) = ESP_OK"
    and h: "find_sensor_model 0 (bind_publish_addr 3 0xC000 s0) = Some 3"
      "objs (bind_publish_addr 3 0xC000 s0) 3 = Some (SENSOR_STATE st)"
      "sensor_index_loop (sensors st) 0x5001 (unat (sensor_count st)) 0 = Returned (Some 0)"
      "sensor_reading (sensors st ! 0) 0x5001 = (ESP_OK, 1500)"
      "0 < length (sensor_states st)" "raw_value (sensor_states st ! 0) = Some rb"
      "msg (pub st) = Some pm"
    and sz: "buf_size rb = 4" "buf_size pm = 34"
    and pa: "publish_addr (pub st) = 0xC000" and em: "esp_model st = Some (SIG_MODEL 1)"
    by blast
  define sb where "sb = bind_publish_addr 3 0xC000 s0"
  have ne: "publish_addr (pub st) \<noteq> ESP_BLE_MESH_ADDR_UNASSIGNED"
    by (simp add: pa ESP_BLE_MESH_ADDR_UNASSIGNED_def)
  have sz': "4 \<le> buf_size rb" "7 \<le> buf_size pm" by (simp_all add: sz)
  have sz0: "7 \<le> buf_size (NET_BUF_SIMPLE 34) \<and> 4 \<le> buf_size (NET_BUF_SIMPLE 4)"
    by (simp add: NET_BUF_SIMPLE_def)
  note inst = sensor_status_payload [of "NET_BUF_SIMPLE 34" "NET_BUF_SIMPLE 4" 1500 0 sb 3 st 0
      1500 rb pm ESP_OK sb]
  from inst sz0 obtain buf m1 where
    "net_buf_simple_add_le32 (net_buf_simple_reset (NET_BUF_SIMPLE 4)) 1500 = Returned buf"
    "sensor_status_encode (net_buf_simple_reset (NET_BUF_SIMPLE 34)) 0x5001 buf = Returned m1"
    "buf_data m1 = [0x09, 0x01, 0x50] @ le32 1500"
    by blast
  with sz0 have 1: "\<exists>buf m1. 7 \<le> buf_size (NET_BUF_SIMPLE 34) \<and> 4 \<le> buf_size (NET_BUF_SIMPLE 4)
      \<and> net_buf_simple_add_le32 (net_buf_simple_reset (NET_BUF_SIMPLE 4)) 1500 = Returned buf
      \<and> sensor_status_encode (net_buf_simple_reset (NET_BUF_SIMPLE 34)) 0x5001 buf = Returned m1
      \<and> buf_data m1 = [0x09, 0x01, 0x50, 0xDC, 0x05, 0, 0]"
    by (auto simp: le32_1500)
  from inst h sz' ne obtain s' where
    "mesh_model_publish_sensor 0 0x5001 sb = Returned (send_result sb, s')"
    "trace s' = trace sb @ [SEND_MSG (esp_model st) (pub_ctx_to (publish_addr (pub st)))
              ESP_BLE_MESH_MODEL_OP_SENSOR_STATUS 7 ([0x09, 0x01, 0x50] @ le32 1500)]"
    unfolding sb_def by blast
  then have "mesh_model_publish_sensor 0 0x5001 sb = Returned (ESP_OK, s')"
    and "trace s' \<noteq> trace sb"
    and "trace s' = [SEND_MSG (Some (SIG_MODEL 1)) (pub_ctx_to 0xC000)
                      ESP_BLE_MESH_MODEL_OP_SENSOR_STATUS 7 [0x09, 0x01, 0x50, 0xDC, 0x05, 0, 0]]"
    using sr t1 by (simp_all add: sb_def pa em le32_1500)
  with b have 2: "\<exists>s0 s'.
        build_models (app_models (imu_at_rest\<lparr>accel_x_mg := 1500\<rparr>)) 2 (boot_state [] [])
          = Returned (ESP_OK, s0)
      \<and> mesh_model_publish_sensor 0 0x5001 (bind_publish_addr 3 0xC000 s0) = Returned (ESP_OK, s')
      \<and> trace s' \<noteq> trace (bind_publish_addr 3 0xC000 s0)
      \<and> trace s' = [SEND_MSG (Some (SIG_MODEL 1)) (pub_ctx_to 0xC000)
                      ESP_BLE_MESH_MODEL_OP_SENSOR_STATUS 7 [0x09, 0x01, 0x50, 0xDC, 0x05, 0, 0]]"
    unfolding sb_def by blast
  from 1 2 show ?thesis by (rule conjI)
qed

section \<open>Properties of the registry lookup\<close>

lemma same_registry_refl [simp]: "same_registry s s"
  by (simp add: same_registry_def)

lemma same_registry_trans: "same_registry s s1 \<Longrightarrow> same_registry s1 s2 \<Longrightarrow> same_registry s s2"
  by (simp add: same_registry_def)

lemma same_registry_objs [simp]:
  "same_registry s (s\<lparr>objs := ob\<rparr>)"
  "same_registry s (s\<lparr>objs := ob, trace := tr\<rparr>)"
  by (simp_all add: same_registry_def)

lemma same_registry_find:
  assumes "same_registry s s'"
  shows "find_onoff_model i s' = find_onoff_model i s"
    and "find_level_model i s' = find_level_model i s"
    and "find_sensor_model i s' = find_sensor_model i s"
    and "find_battery_model i s' = find_battery_model i s"
    and "find_vendor_model i s' = find_vendor_model i s"
  using assms
  by (simp_all add: same_registry_def find_onoff_model_def find_level_model_def
      find_sensor_model_def find_battery_model_def find_vendor_model_def registered_def)

lemma send_msg_same_registry:
  "esp_ble_mesh_server_model_send_msg m ctx opc len data s = (r, s') \<Longrightarrow> same_registry s s'"
  by (auto simp: esp_ble_mesh_server_model_send_msg_def same_registry_def Let_def
      split: list.splits)

lemma set_pub_at_same_registry [simp]: "same_registry s (set_pub_at pr pb s)"
  by (simp add: set_pub_at_def same_registry_def split: pub_ref.splits)

lemma publish_onoff_same_registry:
  "mesh_model_publish_onoff i v s = Returned (r, s') \<Longrightarrow> same_registry s s'"
  unfolding mesh_model_publish_onoff_def obind_def Let_def
  by (auto split: option.splits model_state.splits if_splits outcome.splits
      dest!: send_msg_same_registry simp: same_registry_def)

lemma publish_level_same_registry:
  "mesh_model_publish_level i v s = Returned (r, s') \<Longrightarrow> same_registry s s'"
  unfolding mesh_model_publish_level_def obind_def Let_def
  by (auto split: option.splits model_state.splits if_splits outcome.splits
      dest!: send_msg_same_registry simp: same_registry_def)

lemma set_onoff_same_registry:
  "mesh_model_set_onoff i v p s = Returned (r, s') \<Longrightarrow> same_registry s s'"
  unfolding mesh_model_set_onoff_def Let_def
  by (auto split: option.splits model_state.splits if_splits
      dest!: publish_onoff_same_registry simp: same_registry_def)

lemma set_level_same_registry:
  "mesh_model_set_level i v p s = Returned (r, s') \<Longrightarrow> same_registry s s'"
  unfolding mesh_model_set_level_def Let_def
  by (auto split: option.splits model_state.splits if_splits
      dest!: publish_level_same_registry simp: same_registry_def)

lemma publish_sensor_same_registry:
  "mesh_model_publish_sensor i t s = Returned (r, s') \<Longrightarrow> same_registry s s'"
  unfolding mesh_model_publish_sensor_def obind_def Let_def
  by (auto split: option.splits model_state.splits if_splits outcome.splits
      dest!: send_msg_same_registry simp: same_registry_def)

lemma send_vendor_same_registry:
  "mesh_model_send_vendor i opc d n a s = Returned (r, s') \<Longrightarrow> same_registry s s'"
  unfolding mesh_model_send_vendor_def
  by (auto split: option.splits model_state.splits dest!: send_msg_same_registry)

lemma publish_vendor_same_registry:
  "mesh_model_publish_vendor i opc d n s = Returned (r, s') \<Longrightarrow> same_registry s s'"
  unfolding mesh_model_publish_vendor_def obind_def
  by (auto split: option.splits model_state.splits if_splits outcome.splits
      dest!: send_msg_same_registry)

lemma set_battery_same_registry:
  "mesh_model_set_battery i v s = Returned (r, s') \<Longrightarrow> same_registry s s'"
  unfolding mesh_model_set_battery_def
  by (auto split: option.splits model_state.splits)

lemma publish_battery_same_registry:
  "mesh_model_publish_battery i s = Returned (r, s') \<Longrightarrow> same_registry s s'"
  unfolding mesh_model_publish_battery_def obind_def Let_def
  by (auto split: option.splits model_state.splits if_splits outcome.splits
      dest!: send_msg_same_registry simp: same_registry_def set_pub_at_def split: pub_ref.splits)

lemma api_same_registry: "api c s = Returned (r, s') \<Longrightarrow> same_registry s s'"
  by (cases c)
    (auto dest: set_onoff_same_registry publish_onoff_same_registry set_level_same_registry
      publish_level_same_registry publish_sensor_same_registry send_vendor_same_registry
      publish_vendor_same_registry set_battery_same_registry publish_battery_same_registry)

lemma run_api_same_registry: "run_api cs s = Returned s' \<Longrightarrow> same_registry s s'"
proof (induction cs arbitrary: s)
  case Nil
  then show ?case by simp
next
  case (Cons c cs)
  from Cons.prems obtain r s1 where a: "api c s = Returned (r, s1)"
    and rest: "run_api cs s1 = Returned s'"
    by (auto split: outcome.splits)
  from api_same_registry [OF a] Cons.IH [OF rest] show ?case
    by (rule same_registry_trans)
qed

lemma unat_byte_Suc:
  fixes idx :: byte
  assumes "unat idx < 255"
  shows "unat (idx + 1) = Suc (unat idx)"
proof -
  have "unat idx + 1 < 2 ^ 8" using assms by simp
  then show ?thesis by (simp add: unat_word_ariths)
qed

lemma find_scan_nth:
  assumes "unat idx + length es < 256"
  shows "find_scan t index idx es =
     (if unat idx \<le> unat index
         \<and> unat index - unat idx < length (filter (\<lambda>e. reg_type e = t) es)
      then runtime_state (filter (\<lambda>e. reg_type e = t) es ! (unat index - unat idx))
      else None)"
  using assms
proof (induction es arbitrary: idx)
  case Nil
  then show ?case by simp
next
  case (Cons e es)
  show ?case
  proof (cases "reg_type e = t")
    case False
    from Cons.prems have "unat idx + length es < 256" by simp
    from Cons.IH [OF this] False show ?thesis by simp
  next
    case True
    show ?thesis
    proof (cases "idx = index")
      case True
      with \<open>reg_type e = t\<close> show ?thesis by simp
    next
      case False
      then have ne: "unat idx \<noteq> unat index" by (simp add: word_unat_eq_iff)
      from Cons.prems have lt: "unat idx < 255" by simp
      have u: "unat (idx + 1) = Suc (unat idx)" by (rule unat_byte_Suc [OF lt])
      from Cons.prems have "unat (idx + 1) + length es < 256" by (simp add: u)
      from Cons.IH [OF this]
      have ih: "find_scan t index (idx + 1) es =
         (if Suc (unat idx) \<le> unat index
             \<and> unat index - Suc (unat idx) < length (filter (\<lambda>e. reg_type e = t) es)
          then runtime_state (filter (\<lambda>e. reg_type e = t) es ! (unat index - Suc (unat idx)))
          else None)"
        by (simp add: u)
      show ?thesis
      proof (cases "unat idx < unat index")
        case True
        then obtain d where d: "unat index - unat idx = Suc d"
          by (metis Suc_diff_Suc)
        then have d': "unat index - Suc (unat idx) = d" by simp
        from True have a: "Suc (unat idx) \<le> unat index" "unat idx \<le> unat index" by simp_all
        show ?thesis
          using \<open>reg_type e = t\<close> False
          by (simp add: ih d d' a)
      next
        case False
        with ne have "\<not> unat idx \<le> unat index" by simp
        then show ?thesis
          using \<open>reg_type e = t\<close> \<open>idx \<noteq> index\<close> by (simp add: ih)
      qed
    qed
  qed
qed

lemma filter_by_positions:
  "filter P xs = map (nth xs) (filter (\<lambda>k. P (xs ! k)) [0..<length xs])"
proof (induction xs rule: rev_induct)
  case Nil
  then show ?case by simp
next
  case (snoc x xs)
  have "filter (\<lambda>k. P ((xs @ [x]) ! k)) [0..<length xs] = filter (\<lambda>k. P (xs ! k)) [0..<length xs]"
    by (rule filter_cong) (simp_all add: nth_append)
  moreover have "map (nth (xs @ [x])) (filter (\<lambda>k. P (xs ! k)) [0..<length xs])
        = map (nth xs) (filter (\<lambda>k. P (xs ! k)) [0..<length xs])"
    by (rule map_cong) (simp_all add: nth_append)
  ultimately show ?case using snoc by simp
qed

lemma find_by_kind:
  assumes ok: "registry_ok s" and u: "map user_config (registered s) = descs"
    and len: "length (model_registry s) = MAX_MODELS"
  shows "find_scan t i 0 (registered s) = spec_find s t (unat i) descs"
proof -
  define es where "es = registered s"
  have n: "length es = length descs" using u by (auto simp: es_def)
  have le8: "length es \<le> MAX_MODELS"
    by (simp add: es_def registered_def len)
  have nth_es: "es ! k = model_registry s ! k" if "k < length es" for k
    using that by (simp add: es_def registered_def)
  have ty: "reg_type (es ! k) = type (descs ! k)" if "k < length es" for k
  proof -
    from that have "es ! k \<in> set (registered s)" by (simp add: es_def)
    with ok have "entry_ok s (es ! k)" unfolding registry_ok_def by blast
    then have "reg_type (es ! k) = type (user_config (es ! k))" unfolding entry_ok_def by simp
    moreover from u that have "user_config (es ! k) = descs ! k"
      by (metis es_def nth_map)
    ultimately show ?thesis by simp
  qed
  have pos: "filter (\<lambda>k. reg_type (es ! k) = t) [0..<length es] = kind_positions t descs"
    unfolding kind_positions_def n [symmetric]
    by (rule filter_cong) (simp_all add: ty)
  have fl: "filter (\<lambda>e. reg_type e = t) es = map (nth es) (kind_positions t descs)"
    using filter_by_positions [of "\<lambda>e. reg_type e = t" es] by (simp add: pos)
  have bound: "(0::nat) + length es < 256" using le8 by (simp add: MAX_MODELS_def)
  have "find_scan t i 0 es =
     (if unat i < length (kind_positions t descs)
      then runtime_state (map (nth es) (kind_positions t descs) ! unat i) else None)"
    using find_scan_nth [of 0 es t i] bound by (simp add: fl)
  moreover have "map (nth es) (kind_positions t descs) ! unat i
        = model_registry s ! (kind_positions t descs ! unat i)"
    if lt: "unat i < length (kind_positions t descs)"
  proof -
    from lt have "kind_positions t descs ! unat i \<in> set (kind_positions t descs)" by simp
    then have "kind_positions t descs ! unat i < length es"
      by (simp add: kind_positions_def n)
    with lt show ?thesis by (simp add: nth_es)
  qed
  ultimately show ?thesis by (simp add: spec_find_def es_def)
qed

lemma registered_states:
  assumes ok: "registry_ok s" and u: "map user_config (registered s) = descs"
    and k: "k < length descs"
  shows "\<exists>p obj. runtime_state (model_registry s ! k) = Some p \<and> objs s p = Some obj
            \<and> built_from (descs ! k) obj"
proof -
  from u k have kl: "k < length (registered s)" by auto
  then have m: "registered s ! k \<in> set (registered s)" by simp
  with ok have e: "entry_ok s (registered s ! k)" unfolding registry_ok_def by blast
  from u kl have uc: "user_config (registered s ! k) = descs ! k" by (metis nth_map)
  from kl have nk: "registered s ! k = model_registry s ! k" by (simp add: registered_def)
  from e uc nk show ?thesis unfolding entry_ok_def by auto
qed

text \<open>
  C2. After a build that returned \<open>ESP_OK\<close> on the zeroed registry: the registered
  entries hold the descriptors in the order of the list, each with a runtime state
  of its own built from that descriptor; \<open>find_onoff_model\<close>, \<open>find_level_model\<close>,
  \<open>find_sensor_model\<close>, \<open>find_battery_model\<close> and \<open>find_vendor_model\<close> with index i
  return the runtime state of the i-th descriptor of their kind in registration
  order, counted from zero, and NULL when i is not below the number of descriptors
  of that kind; and whatever sequence of calls of the model API follows, each
  lookup returns the pointer it returned before.
\<close>

theorem find_model_by_kind:
  assumes "build_models user_models mcount s = Returned (ESP_OK, s')"
    and "registered_model_count s = 0" and "length (model_registry s) = MAX_MODELS"
  shows "map user_config (registered s') = take (unat mcount) user_models
     \<and> distinct (map runtime_state (registered s'))
     \<and> (\<forall>k < length (take (unat mcount) user_models).
          \<exists>p obj. runtime_state (model_registry s' ! k) = Some p \<and> objs s' p = Some obj
            \<and> built_from (take (unat mcount) user_models ! k) obj)
     \<and> find_onoff_model i s'
         = spec_find s' MESH_MODEL_TYPE_ONOFF (unat i) (take (unat mcount) user_models)
     \<and> find_level_model i s'
         = spec_find s' MESH_MODEL_TYPE_LEVEL (unat i) (take (unat mcount) user_models)
     \<and> find_sensor_model i s'
         = spec_find s' MESH_MODEL_TYPE_SENSOR (unat i) (take (unat mcount) user_models)
     \<and> find_battery_model i s'
         = spec_find s' MESH_MODEL_TYPE_BATTERY (unat i) (take (unat mcount) user_models)
     \<and> find_vendor_model i s'
         = spec_find s' MESH_MODEL_TYPE_VENDOR (unat i) (take (unat mcount) user_models)
     \<and> (run_api calls s' = Returned s'' \<longrightarrow>
          find_onoff_model i s'' = find_onoff_model i s'
          \<and> find_level_model i s'' = find_level_model i s'
          \<and> find_sensor_model i s'' = find_sensor_model i s'
          \<and> find_battery_model i s'' = find_battery_model i s'
          \<and> find_vendor_model i s'' = find_vendor_model i s')"
proof -
  define descs where "descs = take (unat mcount) user_models"
  from build_models_ok [OF assms] have ok: "registry_ok s'"
    and u: "map user_config (registered s') = descs"
    and len: "length (model_registry s') = MAX_MODELS"
    by (simp_all add: descs_def)
  have d: "distinct (map runtime_state (registered s'))"
    using ok unfolding registry_ok_def by simp
  have st: "\<forall>k < length descs.
          \<exists>p obj. runtime_state (model_registry s' ! k) = Some p \<and> objs s' p = Some obj
            \<and> built_from (descs ! k) obj"
    using registered_states [OF ok u] by blast
  note f = find_by_kind [OF ok u len]
  have stable: "run_api calls s' = Returned s'' \<longrightarrow>
          find_onoff_model i s'' = find_onoff_model i s'
          \<and> find_level_model i s'' = find_level_model i s'
          \<and> find_sensor_model i s'' = find_sensor_model i s'
          \<and> find_battery_model i s'' = find_battery_model i s'
          \<and> find_vendor_model i s'' = find_vendor_model i s'"
  proof
    assume "run_api calls s' = Returned s''"
    from same_registry_find [OF run_api_same_registry [OF this]]
    show "find_onoff_model i s'' = find_onoff_model i s'
          \<and> find_level_model i s'' = find_level_model i s'
          \<and> find_sensor_model i s'' = find_sensor_model i s'
          \<and> find_battery_model i s'' = find_battery_model i s'
          \<and> find_vendor_model i s'' = find_vendor_model i s'"
      by simp
  qed
  show ?thesis
    unfolding descs_def [symmetric]
    using u d st stable
    by (simp add: find_onoff_model_def find_level_model_def find_sensor_model_def
        find_battery_model_def find_vendor_model_def f)
qed

text \<open>
  Switch A, a dimmer, switch B, registered in this order: the switch lookup resolves
  0 to A's state and 1 to B's, past the dimmer, and 2 to NULL, before and after
  calls of the API.
\<close>

lemma two_switches_build:
  "\<exists>s' sa sb sc s''.
     build_models [switch_a, dimmer_c, switch_b] 3 (boot_state [] []) = Returned (ESP_OK, s')
     \<and> runtime_state (model_registry s' ! 0) = Some 2
     \<and> runtime_state (model_registry s' ! 1) = Some 3
     \<and> runtime_state (model_registry s' ! 2) = Some 4
     \<and> objs s' 2 = Some (ONOFF_STATE sa) \<and> onoff_cb sa = Some 1
     \<and> objs s' 3 = Some (LEVEL_STATE sc) \<and> level_cb sc = Some 3
     \<and> objs s' 4 = Some (ONOFF_STATE sb) \<and> onoff_cb sb = Some 2
     \<and> run_api [SET_ONOFF 1 1 True, SET_LEVEL 0 50 False, PUBLISH_ONOFF 0 1] s' = Returned s''"
  by (simp add: switch_a_def switch_b_def dimmer_c_def build_defs api_defs
      replicate_numeral_unfold take_numeral_Cons mesh_model_set_onoff_def
      mesh_model_publish_onoff_def mesh_model_set_level_def mesh_model_publish_level_def)

lemma two_switches_positions:
  "kind_positions MESH_MODEL_TYPE_ONOFF [switch_a, dimmer_c, switch_b] = [0, 2]
   \<and> kind_positions MESH_MODEL_TYPE_LEVEL [switch_a, dimmer_c, switch_b] = [1]
   \<and> kind_positions MESH_MODEL_TYPE_SENSOR [switch_a, dimmer_c, switch_b] = []"
  by (simp add: kind_positions_def switch_a_def switch_b_def dimmer_c_def MESH_MODEL_ONOFF_def
      MESH_MODEL_LEVEL_def zero_config_def upt_rec [of 0 3] upt_rec [of 1 3] upt_rec [of 2 3]
      numeral_3_eq_3)

theorem find_model_by_kind_witness:
  "\<exists>s' sa sb s''.
     build_models [switch_a, dimmer_c, switch_b] 3 (boot_state [] []) = Returned (ESP_OK, s')
     \<and> registered_model_count (boot_state [] []) = 0
     \<and> length (model_registry (boot_state [] [])) = MAX_MODELS
     \<and> find_onoff_model 0 s' = Some 2
     \<and> objs s' 2 = Some (ONOFF_STATE sa) \<and> onoff_cb sa = onoff_callback switch_a
     \<and> find_onoff_model 1 s' = Some 4
     \<and> objs s' 4 = Some (ONOFF_STATE sb) \<and> onoff_cb sb = onoff_callback switch_b
     \<and> find_onoff_model 2 s' = None
     \<and> find_level_model 0 s' = Some 3 \<and> find_level_model 1 s' = None
     \<and> find_sensor_model 0 s' = None
     \<and> run_api [SET_ONOFF 1 1 True, SET_LEVEL 0 50 False, PUBLISH_ONOFF 0 1] s' = Returned s''
     \<and> find_onoff_model 0 s'' = Some 2 \<and> find_onoff_model 1 s'' = Some 4
     \<and> find_level_model 0 s'' = Some 3"
proof -
  from two_switches_build obtain s' sa sb sc s'' where
    b: "build_models [switch_a, dimmer_c, switch_b] 3 (boot_state [] []) = Returned (ESP_OK, s')"
    and r: "runtime_state (model_registry s' ! 0) = Some 2"
      "runtime_state (model_registry s' ! 1) = Some 3"
      "runtime_state (model_registry s' ! 2) = Some 4"
    and oa: "objs s' 2 = Some (ONOFF_STATE sa)" and ca: "onoff_cb sa = Some 1"
    and ob: "objs s' 4 = Some (ONOFF_STATE sb)" and cb: "onoff_cb sb = Some 2"
    and run: "run_api [SET_ONOFF 1 1 True, SET_LEVEL 0 50 False, PUBLISH_ONOFF 0 1] s' = Returned s''"
    by (elim exE conjE)
  from r(2) have r1: "runtime_state (model_registry s' ! Suc 0) = Some 3" by simp
  have c0: "registered_model_count (boot_state [] []) = 0"
    and l0: "length (model_registry (boot_state [] [])) = MAX_MODELS"
    by (simp_all add: boot_state_def)
  from two_switches_positions
  have p: "kind_positions MESH_MODEL_TYPE_ONOFF [switch_a, dimmer_c, switch_b] = [0, 2]"
    "kind_positions MESH_MODEL_TYPE_LEVEL [switch_a, dimmer_c, switch_b] = [1]"
    "kind_positions MESH_MODEL_TYPE_SENSOR [switch_a, dimmer_c, switch_b] = []"
    by simp_all
  have tk: "take (unat (3 :: byte)) [switch_a, dimmer_c, switch_b] = [switch_a, dimmer_c, switch_b]"
    by simp
  note calls = find_model_by_kind [OF b c0 l0, unfolded tk]
  from calls [of 0 "[SET_ONOFF 1 1 True, SET_LEVEL 0 50 False, PUBLISH_ONOFF 0 1]" s''] run
  have f0: "find_onoff_model 0 s' = Some 2" and g0: "find_level_model 0 s' = Some 3"
    and h0: "find_sensor_model 0 s' = None"
    and f0': "find_onoff_model 0 s'' = find_onoff_model 0 s'"
    and g0': "find_level_model 0 s'' = find_level_model 0 s'"
    by (simp_all add: spec_find_def p r r1)
  from calls [of 1 "[SET_ONOFF 1 1 True, SET_LEVEL 0 50 False, PUBLISH_ONOFF 0 1]" s''] run
  have f1: "find_onoff_model 1 s' = Some 4" and g1: "find_level_model 1 s' = None"
    and f1': "find_onoff_model 1 s'' = find_onoff_model 1 s'"
    by (simp_all add: spec_find_def p r r1)
  from calls [of 2 "[]" s']
  have f2: "find_onoff_model 2 s' = None"
    by (simp add: spec_find_def p)
  have ka: "onoff_cb sa = onoff_callback switch_a" and kb: "onoff_cb sb = onoff_callback switch_b"
    by (simp_all add: ca cb switch_a_def switch_b_def MESH_MODEL_ONOFF_def zero_config_def)
  have "build_models [switch_a, dimmer_c, switch_b] 3 (boot_state [] []) = Returned (ESP_OK, s')
     \<and> registered_model_count (boot_state [] []) = 0
     \<and> length (model_registry (boot_state [] [])) = MAX_MODELS
     \<and> find_onoff_model 0 s' = Some 2
     \<and> objs s' 2 = Some (ONOFF_STATE sa) \<and> onoff_cb sa = onoff_callback switch_a
     \<and> find_onoff_model 1 s' = Some 4
     \<and> objs s' 4 = Some (ONOFF_STATE sb) \<and> onoff_cb sb = onoff_callback switch_b
     \<and> find_onoff_model 2 s' = None
     \<and> find_level_model 0 s' = Some 3 \<and> find_level_model 1 s' = None
     \<and> find_sensor_model 0 s' = None
     \<and> run_api [SET_ONOFF 1 1 True, SET_LEVEL 0 50 False, PUBLISH_ONOFF 0 1] s' = Returned s''
     \<and> find_onoff_model 0 s'' = Some 2 \<and> find_onoff_model 1 s'' = Some 4
     \<and> find_level_model 0 s'' = Some 3"
    using b c0 l0 f0 oa ka f1 ob kb f2 g0 g1 h0 run f0' f1' g0' by simp
  then show ?thesis by (intro exI)
qed

section \<open>Properties of the initialisation\<close>

lemmas init_defs = node_init_def nvs_stage_def bluetooth_init_def ok_platform_def
  build_config_server_only_def build_element_def

lemma node_init_null_config: "node_init None pf s = Returned (ESP_ERR_INVALID_ARG, s)"
  by (simp add: node_init_def)

lemma node_init_null_list:
  "node_init (Some \<lparr>models = None, model_count = n\<rparr>) pf s
   = node_init (Some \<lparr>models = None, model_count = 0\<rparr>) pf s"
  by (simp add: node_init_def cong: if_cong)

lemma build_model_over_capacity:
  "MAX_MODELS \<le> unat (registered_model_count s) \<Longrightarrow>
   build_model c sl vl s = Crashed OUT_OF_BOUNDS"
  by (simp add: build_model_def)

lemma build_model_unknown_kind:
  assumes "unat (registered_model_count s) < MAX_MODELS"
    and "type c \<notin> {MESH_MODEL_TYPE_ONOFF, MESH_MODEL_TYPE_LEVEL, MESH_MODEL_TYPE_SENSOR,
                    MESH_MODEL_TYPE_VENDOR, MESH_MODEL_TYPE_BATTERY}"
  shows "build_model c sl vl s = Returned (ESP_ERR_INVALID_ARG, sl, vl,
           register_config c (unat (registered_model_count s)) s)"
  using assms by (cases "type c") (simp_all add: build_model_def)

text \<open>
  C3. \<open>node_init\<close> returns \<open>ESP_ERR_INVALID_ARG\<close> for a NULL configuration, and for a
  descriptor whose kind the \<open>switch\<close> of \<open>build_models\<close> does not handle. For a
  NULL descriptor list with a count of 3 it takes the branch "no models
  configured" and returns \<open>ESP_OK\<close> with the configuration server alone. For nine
  switch descriptors, one more than \<open>MAX_MODELS\<close>, no code compares the count with
  the capacity: the ninth pass of the loop of \<open>build_models\<close> writes
  \<open>model_registry[8]\<close>, past the array.
\<close>

theorem node_init_rejections:
  "node_init None pf s = Returned (ESP_ERR_INVALID_ARG, s)
   \<and> (\<exists>t. node_init (Some \<lparr>models = Some [MESH_MODEL_ONOFF None 0 None,
                                           zero_config\<lparr>type := MESH_MODEL_TYPE_POWER_LEVEL\<rparr>],
                          model_count = 2\<rparr>) ok_platform (boot_state [] [])
            = Returned (ESP_ERR_INVALID_ARG, t))
   \<and> (\<exists>t. node_init (Some \<lparr>models = None, model_count = 3\<rparr>) ok_platform (boot_state [] [])
            = Returned (ESP_OK, t)
          \<and> sig_model_count t = 1 \<and> vnd_model_count t = 0 \<and> registered_model_count t = 0)
   \<and> build_models (replicate 9 (MESH_MODEL_ONOFF None 0 None)) 9 (boot_state [] [])
       = Crashed OUT_OF_BOUNDS
   \<and> node_init (Some \<lparr>models = Some (replicate 9 (MESH_MODEL_ONOFF None 0 None)),
                      model_count = 9\<rparr>) ok_platform (boot_state [] [])
       = Crashed OUT_OF_BOUNDS"
  by (simp add: init_defs build_defs replicate_numeral_unfold take_numeral_Cons
      ESP_BLE_MESH_MODEL_CFG_SRV_def zero_model_def)

end
